theory Spec2Isabelle
  imports Main "HOL-Library.Word" "HOL-Library.AList"
begin

section \<open>Strings and JSON values of the host language\<close>

text \<open>
  A string of the source language is a sequence of UTF-16 code units, so
  \<open>length\<close> is \<open>.length\<close>, \<open>take 30\<close> is \<open>.substring(0, 30)\<close> and the
  ideographic full stop is the single unit \<open>0x3002\<close>.  \<open>js\<close> embeds an ASCII
  literal.
\<close>

type_synonym jschar = "16 word"
type_synonym jsstring = "jschar list"

definition js :: "string \<Rightarrow> jsstring" where
  "js s = map (\<lambda>c. of_nat (of_char c)) s"

text \<open>\<open>WhiteSpace\<close> and \<open>LineTerminator\<close> of ECMAScript: what \<open>String.prototype.trim\<close> strips.\<close>

definition is_js_whitespace :: "jschar \<Rightarrow> bool" where
  "is_js_whitespace c \<longleftrightarrow>
     c = 0x0009 \<or> c = 0x000A \<or> c = 0x000B \<or> c = 0x000C \<or> c = 0x000D \<or> c = 0x0020 \<or>
     c = 0x00A0 \<or> c = 0x1680 \<or> (0x2000 \<le> c \<and> c \<le> 0x200A) \<or> c = 0x2028 \<or>
     c = 0x2029 \<or> c = 0x202F \<or> c = 0x205F \<or> c = 0x3000 \<or> c = 0xFEFF"

definition trim :: "jsstring \<Rightarrow> jsstring" where
  "trim s = rev (dropWhile is_js_whitespace (rev (dropWhile is_js_whitespace s)))"

text \<open>\<open>parts.join(sep)\<close>.\<close>

fun join :: "jsstring \<Rightarrow> jsstring list \<Rightarrow> jsstring" where
  "join sep [] = []"
| "join sep [p] = p"
| "join sep (p # q # ps) = p @ sep @ join sep (q # ps)"

text \<open>
  JSON values.  Numbers are kept as integers: the engine never computes with
  them, it only tests whether a value is truthy.
\<close>

datatype json =
    JNull
  | JBool bool
  | JNumber int
  | JString jsstring
  | JArray "json list"
  | JObject "(jsstring \<times> json) list"

fun js_truthy :: "json \<Rightarrow> bool" where
  "js_truthy JNull = False"
| "js_truthy (JBool b) = b"
| "js_truthy (JNumber n) = (n \<noteq> 0)"
| "js_truthy (JString s) = (s \<noteq> [])"
| "js_truthy (JArray _) = True"
| "js_truthy (JObject _) = True"

text \<open>Truthiness of an optional string (\<open>undefined\<close>, \<open>null\<close> and \<open>''\<close> are falsy).\<close>

fun str_truthy :: "jsstring option \<Rightarrow> bool" where
  "str_truthy None = False"
| "str_truthy (Some s) = (s \<noteq> [])"

text \<open>
  What the engine takes from outside this file: the built-ins \<open>JSON.parse\<close>
  (\<open>None\<close> when it throws), \<open>JSON.stringify(v)\<close>, \<open>JSON.stringify(v, null, 2)\<close>,
  \<open>String(v)\<close>, \<open>Date.prototype.toLocaleString\<close> and \<open>toISOString\<close>, and the
  repository's \<open>parsePartialJson\<close> (renderer/utils/parsePartialJson, \<open>None\<close> when
  it returns \<open>null\<close> or \<open>undefined\<close>), whose source is not among the files.
\<close>

record platform =
  JSON_parse :: "jsstring \<Rightarrow> json option"
  JSON_stringify :: "json \<Rightarrow> jsstring"
  JSON_stringify2 :: "json \<Rightarrow> jsstring"
  String_of :: "json \<Rightarrow> jsstring"
  toLocaleString :: "int \<Rightarrow> jsstring"
  toISOString :: "int \<Rightarrow> jsstring"
  parsePartialJson :: "jsstring \<Rightarrow> json option"

section \<open>Data model\<close>

datatype SessionState = Idle | Running | Error

record SubagentToolCall =
  sc_id :: jsstring
  sc_name :: jsstring
  sc_input :: json
  sc_streamIndex :: "nat option"
  sc_inputJson :: "jsstring option"
  sc_parsedInput :: "json option"
  sc_result :: "jsstring option"
  sc_isLoading :: "bool option"
  sc_isError :: "bool option"

record ToolUseState =
  t_id :: jsstring
  t_name :: jsstring
  t_input :: json
  t_streamIndex :: nat
  t_inputJson :: "jsstring option"
  t_parsedInput :: "json option"
  t_result :: "jsstring option"
  t_isLoading :: "bool option"
  t_isError :: "bool option"
  t_subagentCalls :: "SubagentToolCall list option"

text \<open>
  A thinking block; \<open>isComplete\<close> unset reads as \<open>False\<close>.  Times are
  \<open>Date.now()\<close> in milliseconds.
\<close>

record ThinkingState =
  thinking :: jsstring
  thinkingStartedAt :: int
  thinkingDurationMs :: "int option"
  thinkingStreamIndex :: nat
  isComplete :: bool

datatype ContentBlock =
    TextBlock jsstring
  | ThinkingBlock ThinkingState
  | ToolUseBlock ToolUseState

datatype Role = User | Assistant

datatype Content = Str jsstring | Blocks "ContentBlock list"

text \<open>A message id is \<open>String(messageSequence++)\<close>; the number itself is kept.\<close>

record MessageWire =
  m_id :: nat
  m_role :: Role
  m_content :: Content
  m_timestamp :: int

record SessionMetadata =
  md_id :: jsstring
  md_name :: jsstring
  md_createdAt :: int
  md_lastMessageAt :: int
  md_state :: SessionState
  md_messageCount :: nat

record SystemInitInfo =
  si_timestamp :: int
  si_fields :: "(jsstring \<times> json) list"

record ToolPayload =
  tp_id :: jsstring
  tp_name :: jsstring
  tp_input :: json
  tp_streamIndex :: "nat option"

text \<open>
  \<open>broadcast(event, payload, sessionId)\<close>: one constructor for every event
  name the engine sends.  A session's broadcasts are collected, in order, in
  its \<open>outbox\<close>; the registry's in \<open>registryOutbox\<close>.
\<close>

datatype notification =
    ChatStatus SessionState
  | ChatLog jsstring
  | ChatSystemInit SystemInitInfo
  | ChatAgentError jsstring
  | ChatMessageChunk jsstring
  | ChatThinkingStart nat
  | ChatThinkingChunk nat jsstring
  | ChatToolUseStart ToolPayload
  | ChatSubagentToolUse jsstring ToolPayload
  | ChatToolInputDelta nat jsstring jsstring
  | ChatSubagentToolInputDelta jsstring jsstring jsstring
  | ChatToolResultStart jsstring jsstring bool
  | ChatSubagentToolResultStart jsstring jsstring jsstring bool
  | ChatToolResultDelta jsstring jsstring
  | ChatSubagentToolResultDelta jsstring jsstring jsstring
  | ChatToolResultComplete jsstring jsstring "bool option"
  | ChatSubagentToolResultComplete jsstring jsstring jsstring "bool option"
  | ChatContentBlockStop nat "jsstring option"
  | ChatMessageComplete
  | ChatMessageStopped
  | ChatMessageError jsstring
  | ChatMessageReplay MessageWire
  | SessionCreated SessionMetadata
  | SessionDeleted jsstring
  | SessionSwitched jsstring
  | SessionUpdated SessionMetadata

text \<open>
  The runtime handle returned by \<open>query\<close>; the engine only ever calls
  \<open>interrupt()\<close> on it, and the handle counts those calls.
\<close>

record Query =
  interruptCalls :: nat

text \<open>
  The Session class.  \<open>sessionTerminationPromise\<close> is \<open>None\<close> (null),
  \<open>Some False\<close> (pending) or \<open>Some True\<close> (resolved); \<open>logStream\<close> says
  whether a log file is open; the queue keeps the text of each pending turn.
\<close>

record Session =
  sid :: jsstring
  sname :: jsstring
  createdAt :: int
  lastMessageAt :: int
  sessionState :: SessionState
  querySession :: "Query option"
  isProcessing :: bool
  shouldAbortSession :: bool
  sessionTerminationPromise :: "bool option"
  isInterruptingResponse :: bool
  isStreamingMessage :: bool
  messages :: "MessageWire list"
  streamIndexToToolId :: "(nat \<times> jsstring) list"
  toolResultIndexToId :: "(nat \<times> jsstring) list"
  childToolToParent :: "(jsstring \<times> jsstring) list"
  messageSequence :: nat
  logStream :: bool
  logLines :: "jsstring list"
  systemInitInfo :: "SystemInitInfo option"
  messageQueue :: "jsstring list"
  outbox :: "notification list"

record SessionManager =
  sessions :: "(jsstring \<times> Session) list"
  activeSessionId :: "jsstring option"
  agentDir :: jsstring
  registryOutbox :: "notification list"

section \<open>The Session class\<close>

definition broadcast :: "notification \<Rightarrow> Session \<Rightarrow> Session" where
  "broadcast n s = s\<lparr>outbox := outbox s @ [n]\<rparr>"

text \<open>\<open>new Session()\<close> with the id \<open>randomUUID()\<close> returned and the clock at \<open>now\<close>.\<close>

definition new_Session :: "platform \<Rightarrow> jsstring \<Rightarrow> int \<Rightarrow> Session" where
  "new_Session pf uid now =
     \<lparr> sid = uid, sname = js ''Session '' @ toLocaleString pf now,
       createdAt = now, lastMessageAt = now,
       sessionState = Idle, querySession = None, isProcessing = False,
       shouldAbortSession = False, sessionTerminationPromise = None,
       isInterruptingResponse = False, isStreamingMessage = False,
       messages = [], streamIndexToToolId = [], toolResultIndexToId = [],
       childToolToParent = [], messageSequence = 0,
       logStream = False, logLines = [], systemInitInfo = None,
       messageQueue = [], outbox = [] \<rparr>"

definition getMetadata :: "Session \<Rightarrow> SessionMetadata" where
  "getMetadata s =
     \<lparr> md_id = sid s, md_name = sname s, md_createdAt = createdAt s,
       md_lastMessageAt = lastMessageAt s, md_state = sessionState s,
       md_messageCount = length (messages s) \<rparr>"

text \<open>\<open>firstMessage.substring(0, 30).split(/[\<dots>\n]/)[0]\<close>: the part before the first
  ideographic full stop or line feed of the first 30 units.\<close>

definition autoGenerateName :: "jsstring \<Rightarrow> jsstring" where
  "autoGenerateName firstMessage =
     (let preview = takeWhile (\<lambda>c. c \<noteq> 0x3002 \<and> c \<noteq> 0x000A) (take 30 firstMessage)
      in preview @ (if length firstMessage > 30 then js ''...'' else []))"

definition updateNameFromFirstMessage :: "Session \<Rightarrow> Session" where
  "updateNameFromFirstMessage s =
     (case messages s of
        [m] \<Rightarrow>
          if m_role m = User
          then s\<lparr>sname := autoGenerateName (case m_content m of Str t \<Rightarrow> t | Blocks _ \<Rightarrow> [])\<rparr>
          else s
      | _ \<Rightarrow> s)"

definition setSessionState :: "SessionState \<Rightarrow> Session \<Rightarrow> Session" where
  "setSessionState nextState s =
     (if sessionState s = nextState then s
      else broadcast (ChatStatus nextState) (s\<lparr>sessionState := nextState\<rparr>))"

definition ensureAssistantMessage :: "int \<Rightarrow> Session \<Rightarrow> Session" where
  "ensureAssistantMessage now s =
     (if messages s \<noteq> [] \<and> m_role (last (messages s)) = Assistant \<and> isStreamingMessage s
      then s
      else s\<lparr>messages := messages s @
                 [\<lparr>m_id = messageSequence s, m_role = Assistant, m_content = Str [],
                   m_timestamp = now\<rparr>],
              messageSequence := Suc (messageSequence s),
              isStreamingMessage := True\<rparr>)"

text \<open>\<open>ensureContentArray\<close> turns a string content into a block array, in place.\<close>

definition ensureContentArray :: "MessageWire \<Rightarrow> MessageWire" where
  "ensureContentArray m =
     (case m_content m of
        Str t \<Rightarrow> m\<lparr>m_content := Blocks (if t \<noteq> [] then [TextBlock t] else [])\<rparr>
      | Blocks _ \<Rightarrow> m)"

fun contentArray :: "MessageWire \<Rightarrow> ContentBlock list" where
  "contentArray m = (case m_content m of Blocks bs \<Rightarrow> bs | Str _ \<Rightarrow> [])"

text \<open>Mutation of the last message of the log (the one \<open>ensureAssistantMessage\<close> returned).\<close>

fun map_last :: "('a \<Rightarrow> 'a) \<Rightarrow> 'a list \<Rightarrow> 'a list" where
  "map_last f [] = []"
| "map_last f [x] = [f x]"
| "map_last f (x # y # ys) = x # map_last f (y # ys)"

text \<open>\<open>const b = xs.find(P); if (b) mutate(b)\<close>: the first element that satisfies \<open>P\<close>.\<close>

fun update_first :: "('a \<Rightarrow> bool) \<Rightarrow> ('a \<Rightarrow> 'a) \<Rightarrow> 'a list \<Rightarrow> 'a list" where
  "update_first P f [] = []"
| "update_first P f (x # xs) = (if P x then f x # xs else x # update_first P f xs)"

text \<open>The opening of every streaming handler:
  \<open>message = ensureAssistantMessage(); contentArray = ensureContentArray(message)\<close>.\<close>

definition openContentArray :: "int \<Rightarrow> Session \<Rightarrow> Session" where
  "openContentArray now s =
     (let s1 = ensureAssistantMessage now s
      in s1\<lparr>messages := map_last ensureContentArray (messages s1)\<rparr>)"

definition currentBlocks :: "Session \<Rightarrow> ContentBlock list" where
  "currentBlocks s = (case messages s of [] \<Rightarrow> [] | _ \<Rightarrow> contentArray (last (messages s)))"

definition mutateBlocks :: "(ContentBlock list \<Rightarrow> ContentBlock list) \<Rightarrow> Session \<Rightarrow> Session" where
  "mutateBlocks f s =
     s\<lparr>messages := map_last (\<lambda>m. m\<lparr>m_content := Blocks (f (contentArray m))\<rparr>) (messages s)\<rparr>"

definition appendTextChunk :: "int \<Rightarrow> jsstring \<Rightarrow> Session \<Rightarrow> Session" where
  "appendTextChunk now chunk s =
     (let s1 = ensureAssistantMessage now s
      in s1\<lparr>messages :=
            map_last (\<lambda>m. case m_content m of
                Str t \<Rightarrow> m\<lparr>m_content := Str (t @ chunk)\<rparr>
              | Blocks bs \<Rightarrow>
                  (case (if bs = [] then None else Some (last bs)) of
                     Some (TextBlock t) \<Rightarrow> m\<lparr>m_content := Blocks (butlast bs @ [TextBlock (t @ chunk)])\<rparr>
                   | _ \<Rightarrow> m\<lparr>m_content := Blocks (bs @ [TextBlock chunk])\<rparr>))
              (messages s1)\<rparr>)"

fun is_tool_with_id :: "jsstring \<Rightarrow> ContentBlock \<Rightarrow> bool" where
  "is_tool_with_id i (ToolUseBlock t) = (t_id t = i)"
| "is_tool_with_id i _ = False"

fun map_tool :: "(ToolUseState \<Rightarrow> ToolUseState) \<Rightarrow> ContentBlock \<Rightarrow> ContentBlock" where
  "map_tool f (ToolUseBlock t) = ToolUseBlock (f t)"
| "map_tool f b = b"

fun tool_of :: "ContentBlock \<Rightarrow> ToolUseState option" where
  "tool_of (ToolUseBlock t) = Some t"
| "tool_of _ = None"

text \<open>
  \<open>findToolBlockById\<close> walks the log from the last message to the first,
  skips user messages and string contents, and returns the first tool block
  with the id.  \<open>find_tool_rev\<close> is its loop, on the reversed log.
\<close>

fun find_tool_rev :: "jsstring \<Rightarrow> MessageWire list \<Rightarrow> ToolUseState option" where
  "find_tool_rev i [] = None"
| "find_tool_rev i (m # ms) =
     (if m_role m \<noteq> Assistant then find_tool_rev i ms
      else case m_content m of
        Str _ \<Rightarrow> find_tool_rev i ms
      | Blocks bs \<Rightarrow>
         (case find (is_tool_with_id i) bs of
            Some b \<Rightarrow> tool_of b
          | None \<Rightarrow> find_tool_rev i ms))"

definition findToolBlockById :: "Session \<Rightarrow> jsstring \<Rightarrow> ToolUseState option" where
  "findToolBlockById s toolUseId = find_tool_rev toolUseId (rev (messages s))"

text \<open>
  The handlers mutate the record \<open>findToolBlockById\<close> returned; \<open>mutateTool\<close>
  is that mutation, applied at the place where the search stops.
\<close>

fun mutate_tool_rev ::
  "jsstring \<Rightarrow> (ToolUseState \<Rightarrow> ToolUseState) \<Rightarrow> MessageWire list \<Rightarrow> MessageWire list" where
  "mutate_tool_rev i f [] = []"
| "mutate_tool_rev i f (m # ms) =
     (if m_role m \<noteq> Assistant then m # mutate_tool_rev i f ms
      else case m_content m of
        Str _ \<Rightarrow> m # mutate_tool_rev i f ms
      | Blocks bs \<Rightarrow>
         (case find (is_tool_with_id i) bs of
            Some b \<Rightarrow> m\<lparr>m_content := Blocks (update_first (is_tool_with_id i) (map_tool f) bs)\<rparr> # ms
          | None \<Rightarrow> m # mutate_tool_rev i f ms))"

definition mutateTool ::
  "jsstring \<Rightarrow> (ToolUseState \<Rightarrow> ToolUseState) \<Rightarrow> Session \<Rightarrow> Session" where
  "mutateTool toolUseId f s =
     s\<lparr>messages := rev (mutate_tool_rev toolUseId f (rev (messages s)))\<rparr>"

text \<open>\<open>createLogStream\<close>: closes an open log file, opens a new one, clears the ring.\<close>

definition createLogStream :: "Session \<Rightarrow> Session" where
  "createLogStream s = s\<lparr>logStream := True, logLines := []\<rparr>"

definition appendLogLine :: "jsstring \<Rightarrow> Session \<Rightarrow> Session" where
  "appendLogLine line s =
     (let ls = logLines s @ [line];
          ls' = (if length ls > 2000 then tl ls else ls)
      in broadcast (ChatLog line) (s\<lparr>logLines := ls'\<rparr>))"

definition isSessionActive :: "Session \<Rightarrow> bool" where
  "isSessionActive s \<longleftrightarrow> isProcessing s \<or> querySession s \<noteq> None"

section \<open>The SessionManager class\<close>

definition broadcastRegistry :: "notification \<Rightarrow> SessionManager \<Rightarrow> SessionManager" where
  "broadcastRegistry n m = m\<lparr>registryOutbox := registryOutbox m @ [n]\<rparr>"

definition new_SessionManager :: SessionManager where
  "new_SessionManager = \<lparr> sessions = [], activeSessionId = None, agentDir = [], registryOutbox = [] \<rparr>"

text \<open>\<open>createSession\<close> returns the manager and the new session.\<close>

definition createSession :: "platform \<Rightarrow> jsstring \<Rightarrow> int \<Rightarrow> SessionManager \<Rightarrow> SessionManager \<times> Session" where
  "createSession pf uid now m =
     (let session = createLogStream (new_Session pf uid now);
          m1 = m\<lparr>sessions := AList.update (sid session) session (sessions m)\<rparr>;
          m2 = (if \<not> str_truthy (activeSessionId m1)
                then m1\<lparr>activeSessionId := Some (sid session)\<rparr> else m1)
      in (broadcastRegistry (SessionCreated (getMetadata session)) m2, session))"

definition getSession :: "SessionManager \<Rightarrow> jsstring \<Rightarrow> Session option" where
  "getSession m i = map_of (sessions m) i"

definition getActiveSession :: "SessionManager \<Rightarrow> Session option" where
  "getActiveSession m =
     (case activeSessionId m of
        None \<Rightarrow> None
      | Some i \<Rightarrow> if i = [] then None else map_of (sessions m) i)"

definition setActiveSession :: "jsstring \<Rightarrow> SessionManager \<Rightarrow> bool \<times> SessionManager" where
  "setActiveSession i m =
     (case map_of (sessions m) i of
        None \<Rightarrow> (False, m)
      | Some session \<Rightarrow> (True, broadcastRegistry (SessionSwitched i) (m\<lparr>activeSessionId := Some i\<rparr>)))"

definition deleteSession :: "jsstring \<Rightarrow> SessionManager \<Rightarrow> bool \<times> SessionManager" where
  "deleteSession i m =
     (case map_of (sessions m) i of
        None \<Rightarrow> (False, m)
      | Some session \<Rightarrow>
          if sessionState session = Running then (False, m)
          else
            let m1 = broadcastRegistry (SessionDeleted i) (m\<lparr>sessions := AList.delete i (sessions m)\<rparr>);
                m2 = (if activeSessionId m1 = Some i
                      then (case map snd (sessions m1) of
                              r # _ \<Rightarrow> snd (setActiveSession (sid r) m1)
                            | [] \<Rightarrow> m1\<lparr>activeSessionId := None\<rparr>)
                      else m1)
            in (True, m2))"

definition getOrCreateActiveSession ::
  "platform \<Rightarrow> jsstring \<Rightarrow> int \<Rightarrow> SessionManager \<Rightarrow> SessionManager \<times> Session" where
  "getOrCreateActiveSession pf uid now m =
     (case getActiveSession m of
        Some session \<Rightarrow> (m, session)
      | None \<Rightarrow> createSession pf uid now m)"

section \<open>Streaming handlers\<close>

definition handleThinkingStart :: "int \<Rightarrow> nat \<Rightarrow> Session \<Rightarrow> Session" where
  "handleThinkingStart now index s =
     mutateBlocks (\<lambda>bs. bs @ [ThinkingBlock \<lparr>thinking = [], thinkingStartedAt = now,
                                   thinkingDurationMs = None, thinkingStreamIndex = index,
                                   isComplete = False\<rparr>])
       (openContentArray now s)"

fun is_open_thinking :: "nat \<Rightarrow> ContentBlock \<Rightarrow> bool" where
  "is_open_thinking index (ThinkingBlock t) = (thinkingStreamIndex t = index \<and> \<not> isComplete t)"
| "is_open_thinking index _ = False"

fun map_thinking :: "(ThinkingState \<Rightarrow> ThinkingState) \<Rightarrow> ContentBlock \<Rightarrow> ContentBlock" where
  "map_thinking f (ThinkingBlock t) = ThinkingBlock (f t)"
| "map_thinking f b = b"

definition handleThinkingChunk :: "int \<Rightarrow> nat \<Rightarrow> jsstring \<Rightarrow> Session \<Rightarrow> Session" where
  "handleThinkingChunk now index delta s =
     mutateBlocks
       (update_first (is_open_thinking index) (map_thinking (\<lambda>t. t\<lparr>thinking := thinking t @ delta\<rparr>)))
       (openContentArray now s)"

definition handleToolUseStart ::
  "int \<Rightarrow> jsstring \<Rightarrow> jsstring \<Rightarrow> json \<Rightarrow> nat \<Rightarrow> Session \<Rightarrow> Session" where
  "handleToolUseStart now tid tname tinput index s =
     mutateBlocks (\<lambda>bs. bs @ [ToolUseBlock \<lparr>t_id = tid, t_name = tname, t_input = tinput,
                                  t_streamIndex = index, t_inputJson = Some [],
                                  t_parsedInput = None, t_result = None, t_isLoading = None,
                                  t_isError = None, t_subagentCalls = None\<rparr>])
       (openContentArray now s)"

text \<open>\<open>calls_of t\<close> is the call list after \<open>if (!tool.subagentCalls) tool.subagentCalls = []\<close>.\<close>

definition calls_of :: "ToolUseState \<Rightarrow> SubagentToolCall list" where
  "calls_of t = (case t_subagentCalls t of None \<Rightarrow> [] | Some cs \<Rightarrow> cs)"

definition handleSubagentToolUseStart ::
  "platform \<Rightarrow> jsstring \<Rightarrow> ToolPayload \<Rightarrow> Session \<Rightarrow> Session" where
  "handleSubagentToolUseStart pf parentToolUseId tool s =
     (case findToolBlockById s parentToolUseId of
        None \<Rightarrow> s
      | Some parentTool \<Rightarrow>
          mutateTool parentToolUseId
            (\<lambda>t. case find (\<lambda>c. sc_id c = tp_id tool) (calls_of t) of
                Some existing \<Rightarrow>
                  t\<lparr>t_subagentCalls := Some (update_first (\<lambda>c. sc_id c = tp_id tool)
                       (\<lambda>c. c\<lparr>sc_name := tp_name tool, sc_input := tp_input tool,
                              sc_streamIndex := tp_streamIndex tool\<rparr>) (calls_of t))\<rparr>
              | None \<Rightarrow>
                  t\<lparr>t_subagentCalls := Some (calls_of t @
                       [\<lparr>sc_id = tp_id tool, sc_name = tp_name tool, sc_input = tp_input tool,
                         sc_streamIndex = tp_streamIndex tool,
                         sc_inputJson = Some (JSON_stringify2 pf (tp_input tool)),
                         sc_parsedInput = None, sc_result = None, sc_isLoading = Some True,
                         sc_isError = None\<rparr>])\<rparr>)
            (s\<lparr>childToolToParent := AList.update (tp_id tool) parentToolUseId (childToolToParent s)\<rparr>))"

definition ensureSubagentToolPlaceholder :: "jsstring \<Rightarrow> jsstring \<Rightarrow> Session \<Rightarrow> Session" where
  "ensureSubagentToolPlaceholder parentToolUseId toolUseId s =
     (case findToolBlockById s parentToolUseId of
        None \<Rightarrow> s
      | Some parentTool \<Rightarrow>
          (case find (\<lambda>c. sc_id c = toolUseId) (calls_of parentTool) of
             Some existing \<Rightarrow> s
           | None \<Rightarrow>
               mutateTool parentToolUseId
                 (\<lambda>t. t\<lparr>t_subagentCalls := Some (calls_of t @
                      [\<lparr>sc_id = toolUseId, sc_name = js ''Tool'', sc_input = JObject [],
                        sc_streamIndex = None, sc_inputJson = Some (js ''{}''),
                        sc_parsedInput = None, sc_result = None, sc_isLoading = Some True,
                        sc_isError = None\<rparr>])\<rparr>)
                 (s\<lparr>childToolToParent :=
                      AList.update toolUseId parentToolUseId (childToolToParent s)\<rparr>)))"

text \<open>\<open>const parsed = parsePartialJson(json); if (parsed) record.parsedInput = parsed\<close>.\<close>

definition reparse :: "platform \<Rightarrow> jsstring \<Rightarrow> json option \<Rightarrow> json option" where
  "reparse pf inputJson cached =
     (case parsePartialJson pf inputJson of
        Some v \<Rightarrow> if js_truthy v then Some v else cached
      | None \<Rightarrow> cached)"

definition toolInputDelta :: "platform \<Rightarrow> jsstring \<Rightarrow> ToolUseState \<Rightarrow> ToolUseState" where
  "toolInputDelta pf delta t =
     (let newInputJson = (case t_inputJson t of None \<Rightarrow> [] | Some j \<Rightarrow> j) @ delta
      in t\<lparr>t_inputJson := Some newInputJson,
           t_parsedInput := reparse pf newInputJson (t_parsedInput t)\<rparr>)"

definition handleToolInputDelta ::
  "platform \<Rightarrow> int \<Rightarrow> nat \<Rightarrow> jsstring \<Rightarrow> jsstring \<Rightarrow> Session \<Rightarrow> Session" where
  "handleToolInputDelta pf now index toolId delta s =
     mutateBlocks (update_first (is_tool_with_id toolId) (map_tool (toolInputDelta pf delta)))
       (openContentArray now s)"

definition subagentInputDelta :: "platform \<Rightarrow> jsstring \<Rightarrow> SubagentToolCall \<Rightarrow> SubagentToolCall" where
  "subagentInputDelta pf delta c =
     (let newInputJson = (case sc_inputJson c of None \<Rightarrow> [] | Some j \<Rightarrow> j) @ delta
      in c\<lparr>sc_inputJson := Some newInputJson,
           sc_parsedInput := reparse pf newInputJson (sc_parsedInput c)\<rparr>)"

text \<open>
  The lookup shared by the subagent handlers: the parent's record, its call
  list (\<open>undefined\<close> ends the handler), the first call with the id.
\<close>

definition mutateSubCall ::
  "jsstring \<Rightarrow> jsstring \<Rightarrow> (SubagentToolCall \<Rightarrow> SubagentToolCall) \<Rightarrow> Session \<Rightarrow> bool \<times> Session" where
  "mutateSubCall parentToolUseId toolId f s =
     (case findToolBlockById s parentToolUseId of
        None \<Rightarrow> (False, s)
      | Some parentTool \<Rightarrow>
          (case t_subagentCalls parentTool of
             None \<Rightarrow> (False, s)
           | Some calls \<Rightarrow>
               (case find (\<lambda>c. sc_id c = toolId) calls of
                  None \<Rightarrow> (False, s)
                | Some subCall \<Rightarrow>
                    (True, mutateTool parentToolUseId
                       (\<lambda>t. t\<lparr>t_subagentCalls :=
                              Some (update_first (\<lambda>c. sc_id c = toolId) f calls)\<rparr>) s))))"

definition handleSubagentToolInputDelta ::
  "platform \<Rightarrow> jsstring \<Rightarrow> jsstring \<Rightarrow> jsstring \<Rightarrow> Session \<Rightarrow> Session" where
  "handleSubagentToolInputDelta pf parentToolUseId toolId delta s =
     snd (mutateSubCall parentToolUseId toolId (subagentInputDelta pf delta) s)"

text \<open>The final parse at a stop: \<open>JSON.parse\<close>, and the reconstructor when it throws.\<close>

definition finalParse :: "platform \<Rightarrow> jsstring option \<Rightarrow> json option \<Rightarrow> json option" where
  "finalParse pf inputJson cached =
     (if str_truthy inputJson
      then (case JSON_parse pf (the inputJson) of
              Some v \<Rightarrow> Some v
            | None \<Rightarrow> reparse pf (the inputJson) cached)
      else cached)"

definition finalizeSubagentToolInput ::
  "platform \<Rightarrow> jsstring \<Rightarrow> jsstring \<Rightarrow> Session \<Rightarrow> Session" where
  "finalizeSubagentToolInput pf parentToolUseId toolId s =
     snd (mutateSubCall parentToolUseId toolId
            (\<lambda>c. c\<lparr>sc_parsedInput := finalParse pf (sc_inputJson c) (sc_parsedInput c)\<rparr>) s)"

fun is_tool_with_index :: "nat \<Rightarrow> ContentBlock \<Rightarrow> bool" where
  "is_tool_with_index index (ToolUseBlock t) = (t_streamIndex t = index)"
| "is_tool_with_index index _ = False"

definition completeThinking :: "int \<Rightarrow> ThinkingState \<Rightarrow> ThinkingState" where
  "completeThinking now t =
     t\<lparr>isComplete := True,
       thinkingDurationMs :=
         (if thinkingStartedAt t \<noteq> 0 then Some (now - thinkingStartedAt t) else None)\<rparr>"

definition handleContentBlockStop ::
  "platform \<Rightarrow> int \<Rightarrow> nat \<Rightarrow> jsstring option \<Rightarrow> Session \<Rightarrow> Session" where
  "handleContentBlockStop pf now index toolId s =
     (let s1 = openContentArray now s
      in case find (is_open_thinking index) (currentBlocks s1) of
           Some thinkingBlock \<Rightarrow>
             mutateBlocks (update_first (is_open_thinking index)
                             (map_thinking (completeThinking now))) s1
         | None \<Rightarrow>
             mutateBlocks
               (update_first
                  (if str_truthy toolId then is_tool_with_id (the toolId)
                   else is_tool_with_index index)
                  (map_tool (\<lambda>t. t\<lparr>t_parsedInput :=
                                     finalParse pf (t_inputJson t) (t_parsedInput t)\<rparr>)))
               s1)"

section \<open>Tool results\<close>

definition setToolResult :: "jsstring \<Rightarrow> jsstring \<Rightarrow> bool option \<Rightarrow> Session \<Rightarrow> Session" where
  "setToolResult toolUseId content isError s =
     (case findToolBlockById s toolUseId of
        None \<Rightarrow> s
      | Some toolBlock \<Rightarrow>
          mutateTool toolUseId
            (\<lambda>t. case isError of
                    Some e \<Rightarrow> t\<lparr>t_result := Some content, t_isError := Some e\<rparr>
                  | None \<Rightarrow> t\<lparr>t_result := Some content\<rparr>) s)"

definition getToolResult :: "Session \<Rightarrow> jsstring \<Rightarrow> jsstring option" where
  "getToolResult s toolUseId =
     (case findToolBlockById s toolUseId of None \<Rightarrow> None | Some t \<Rightarrow> t_result t)"

definition appendToolResultContent ::
  "jsstring \<Rightarrow> jsstring \<Rightarrow> bool option \<Rightarrow> Session \<Rightarrow> jsstring \<times> Session" where
  "appendToolResultContent toolUseId content isError s =
     (let existing = getToolResult s toolUseId;
          next = (if str_truthy existing then the existing @ js [CHR 0x0A] @ content else content)
      in (next, setToolResult toolUseId next isError s))"

text \<open>\<open>childToolToParent.get(id)\<close> followed by \<open>if (!parentToolUseId) return false\<close>.\<close>

definition parentOf :: "Session \<Rightarrow> jsstring \<Rightarrow> jsstring option" where
  "parentOf s toolUseId =
     (case map_of (childToolToParent s) toolUseId of
        None \<Rightarrow> None
      | Some p \<Rightarrow> if p = [] then None else Some p)"

definition handleSubagentToolResultStart ::
  "jsstring \<Rightarrow> jsstring \<Rightarrow> bool \<Rightarrow> Session \<Rightarrow> bool \<times> Session" where
  "handleSubagentToolResultStart toolUseId content isError s =
     (case parentOf s toolUseId of
        None \<Rightarrow> (False, s)
      | Some parentToolUseId \<Rightarrow>
          mutateSubCall parentToolUseId toolUseId
            (\<lambda>c. c\<lparr>sc_result := Some content, sc_isError := Some isError,
                   sc_isLoading := Some True\<rparr>) s)"

definition handleSubagentToolResultComplete ::
  "jsstring \<Rightarrow> jsstring \<Rightarrow> bool option \<Rightarrow> Session \<Rightarrow> bool \<times> Session" where
  "handleSubagentToolResultComplete toolUseId content isError s =
     (case parentOf s toolUseId of
        None \<Rightarrow> (False, s)
      | Some parentToolUseId \<Rightarrow>
          mutateSubCall parentToolUseId toolUseId
            (\<lambda>c. case isError of
                    Some e \<Rightarrow> c\<lparr>sc_result := Some content, sc_isError := Some e,
                                sc_isLoading := Some False\<rparr>
                  | None \<Rightarrow> c\<lparr>sc_result := Some content, sc_isLoading := Some False\<rparr>) s)"

definition appendSubagentToolResultDelta ::
  "jsstring \<Rightarrow> jsstring \<Rightarrow> Session \<Rightarrow> bool \<times> Session" where
  "appendSubagentToolResultDelta toolUseId delta s =
     (case parentOf s toolUseId of
        None \<Rightarrow> (False, s)
      | Some parentToolUseId \<Rightarrow>
          mutateSubCall parentToolUseId toolUseId
            (\<lambda>c. c\<lparr>sc_result := Some ((case sc_result c of None \<Rightarrow> [] | Some r \<Rightarrow> r) @ delta),
                   sc_isLoading := Some True\<rparr>) s)"

definition finalizeSubagentToolResult :: "jsstring \<Rightarrow> Session \<Rightarrow> bool \<times> Session" where
  "finalizeSubagentToolResult toolUseId s =
     (case parentOf s toolUseId of
        None \<Rightarrow> (False, s)
      | Some parentToolUseId \<Rightarrow>
          mutateSubCall parentToolUseId toolUseId (\<lambda>c. c\<lparr>sc_isLoading := Some False\<rparr>) s)"

definition getSubagentToolResult :: "Session \<Rightarrow> jsstring \<Rightarrow> jsstring option" where
  "getSubagentToolResult s toolUseId =
     (case parentOf s toolUseId of
        None \<Rightarrow> None
      | Some parentToolUseId \<Rightarrow>
          (case findToolBlockById s parentToolUseId of
             None \<Rightarrow> None
           | Some parentTool \<Rightarrow>
               (case t_subagentCalls parentTool of
                  None \<Rightarrow> None
                | Some calls \<Rightarrow>
                    (case find (\<lambda>c. sc_id c = toolUseId) calls of
                       None \<Rightarrow> None
                     | Some c \<Rightarrow> sc_result c))))"

definition appendToolResultDelta :: "jsstring \<Rightarrow> jsstring \<Rightarrow> Session \<Rightarrow> Session" where
  "appendToolResultDelta toolUseId delta s =
     (case appendSubagentToolResultDelta toolUseId delta s of
        (True, s') \<Rightarrow> s'
      | (False, _) \<Rightarrow>
          (case findToolBlockById s toolUseId of
             None \<Rightarrow> s
           | Some toolBlock \<Rightarrow>
               mutateTool toolUseId
                 (\<lambda>t. t\<lparr>t_result := Some ((case t_result t of None \<Rightarrow> [] | Some r \<Rightarrow> r) @ delta)\<rparr>)
                 s))"

definition handleToolResultStart :: "jsstring \<Rightarrow> jsstring \<Rightarrow> bool \<Rightarrow> Session \<Rightarrow> Session" where
  "handleToolResultStart toolUseId content isError s =
     (case handleSubagentToolResultStart toolUseId content isError s of
        (True, s') \<Rightarrow> s'
      | (False, _) \<Rightarrow> setToolResult toolUseId content (Some isError) s)"

definition handleToolResultComplete ::
  "jsstring \<Rightarrow> jsstring \<Rightarrow> bool option \<Rightarrow> Session \<Rightarrow> Session" where
  "handleToolResultComplete toolUseId content isError s =
     (case handleSubagentToolResultComplete toolUseId content isError s of
        (True, s') \<Rightarrow> s'
      | (False, _) \<Rightarrow> setToolResult toolUseId content isError s)"

section \<open>End of a turn\<close>

definition handleMessageComplete :: "Session \<Rightarrow> Session" where
  "handleMessageComplete s = setSessionState Idle (s\<lparr>isStreamingMessage := False\<rparr>)"

definition forceComplete :: "int \<Rightarrow> ContentBlock \<Rightarrow> ContentBlock" where
  "forceComplete now b =
     (case b of
        ThinkingBlock t \<Rightarrow> if \<not> isComplete t then ThinkingBlock (completeThinking now t) else b
      | _ \<Rightarrow> b)"

definition handleMessageStopped :: "int \<Rightarrow> Session \<Rightarrow> Session" where
  "handleMessageStopped now s =
     (let s1 = setSessionState Idle (s\<lparr>isStreamingMessage := False\<rparr>)
      in if messages s1 = [] then s1
         else if m_role (last (messages s1)) \<noteq> Assistant then s1
         else case m_content (last (messages s1)) of
                Str _ \<Rightarrow> s1
              | Blocks bs \<Rightarrow>
                  s1\<lparr>messages :=
                       map_last (\<lambda>m. m\<lparr>m_content := Blocks (map (forceComplete now) bs)\<rparr>)
                         (messages s1)\<rparr>)"

definition handleMessageError :: "int \<Rightarrow> jsstring \<Rightarrow> Session \<Rightarrow> Session" where
  "handleMessageError now err s =
     (let s1 = setSessionState Idle (s\<lparr>isStreamingMessage := False\<rparr>)
      in s1\<lparr>messages := messages s1 @
                 [\<lparr>m_id = messageSequence s1, m_role = Assistant,
                   m_content = Str (js ''Error: '' @ err), m_timestamp = now\<rparr>],
             messageSequence := Suc (messageSequence s1)\<rparr>)"

section \<open>Messages of the runtime\<close>

datatype stream_delta =
    TextDelta jsstring
  | ThinkingDelta jsstring
  | InputJsonDelta jsstring
  | OtherDelta

text \<open>
  \<open>content_block\<close> of a \<open>content_block_start\<close>.  \<open>ToolResultStart\<close> stands for
  the seven result types (\<open>tool_result\<close>, \<open>mcp_tool_result\<close>, \<open>web_search_tool_result\<close>, ...)
  with its \<open>tool_use_id\<close> (\<open>None\<close>: no such key), \<open>content\<close> and \<open>is_error\<close>.
\<close>

datatype content_block =
    ThinkingStart
  | ToolUseStart jsstring jsstring "json option"
  | ToolResultStart "jsstring option" "json option" "bool option"
  | OtherBlockStart

datatype stream_event =
    ContentBlockDelta nat stream_delta
  | ContentBlockStart nat content_block
  | ContentBlockStop nat
  | OtherStreamEvent

text \<open>
  A block of a \<open>user\<close> or \<open>assistant\<close> message, as the engine reads it: by the
  presence of keys.  \<open>None\<close> is an absent key.
\<close>

record block =
  b_type :: "jsstring option"
  b_text :: "json option"
  b_thinking :: "json option"
  b_id :: "jsstring option"
  b_name :: "jsstring option"
  b_input :: "json option"
  b_tool_use_id :: "jsstring option"
  b_content :: "json option"
  b_is_error :: "bool option"

datatype item = ItemString jsstring | ItemBlock block | ItemOther

datatype msg_content = NoContent | StringContent jsstring | ArrayContent "item list"

datatype sdk_body =
    SystemMsg "jsstring option" "(jsstring \<times> json) list"
  | StreamEventMsg stream_event
  | UserMsg msg_content
  | AssistantMsg msg_content
  | ResultMsg
  | OtherMsg

text \<open>
  An SDK message: \<open>raw\<close> is \<open>JSON.stringify(sdkMessage)\<close> (\<open>None\<close> when it throws),
  \<open>error_field\<close> its \<open>error\<close> property.
\<close>

record sdk_message =
  raw :: "jsstring option"
  error_field :: "json option"
  parent_tool_use_id :: "jsstring option"
  body :: sdk_body

fun content_truthy :: "msg_content \<Rightarrow> bool" where
  "content_truthy NoContent = False"
| "content_truthy (StringContent c) = (c \<noteq> [])"
| "content_truthy (ArrayContent _) = True"

text \<open>The blocks a \<open>for (const block of content)\<close> loop can act on: iterating a
  string yields strings, which every loop of the engine skips.\<close>

fun content_items :: "msg_content \<Rightarrow> item list" where
  "content_items (ArrayContent xs) = xs"
| "content_items _ = []"

text \<open>
  \<open>parseSystemInitInfo\<close>: a snapshot for a \<open>system\<close>/\<open>init\<close> message.  The
  snapshot keeps the message's fields; the copy of each field through
  \<open>asString\<close> and \<open>asStringArray\<close> is not modelled.
\<close>

definition parseSystemInitInfo :: "int \<Rightarrow> sdk_message \<Rightarrow> SystemInitInfo option" where
  "parseSystemInitInfo now msg =
     (case body msg of
        SystemMsg subtype props \<Rightarrow>
          if subtype = Some (js ''init'')
          then Some \<lparr>si_timestamp = now, si_fields = props\<rparr> else None
      | _ \<Rightarrow> None)"

definition js_String :: "platform \<Rightarrow> json \<Rightarrow> jsstring" where
  "js_String pf v = (case v of JString t \<Rightarrow> t | _ \<Rightarrow> String_of pf v)"

text \<open>\<open>String(v ?? '')\<close> of a property that is present.\<close>

definition string_or_empty :: "platform \<Rightarrow> json \<Rightarrow> jsstring" where
  "string_or_empty pf v = (case v of JNull \<Rightarrow> [] | _ \<Rightarrow> js_String pf v)"

definition formatPart :: "platform \<Rightarrow> item \<Rightarrow> jsstring list" where
  "formatPart pf it =
     (case it of
        ItemString t \<Rightarrow> [t]
      | ItemOther \<Rightarrow> []
      | ItemBlock b \<Rightarrow>
          if b_type b = Some (js ''text'') \<and> b_text b \<noteq> None
          then [string_or_empty pf (the (b_text b))]
          else if b_type b = Some (js ''thinking'') \<and> b_thinking b \<noteq> None
          then (let t = trim (string_or_empty pf (the (b_thinking b)))
                in if t \<noteq> [] then [js ''Thinking:'' @ [0x000A] @ t] else [])
          else (case b_text b of Some (JString t) \<Rightarrow> [t] | _ \<Rightarrow> []))"

definition formatAssistantContent :: "platform \<Rightarrow> msg_content \<Rightarrow> jsstring" where
  "formatAssistantContent pf content =
     (case content of
        NoContent \<Rightarrow> []
      | StringContent c \<Rightarrow> c
      | ArrayContent xs \<Rightarrow>
          join [0x000A, 0x000A]
            (filter (\<lambda>p. p \<noteq> []) (map trim (concat (map (formatPart pf) xs)))))"

definition ascii_lower :: "jschar \<Rightarrow> jschar" where
  "ascii_lower c = (if 0x0041 \<le> c \<and> c \<le> 0x005A then c + 0x0020 else c)"

definition js_includes :: "jsstring \<Rightarrow> jsstring \<Rightarrow> bool" where
  "js_includes pat t = list_ex (\<lambda>i. take (length pat) (drop i t) = pat) [0..<Suc (length t)]"

text \<open>\<open>/api error|authentication_error|unauthorized|forbidden/i.test(text)\<close>.\<close>

definition mentions_agent_error :: "jsstring \<Rightarrow> bool" where
  "mentions_agent_error t =
     list_ex (\<lambda>p. js_includes (js p) (map ascii_lower t))
       [''api error'', ''authentication_error'', ''unauthorized'', ''forbidden'']"

definition extractAgentErrorFromContent :: "platform \<Rightarrow> msg_content \<Rightarrow> jsstring option" where
  "extractAgentErrorFromContent pf content =
     (let t = formatAssistantContent pf content
      in if t = [] then None
         else if mentions_agent_error t then Some t else None)"

definition extractAgentError :: "platform \<Rightarrow> sdk_message \<Rightarrow> jsstring option" where
  "extractAgentError pf msg =
     (case (case error_field msg of
              Some v \<Rightarrow> if js_truthy v then Some v else None
            | None \<Rightarrow> None) of
        Some candidate \<Rightarrow>
          (case candidate of JString t \<Rightarrow> Some t | _ \<Rightarrow> Some (JSON_stringify pf candidate))
      | None \<Rightarrow>
          (case body msg of
             AssistantMsg content \<Rightarrow> extractAgentErrorFromContent pf content
           | _ \<Rightarrow> None))"

section \<open>The driving loop: one message of the runtime\<close>

text \<open>\<open>childToolToParent.get(id) ?? sdkMessage.parent_tool_use_id\<close>.\<close>

definition resolveParent :: "Session \<Rightarrow> jsstring \<Rightarrow> jsstring option \<Rightarrow> jsstring option" where
  "resolveParent s toolUseId parent =
     (case map_of (childToolToParent s) toolUseId of Some p \<Rightarrow> Some p | None \<Rightarrow> parent)"

text \<open>\<open>input || {}\<close>.\<close>

definition or_empty_object :: "json option \<Rightarrow> json" where
  "or_empty_object v = (case v of Some x \<Rightarrow> if js_truthy x then x else JObject [] | None \<Rightarrow> JObject [])"

text \<open>The text of a starting tool result: a string as it is, \<open>null\<close> and \<open>undefined\<close>
  as the empty string, any other value through \<open>JSON.stringify(content, null, 2)\<close>.\<close>

definition startContentStr :: "platform \<Rightarrow> json option \<Rightarrow> jsstring" where
  "startContentStr pf content =
     (case content of
        Some (JString c) \<Rightarrow> c
      | Some JNull \<Rightarrow> []
      | None \<Rightarrow> []
      | Some v \<Rightarrow> JSON_stringify2 pf v)"

text \<open>\<open>content_block_delta\<close> with a \<open>text_delta\<close>.\<close>

definition onTextDelta :: "int \<Rightarrow> jsstring option \<Rightarrow> jsstring \<Rightarrow> Session \<Rightarrow> Session" where
  "onTextDelta now parent t s =
     (if str_truthy parent
      then appendToolResultDelta (the parent) t
             (broadcast
                (case parentOf s (the parent) of
                   Some parentToolUseId \<Rightarrow> ChatSubagentToolResultDelta parentToolUseId (the parent) t
                 | None \<Rightarrow> ChatToolResultDelta (the parent) t) s)
      else appendTextChunk now t (broadcast (ChatMessageChunk t) s))"

text \<open>\<open>content_block_delta\<close> with an \<open>input_json_delta\<close>.\<close>

definition onInputJsonDelta ::
  "platform \<Rightarrow> int \<Rightarrow> jsstring option \<Rightarrow> nat \<Rightarrow> jsstring \<Rightarrow> Session \<Rightarrow> Session" where
  "onInputJsonDelta pf now parent index partial_json s =
     (let toolId = (case map_of (streamIndexToToolId s) index of Some i \<Rightarrow> i | None \<Rightarrow> [])
      in if str_truthy parent
         then handleSubagentToolInputDelta pf (the parent) toolId partial_json
                (broadcast (ChatSubagentToolInputDelta (the parent) toolId partial_json) s)
         else handleToolInputDelta pf now index toolId partial_json
                (broadcast (ChatToolInputDelta index toolId partial_json) s))"

text \<open>\<open>content_block_start\<close> of a \<open>tool_use\<close> block.\<close>

definition onToolUseStart ::
  "platform \<Rightarrow> int \<Rightarrow> jsstring option \<Rightarrow> nat \<Rightarrow> jsstring \<Rightarrow> jsstring \<Rightarrow> json option \<Rightarrow>
   Session \<Rightarrow> Session" where
  "onToolUseStart pf now parent index tid tname tinput s =
     (let s1 = s\<lparr>streamIndexToToolId := AList.update index tid (streamIndexToToolId s)\<rparr>;
          toolPayload = \<lparr>tp_id = tid, tp_name = tname,
                         tp_input = or_empty_object tinput, tp_streamIndex = Some index\<rparr>
      in if str_truthy parent
         then handleSubagentToolUseStart pf (the parent) toolPayload
                (broadcast (ChatSubagentToolUse (the parent) toolPayload) s1)
         else handleToolUseStart now tid tname (tp_input toolPayload) index
                (broadcast (ChatToolUseStart toolPayload) s1))"

text \<open>\<open>content_block_start\<close> of a tool result that has a \<open>tool_use_id\<close>.\<close>

definition onToolResultStart ::
  "platform \<Rightarrow> jsstring option \<Rightarrow> nat \<Rightarrow> jsstring \<Rightarrow> json option \<Rightarrow> bool option \<Rightarrow>
   Session \<Rightarrow> Session" where
  "onToolResultStart pf parent index tool_use_id content is_error s =
     (let contentStr = startContentStr pf content;
          isError = (case is_error of Some e \<Rightarrow> e | None \<Rightarrow> False);
          s1 = s\<lparr>toolResultIndexToId := AList.update index tool_use_id (toolResultIndexToId s)\<rparr>
      in if contentStr = [] then s1
         else
           let parentToolUseId = resolveParent s1 tool_use_id parent;
               s2 = (if str_truthy parentToolUseId
                     then broadcast
                            (ChatSubagentToolResultStart (the parentToolUseId) tool_use_id
                               contentStr isError)
                            (if map_of (childToolToParent s1) tool_use_id = None
                             then ensureSubagentToolPlaceholder (the parentToolUseId) tool_use_id s1
                             else s1)
                     else broadcast (ChatToolResultStart tool_use_id contentStr isError) s1)
           in handleToolResultStart tool_use_id contentStr isError s2)"

text \<open>\<open>content_block_stop\<close>.\<close>

definition onContentBlockStop ::
  "platform \<Rightarrow> int \<Rightarrow> jsstring option \<Rightarrow> nat \<Rightarrow> Session \<Rightarrow> Session" where
  "onContentBlockStop pf now parent index s =
     (let toolId = map_of (streamIndexToToolId s) index
      in if str_truthy parent
         then
           let s1 = (if str_truthy toolId
                     then finalizeSubagentToolInput pf (the parent) (the toolId) s else s);
               toolResultId = map_of (toolResultIndexToId s1) index
           in if str_truthy toolResultId
              then
                let s2 = s1\<lparr>toolResultIndexToId := AList.delete index (toolResultIndexToId s1)\<rparr>
                in (case finalizeSubagentToolResult (the toolResultId) s2 of
                      (True, s3) \<Rightarrow>
                        (case parentOf s3 (the toolResultId) of
                           Some parentToolUseId \<Rightarrow>
                             broadcast
                               (ChatSubagentToolResultComplete parentToolUseId (the toolResultId)
                                  (case getSubagentToolResult s3 (the toolResultId) of
                                     Some r \<Rightarrow> r | None \<Rightarrow> [])
                                  None) s3
                         | None \<Rightarrow> s3)
                    | (False, s3) \<Rightarrow> s3)
              else s1
         else
           handleContentBlockStop pf now index (if str_truthy toolId then toolId else None)
             (broadcast (ChatContentBlockStop index (if str_truthy toolId then toolId else None)) s))"

text \<open>
  The tail shared by the \<open>user\<close> and \<open>assistant\<close> branches for a completed
  tool result: find the parent, synthesise a placeholder for an unseen child,
  broadcast, \<open>handleToolResultComplete\<close>.
\<close>

definition routeToolResultComplete ::
  "jsstring option \<Rightarrow> jsstring \<Rightarrow> jsstring \<Rightarrow> bool option \<Rightarrow> Session \<Rightarrow> Session" where
  "routeToolResultComplete parent tool_use_id contentStr isError s =
     (let parentToolUseId = resolveParent s tool_use_id parent;
          s1 = (if str_truthy parentToolUseId
                then broadcast
                       (ChatSubagentToolResultComplete (the parentToolUseId) tool_use_id
                          contentStr isError)
                       (if map_of (childToolToParent s) tool_use_id = None
                        then ensureSubagentToolPlaceholder (the parentToolUseId) tool_use_id s
                        else s)
                else broadcast (ChatToolResultComplete tool_use_id contentStr isError) s)
      in handleToolResultComplete tool_use_id contentStr isError s1)"

text \<open>One block of a \<open>user\<close> message that carries a parent tool id.\<close>

definition onUserBlock :: "platform \<Rightarrow> jsstring option \<Rightarrow> Session \<Rightarrow> item \<Rightarrow> Session" where
  "onUserBlock pf parent s it =
     (case it of
        ItemBlock b \<Rightarrow>
          (case b_tool_use_id b of
             Some tool_use_id \<Rightarrow>
               if b_type b = Some (js ''tool_result'')
               then routeToolResultComplete parent tool_use_id
                      (case b_content b of
                         Some (JString c) \<Rightarrow> c
                       | Some JNull \<Rightarrow> JSON_stringify2 pf (JString [])
                       | None \<Rightarrow> JSON_stringify2 pf (JString [])
                       | Some v \<Rightarrow> JSON_stringify2 pf v)
                      None s
               else s
           | None \<Rightarrow> s)
      | _ \<Rightarrow> s)"

definition onUserMessage ::
  "platform \<Rightarrow> jsstring option \<Rightarrow> msg_content \<Rightarrow> Session \<Rightarrow> Session" where
  "onUserMessage pf parent content s =
     (if str_truthy parent \<and> content_truthy content
      then foldl (onUserBlock pf parent) s (content_items content)
      else s)"

text \<open>The three passes over an \<open>assistant\<close> message.\<close>

definition onAssistantToolUse :: "platform \<Rightarrow> jsstring \<Rightarrow> Session \<Rightarrow> item \<Rightarrow> Session" where
  "onAssistantToolUse pf parentToolUseId s it =
     (case it of
        ItemBlock b \<Rightarrow>
          (case (b_id b, b_name b) of
             (Some tid, Some tname) \<Rightarrow>
               if b_type b = Some (js ''tool_use'')
               then
                 let payload = \<lparr>tp_id = tid, tp_name = tname,
                                 tp_input = or_empty_object (b_input b),
                                 tp_streamIndex = None\<rparr>
                 in handleSubagentToolUseStart pf parentToolUseId payload
                      (broadcast (ChatSubagentToolUse parentToolUseId payload) s)
               else s
           | _ \<Rightarrow> s)
      | _ \<Rightarrow> s)"

definition resultPart :: "platform \<Rightarrow> json \<Rightarrow> jsstring" where
  "resultPart pf c =
     (case c of
        JString t \<Rightarrow> t
      | JObject kv \<Rightarrow>
          (case map_of kv (js ''text'') of
             Some (JString t) \<Rightarrow> t
           | Some v \<Rightarrow>
               if map_of kv (js ''type'') = Some (JString (js ''text''))
               then js_String pf v else JSON_stringify2 pf c
           | None \<Rightarrow> JSON_stringify2 pf c)
      | JArray _ \<Rightarrow> JSON_stringify2 pf c
      | _ \<Rightarrow> js_String pf c)"

definition resultContentStr :: "platform \<Rightarrow> json \<Rightarrow> jsstring" where
  "resultContentStr pf content =
     (case content of
        JString c \<Rightarrow> c
      | JArray cs \<Rightarrow> join [0x000A] (map (resultPart pf) cs)
      | JObject _ \<Rightarrow> JSON_stringify2 pf content
      | _ \<Rightarrow> js_String pf content)"

definition onAssistantToolResult ::
  "platform \<Rightarrow> jsstring option \<Rightarrow> Session \<Rightarrow> item \<Rightarrow> Session" where
  "onAssistantToolResult pf parent s it =
     (case it of
        ItemBlock b \<Rightarrow>
          (case (b_tool_use_id b, b_content b) of
             (Some tool_use_id, Some content) \<Rightarrow>
               routeToolResultComplete parent tool_use_id (resultContentStr pf content)
                 (Some (case b_is_error b of Some e \<Rightarrow> e | None \<Rightarrow> False)) s
           | _ \<Rightarrow> s)
      | _ \<Rightarrow> s)"

definition onAssistantMessage ::
  "platform \<Rightarrow> jsstring option \<Rightarrow> msg_content \<Rightarrow> Session \<Rightarrow> Session" where
  "onAssistantMessage pf parent content s =
     (let s1 = (if str_truthy parent \<and> content_truthy content
                then foldl (onAssistantToolUse pf (the parent)) s (content_items content)
                else s);
          s2 = (if str_truthy parent
                then (let t = formatAssistantContent pf content
                      in if t \<noteq> []
                         then (case appendToolResultContent (the parent) t None s1 of
                                 (next, s') \<Rightarrow>
                                   broadcast (ChatToolResultComplete (the parent) next None) s')
                         else s1)
                else s1)
      in if content_truthy content
         then foldl (onAssistantToolResult pf parent) s2 (content_items content)
         else s2)"

text \<open>The body of the \<open>for await\<close> loop after the abort check.\<close>

definition reconcile :: "platform \<Rightarrow> int \<Rightarrow> sdk_message \<Rightarrow> Session \<Rightarrow> Session" where
  "reconcile pf now msg s =
     (case body msg of
        StreamEventMsg ev \<Rightarrow>
          (case ev of
             ContentBlockDelta index d \<Rightarrow>
               (case d of
                  TextDelta t \<Rightarrow> onTextDelta now (parent_tool_use_id msg) t s
                | ThinkingDelta t \<Rightarrow>
                    handleThinkingChunk now index t (broadcast (ChatThinkingChunk index t) s)
                | InputJsonDelta j \<Rightarrow> onInputJsonDelta pf now (parent_tool_use_id msg) index j s
                | OtherDelta \<Rightarrow> s)
           | ContentBlockStart index cb \<Rightarrow>
               (case cb of
                  ThinkingStart \<Rightarrow> handleThinkingStart now index (broadcast (ChatThinkingStart index) s)
                | ToolUseStart tid tname tinput \<Rightarrow>
                    onToolUseStart pf now (parent_tool_use_id msg) index tid tname tinput s
                | ToolResultStart tuid content is_error \<Rightarrow>
                    (case tuid of
                       Some tool_use_id \<Rightarrow>
                         onToolResultStart pf (parent_tool_use_id msg) index tool_use_id content
                           is_error s
                     | None \<Rightarrow> s)
                | OtherBlockStart \<Rightarrow> s)
           | ContentBlockStop index \<Rightarrow> onContentBlockStop pf now (parent_tool_use_id msg) index s
           | OtherStreamEvent \<Rightarrow> s)
      | UserMsg content \<Rightarrow> onUserMessage pf (parent_tool_use_id msg) content s
      | AssistantMsg content \<Rightarrow> onAssistantMessage pf (parent_tool_use_id msg) content s
      | ResultMsg \<Rightarrow> handleMessageComplete (broadcast ChatMessageComplete s)
      | _ \<Rightarrow> s)"

section \<open>The driving loop and the public operations\<close>

text \<open>
  \<open>startStreamingSession\<close> up to the first message of the runtime.  A pending
  termination promise suspends the call; the guard then refuses a second loop.
\<close>

definition startStreamingSession :: "Session \<Rightarrow> Session" where
  "startStreamingSession s =
     (if sessionTerminationPromise s = Some False then s
      else if isProcessing s \<or> querySession s \<noteq> None then s
      else
        let s1 = setSessionState Running
                   (s\<lparr>shouldAbortSession := False, isProcessing := True,
                      streamIndexToToolId := []\<rparr>)
        in s1\<lparr>sessionTerminationPromise := Some False,
               querySession := Some \<lparr>interruptCalls = 0\<rparr>\<rparr>)"

text \<open>The \<open>finally\<close> block of the loop.\<close>

definition streamFinally :: "Session \<Rightarrow> Session" where
  "streamFinally s =
     (let s1 = s\<lparr>isProcessing := False, querySession := None\<rparr>;
          s2 = (if sessionState s1 \<noteq> Error then setSessionState Idle s1 else s1)
      in s2\<lparr>sessionTerminationPromise := Some True\<rparr>)"

text \<open>The \<open>catch\<close> block followed by \<open>finally\<close>; \<open>err\<close> is the message of a
  thrown \<open>Error\<close>, \<open>None\<close> for any other thrown value.\<close>

definition streamFailed :: "int \<Rightarrow> jsstring option \<Rightarrow> Session \<Rightarrow> Session" where
  "streamFailed now err s =
     (let errorMessage = (case err of Some e \<Rightarrow> e | None \<Rightarrow> js ''Unknown error occurred'')
      in streamFinally
           (setSessionState Error
              (handleMessageError now errorMessage (broadcast (ChatMessageError errorMessage) s))))"

text \<open>One iteration of the loop for a message of the runtime.\<close>

definition streamMessage :: "platform \<Rightarrow> int \<Rightarrow> sdk_message \<Rightarrow> Session \<Rightarrow> Session" where
  "streamMessage pf now msg s =
     (let s1 = (case raw msg of
                  Some r \<Rightarrow> appendLogLine (toISOString pf now @ js '' '' @ r) s
                | None \<Rightarrow> s);
          s2 = (case parseSystemInitInfo now msg of
                  Some info \<Rightarrow> broadcast (ChatSystemInit info) (s1\<lparr>systemInitInfo := Some info\<rparr>)
                | None \<Rightarrow> s1);
          s3 = (case extractAgentError pf msg of
                  Some e \<Rightarrow> if e \<noteq> [] then broadcast (ChatAgentError e) s2 else s2
                | None \<Rightarrow> s2)
      in if shouldAbortSession s3 then streamFinally s3 else reconcile pf now msg s3)"

text \<open>One pull of \<open>messageGenerator\<close> that finds a turn in the queue.\<close>

definition messageGenerator :: "Session \<Rightarrow> Session" where
  "messageGenerator s =
     (if shouldAbortSession s then s else s\<lparr>messageQueue := drop 1 (messageQueue s)\<rparr>)"

text \<open>
  \<open>enqueueUserMessage\<close> on the session it has found: \<open>enqueueTurn\<close> up to the
  name update, \<open>enqueueStart\<close> from the start of the loop to the push on the queue.
\<close>

definition enqueueTurn :: "int \<Rightarrow> jsstring \<Rightarrow> Session \<Rightarrow> Session" where
  "enqueueTurn now trimmed s =
     (let s1 = setSessionState Running (s\<lparr>lastMessageAt := now\<rparr>);
          userMessage = \<lparr>m_id = messageSequence s1, m_role = User, m_content = Str trimmed,
                         m_timestamp = now\<rparr>
      in updateNameFromFirstMessage
           (broadcast (ChatMessageReplay userMessage)
              (s1\<lparr>messages := messages s1 @ [userMessage],
                  messageSequence := Suc (messageSequence s1)\<rparr>)))"

definition enqueueStart :: "jsstring \<Rightarrow> Session \<Rightarrow> Session" where
  "enqueueStart trimmed s =
     (let s1 = (if \<not> isSessionActive s then startStreamingSession s else s)
      in s1\<lparr>messageQueue := messageQueue s1 @ [trimmed]\<rparr>)"

datatype error = SessionNotFound jsstring

text \<open>The session a public operation acts on, with its key in the registry.\<close>

definition sessionFor :: "SessionManager \<Rightarrow> jsstring option \<Rightarrow> (jsstring \<times> Session) option" where
  "sessionFor m sessionId =
     (if str_truthy sessionId
      then map_option (Pair (the sessionId)) (getSession m (the sessionId))
      else map_option (Pair (the (activeSessionId m))) (getActiveSession m))"

definition enqueueUserMessage ::
  "platform \<Rightarrow> jsstring \<Rightarrow> int \<Rightarrow> jsstring \<Rightarrow> jsstring option \<Rightarrow> SessionManager \<Rightarrow>
   error + SessionManager" where
  "enqueueUserMessage pf uid now txt sessionId m =
     (let trimmed = trim txt
      in if trimmed = [] then Inr m
         else
           case (if str_truthy sessionId
                 then (case getSession m (the sessionId) of
                         None \<Rightarrow> Inl (SessionNotFound (the sessionId))
                       | Some found \<Rightarrow> Inr (m, the sessionId, found))
                 else (case sessionFor m None of
                         Some (k, session) \<Rightarrow> Inr (m, k, session)
                       | None \<Rightarrow>
                           (case createSession pf uid now m of
                              (m', session) \<Rightarrow> Inr (m', sid session, session)))) of
             Inl e \<Rightarrow> Inl e
           | Inr (m1, k, session) \<Rightarrow>
               let s1 = enqueueTurn now trimmed session;
                   m2 = (if length (messages s1) = 1
                         then broadcastRegistry (SessionUpdated (getMetadata s1)) m1 else m1)
               in Inr (m2\<lparr>sessions := AList.update k (enqueueStart trimmed s1) (sessions m2)\<rparr>))"

text \<open>
  \<open>interruptCurrentResponse\<close> suspends at \<open>await querySession.interrupt()\<close>:
  \<open>interruptBegin\<close> runs up to the call, \<open>interruptSettle\<close> from the moment the
  runtime answers (\<open>ok\<close>: the promise resolved; otherwise it rejected and the
  function throws after its \<open>finally\<close>).
\<close>

datatype interrupt_outcome = Returned bool | Awaiting

definition interruptBegin :: "Session \<Rightarrow> interrupt_outcome \<times> Session" where
  "interruptBegin s =
     (case querySession s of
        None \<Rightarrow> (Returned False, s)
      | Some q \<Rightarrow>
          if isInterruptingResponse s then (Returned True, s)
          else (Awaiting,
                s\<lparr>isInterruptingResponse := True,
                  querySession := Some (q\<lparr>interruptCalls := Suc (interruptCalls q)\<rparr>)\<rparr>))"

definition interruptSettle :: "bool \<Rightarrow> int \<Rightarrow> Session \<Rightarrow> Session" where
  "interruptSettle ok now s =
     (if ok
      then (handleMessageStopped now (broadcast ChatMessageStopped s))\<lparr>isInterruptingResponse := False\<rparr>
      else s\<lparr>isInterruptingResponse := False\<rparr>)"

definition interruptCurrentResponse ::
  "jsstring option \<Rightarrow> SessionManager \<Rightarrow> interrupt_outcome \<times> SessionManager" where
  "interruptCurrentResponse sessionId m =
     (case sessionFor m sessionId of
        None \<Rightarrow> (Returned False, m)
      | Some (k, session) \<Rightarrow>
          (case interruptBegin session of
             (r, s') \<Rightarrow> (r, m\<lparr>sessions := AList.update k s' (sessions m)\<rparr>)))"

section \<open>The engine as a transition system\<close>

text \<open>
  What can happen to one session, one atomic step each: a user turn is
  enqueued; the loop takes a message of the runtime; the stream raises; the
  stream ends; an interrupt is requested; the runtime answers an interrupt;
  the runtime pulls the next queued turn.  A step that cannot happen in a
  state (a message without a live loop, an answer without a request) is \<open>None\<close>.
\<close>

datatype engine_op =
    Enqueue jsstring int
  | RuntimeMessage sdk_message int
  | StreamFailure "jsstring option" int
  | StreamEnd
  | InterruptRequest
  | InterruptAnswer bool int
  | GeneratorPull

fun engine_step :: "platform \<Rightarrow> Session \<Rightarrow> engine_op \<Rightarrow> Session option" where
  "engine_step pf s (Enqueue txt now) =
     (if trim txt = [] then Some s else Some (enqueueStart (trim txt) (enqueueTurn now (trim txt) s)))"
| "engine_step pf s (RuntimeMessage msg now) =
     (if isProcessing s then Some (streamMessage pf now msg s) else None)"
| "engine_step pf s (StreamFailure err now) =
     (if isProcessing s then Some (streamFailed now err s) else None)"
| "engine_step pf s StreamEnd =
     (if isProcessing s then Some (streamFinally s) else None)"
| "engine_step pf s InterruptRequest = Some (snd (interruptBegin s))"
| "engine_step pf s (InterruptAnswer ok now) =
     (if isInterruptingResponse s then Some (interruptSettle ok now s) else None)"
| "engine_step pf s GeneratorPull =
     (if isProcessing s \<and> (messageQueue s \<noteq> [] \<or> shouldAbortSession s)
      then Some (messageGenerator s) else None)"

fun engine_run :: "platform \<Rightarrow> Session \<Rightarrow> engine_op list \<Rightarrow> Session option" where
  "engine_run pf s [] = Some s"
| "engine_run pf s (op # ops) =
     (case engine_step pf s op of None \<Rightarrow> None | Some s' \<Rightarrow> engine_run pf s' ops)"

text \<open>
  The lifecycle as an observer sees it: the states of the \<open>chat:status\<close>
  broadcasts, in order, and the changes between them, starting from the
  \<open>idle\<close> of a new session.
\<close>

fun status_of :: "notification \<Rightarrow> SessionState option" where
  "status_of (ChatStatus st) = Some st"
| "status_of _ = None"

definition status_history :: "Session \<Rightarrow> SessionState list" where
  "status_history s = List.map_filter status_of (outbox s)"

fun changes_from :: "SessionState \<Rightarrow> SessionState list \<Rightarrow> (SessionState \<times> SessionState) list" where
  "changes_from a [] = []"
| "changes_from a (b # bs) = (a, b) # changes_from b bs"

definition lifecycle_changes :: "Session \<Rightarrow> (SessionState \<times> SessionState) list" where
  "lifecycle_changes s = changes_from Idle (status_history s)"

text \<open>A platform for running the definitions: its strict parser knows two
  documents, its reconstructor closes one truncated document.\<close>

definition demo_platform :: platform where
  "demo_platform =
     \<lparr> JSON_parse = (\<lambda>t. if t = js ''{}'' then Some (JObject [])
                          else if t = js ''{\"a\":1}'' then Some (JObject [(js ''a'', JNumber 1)])
                          else None),
       JSON_stringify = (\<lambda>v. js ''?''),
       JSON_stringify2 = (\<lambda>v. js ''?''),
       String_of = (\<lambda>v. js ''?''),
       toLocaleString = (\<lambda>n. js ''now''),
       toISOString = (\<lambda>n. js ''now''),
       parsePartialJson = (\<lambda>t. if t = js ''{}'' then Some (JObject [])
                          else if t = js ''{\"a\":1}'' \<or> t = js ''{\"a\":1''
                          then Some (JObject [(js ''a'', JNumber 1)])
                          else None) \<rparr>"

text \<open>Every session of the registry is stored under its own id, as \<open>createSession\<close> stores it.\<close>

definition registry_keys_ok :: "SessionManager \<Rightarrow> bool" where
  "registry_keys_ok m \<longleftrightarrow> list_all (\<lambda>(k, s). sid s = k) (sessions m)"

text \<open>A registry of three sessions, the second one active.\<close>

definition demo_session :: "string \<Rightarrow> SessionState \<Rightarrow> Session" where
  "demo_session i st = (new_Session demo_platform (js i) 0)\<lparr>sessionState := st\<rparr>"

definition demo_registry :: SessionManager where
  "demo_registry =
     \<lparr> sessions = [(js ''a'', demo_session ''a'' Running), (js ''b'', demo_session ''b'' Idle),
                   (js ''c'', demo_session ''c'' Error)],
       activeSessionId = Some (js ''b''), agentDir = [], registryOutbox = [] \<rparr>"

text \<open>A registry with one fresh session.\<close>

definition demo_fresh :: SessionManager where
  "demo_fresh = fst (createSession demo_platform (js ''s1'') 0 new_SessionManager)"

text \<open>A stream event of the main conversation (no parent tool id).\<close>

definition top_level :: "stream_event \<Rightarrow> sdk_message" where
  "top_level ev = \<lparr>raw = None, error_field = None, parent_tool_use_id = None, body = StreamEventMsg ev\<rparr>"

text \<open>The last message of the log is the assistant message being streamed, and its
  content is a block array: what every streaming handler establishes first.\<close>

definition in_turn :: "Session \<Rightarrow> bool" where
  "in_turn s \<longleftrightarrow>
     messages s \<noteq> [] \<and> m_role (last (messages s)) = Assistant \<and> isStreamingMessage s \<and>
     (case m_content (last (messages s)) of Blocks _ \<Rightarrow> True | Str _ \<Rightarrow> False)"

text \<open>A turn with one tool \<open>t1\<close> that has one subagent call \<open>c1\<close>.\<close>

definition demo_turn :: Session where
  "demo_turn =
     handleSubagentToolUseStart demo_platform (js ''t1'')
       \<lparr>tp_id = js ''c1'', tp_name = js ''Grep'', tp_input = JObject [], tp_streamIndex = Some 0\<rparr>
       (handleToolUseStart 1 (js ''t1'') (js ''Task'') (JObject []) 0
          (new_Session demo_platform (js ''s1'') 0))"

definition demo_call :: SubagentToolCall where
  "demo_call =
     \<lparr>sc_id = js ''c1'', sc_name = js ''Grep'', sc_input = JObject [], sc_streamIndex = Some 0,
       sc_inputJson = Some (js ''?''), sc_parsedInput = None, sc_result = None,
       sc_isLoading = Some True, sc_isError = None\<rparr>"

definition demo_tool :: ToolUseState where
  "demo_tool =
     \<lparr>t_id = js ''t1'', t_name = js ''Task'', t_input = JObject [], t_streamIndex = 0,
       t_inputJson = Some [], t_parsedInput = None, t_result = None, t_isLoading = None,
       t_isError = None, t_subagentCalls = Some [demo_call]\<rparr>"


text \<open>What the claim about interleaved deltas observes of a block: the id and
  the raw-argument buffer of a tool record.\<close>

fun buffer_of :: "ContentBlock \<Rightarrow> (jsstring \<times> jsstring) option" where
  "buffer_of (ToolUseBlock t) =
     Some (t_id t, case t_inputJson t of None \<Rightarrow> [] | Some j \<Rightarrow> j)"
| "buffer_of _ = None"


text \<open>The ids of the tool records of a block array, in order.\<close>

definition tool_ids :: "ContentBlock list \<Rightarrow> jsstring list" where
  "tool_ids bs = map fst (List.map_filter buffer_of bs)"




text \<open>A stream event of a delegated sub-conversation, tagged with its parent tool id.\<close>

definition subagent_event :: "jsstring \<Rightarrow> stream_event \<Rightarrow> sdk_message" where
  "subagent_event parentToolUseId ev =
     \<lparr>raw = None, error_field = None, parent_tool_use_id = Some parentToolUseId,
      body = StreamEventMsg ev\<rparr>"

text \<open>The call that \<open>ensureSubagentToolPlaceholder\<close> pushes.\<close>

definition placeholder :: "jsstring \<Rightarrow> SubagentToolCall" where
  "placeholder toolUseId =
     \<lparr>sc_id = toolUseId, sc_name = js ''Tool'', sc_input = JObject [], sc_streamIndex = None,
      sc_inputJson = Some (js ''{}''), sc_parsedInput = None, sc_result = None,
      sc_isLoading = Some True, sc_isError = None\<rparr>"

text \<open>A turn with the tool \<open>t1\<close> alone; then the result of a child \<open>c1\<close> arrives
  before the start of \<open>c1\<close>.\<close>

definition demo_parent :: Session where
  "demo_parent =
     handleToolUseStart 1 (js ''t1'') (js ''Task'') (JObject []) 0
       (new_Session demo_platform (js ''s1'') 0)"

definition demo_race :: Session where
  "demo_race =
     reconcile demo_platform 6
       (subagent_event (js ''t1'') (ContentBlockStart 3 (ToolUseStart (js ''c1'') (js ''Grep'') None)))
       (reconcile demo_platform 5
          (subagent_event (js ''t1'')
             (ContentBlockStart 2 (ToolResultStart (Some (js ''c1'')) (Some (JString (js ''ok''))) None)))
          demo_parent)"

text \<open>The lifecycle part of a session: its state and the states it has broadcast.\<close>

definition life :: "Session \<Rightarrow> SessionState \<times> SessionState list" where
  "life s = (sessionState s, status_history s)"

text \<open>The lifecycle part of a session after it has gone through the states \<open>sts\<close>.\<close>

definition after :: "SessionState list \<Rightarrow> Session \<Rightarrow> SessionState \<times> SessionState list" where
  "after sts s = (last (sessionState s # sts), status_history s @ sts)"

text \<open>What holds of every session an engine run reaches: \<open>shouldAbortSession\<close> is not
  set, and a session in the error state has no live loop.\<close>

definition loop_ok :: "Session \<Rightarrow> bool" where
  "loop_ok s \<longleftrightarrow> \<not> shouldAbortSession s \<and> (isProcessing s \<longrightarrow> sessionState s \<noteq> Error)"

text \<open>The state of the session is the one it has broadcast last (idle when it has
  broadcast none).\<close>

definition announced :: "Session \<Rightarrow> bool" where
  "announced s \<longleftrightarrow> sessionState s = last (Idle # status_history s)"

text \<open>The steps of a run, each with the session before and after it; the run ends at
  the first step that cannot happen.\<close>

fun engine_trace ::
  "platform \<Rightarrow> Session \<Rightarrow> engine_op list \<Rightarrow> (engine_op \<times> Session \<times> Session) list" where
  "engine_trace pf s [] = []"
| "engine_trace pf s (op # ops) =
     (case engine_step pf s op of
        None \<Rightarrow> []
      | Some s' \<Rightarrow> (op, s, s') # engine_trace pf s' ops)"

text \<open>
  The states that a step makes the session go through, by the kind of step and
  the state before it: a non-blank turn enqueued outside running goes to
  running; a result event, the end of the stream and an answered interrupt
  take running to idle; a stream failure goes to error, through idle when the
  session is running; nothing else changes the state.
\<close>

fun caused :: "engine_op \<Rightarrow> SessionState \<Rightarrow> SessionState list" where
  "caused (Enqueue txt now) st = (if trim txt = [] \<or> st = Running then [] else [Running])"
| "caused (RuntimeMessage msg now) st = (if body msg = ResultMsg \<and> st = Running then [Idle] else [])"
| "caused (StreamFailure err now) st = (if st = Running then [Idle, Error] else [Error])"
| "caused StreamEnd st = (if st = Running then [Idle] else [])"
| "caused InterruptRequest st = []"
| "caused (InterruptAnswer ok now) st = (if ok \<and> st = Running then [Idle] else [])"
| "caused GeneratorPull st = []"

text \<open>An interrupt that the runtime answers with success when the stream has already
  failed: the state is error when \<open>handleMessageStopped\<close> runs.\<close>

fun late_answer :: "engine_op \<Rightarrow> Session \<Rightarrow> bool" where
  "late_answer (InterruptAnswer ok now) s = (ok \<and> sessionState s = Error)"
| "late_answer _ s = False"

text \<open>Runs of the engine on a new session: a turn that completes and a stream that
  fails afterwards, between turns; and a stream that fails during the turn.\<close>

definition demo_outage :: "engine_op list" where
  "demo_outage =
     [Enqueue (js ''hi'') 1,
      RuntimeMessage \<lparr>raw = None, error_field = None, parent_tool_use_id = None,
                      body = ResultMsg\<rparr> 2,
      StreamFailure None 3]"

definition demo_crash :: "engine_op list" where
  "demo_crash = [Enqueue (js ''hi'') 1, StreamFailure None 2]"

text \<open>A reasoning segment that is still open.\<close>

definition is_open_reasoning :: "ContentBlock \<Rightarrow> bool" where
  "is_open_reasoning b = (case b of ThinkingBlock t \<Rightarrow> \<not> isComplete t | _ \<Rightarrow> False)"

definition demo_stop_ops :: "engine_op list" where
  "demo_stop_ops =
     [Enqueue (js ''a'') 1,
      RuntimeMessage (top_level (ContentBlockStart 0 ThinkingStart)) 2,
      Enqueue (js ''b'') 3,
      InterruptRequest,
      InterruptAnswer True 4]"

definition demo_thinking_ops :: "engine_op list" where
  "demo_thinking_ops =
     [Enqueue (js ''a'') 1,
      RuntimeMessage (top_level (ContentBlockStart 0 ThinkingStart)) 2]"

definition demo_thinking :: Session where
  "demo_thinking =
     (case engine_run demo_platform (new_Session demo_platform (js ''s1'') 0) demo_thinking_ops of
        Some s \<Rightarrow> s | None \<Rightarrow> new_Session demo_platform (js ''s1'') 0)"

definition demo_thought :: ThinkingState where
  "demo_thought = \<lparr>thinking = [], thinkingStartedAt = 2, thinkingDurationMs = None,
                    thinkingStreamIndex = 0, isComplete = False\<rparr>"

text \<open>The ids of the tool segments at the top level of each message, and of the log.\<close>

definition segment_ids :: "MessageWire list \<Rightarrow> jsstring list list" where
  "segment_ids ms = map (\<lambda>m. tool_ids (contentArray m)) ms"

definition top_level_tool_ids :: "Session \<Rightarrow> jsstring list" where
  "top_level_tool_ids s = concat (segment_ids (messages s))"

text \<open>The tool ids that the tool-invocation starts without a parent tool id carry,
  in a message and in a run of the engine.\<close>

fun message_starts :: "sdk_message \<Rightarrow> jsstring list" where
  "message_starts msg =
     (case body msg of
        StreamEventMsg (ContentBlockStart index (ToolUseStart tid nm inp)) \<Rightarrow>
          if str_truthy (parent_tool_use_id msg) then [] else [tid]
      | _ \<Rightarrow> [])"

fun top_starts :: "engine_op list \<Rightarrow> jsstring list" where
  "top_starts [] = []"
| "top_starts (RuntimeMessage msg now # ops) = message_starts msg @ top_starts ops"
| "top_starts (_ # ops) = top_starts ops"

text \<open>A message with the call lists of its tool records erased.\<close>

definition strip_block :: "ContentBlock \<Rightarrow> ContentBlock" where
  "strip_block b = map_tool (\<lambda>t. t\<lparr>t_subagentCalls := None\<rparr>) b"

definition strip_message :: "MessageWire \<Rightarrow> MessageWire" where
  "strip_message m =
     (case m_content m of
        Str t \<Rightarrow> m
      | Blocks bs \<Rightarrow> m\<lparr>m_content := Blocks (map strip_block bs)\<rparr>)"

text \<open>A turn in which the tool \<open>t1\<close> starts and a child \<open>c1\<close> of it starts.\<close>

definition demo_nested_ops :: "engine_op list" where
  "demo_nested_ops =
     [Enqueue (js ''a'') 1,
      RuntimeMessage (top_level (ContentBlockStart 0 (ToolUseStart (js ''t1'') (js ''Task'') None))) 2,
      RuntimeMessage
        (subagent_event (js ''t1'') (ContentBlockStart 0 (ToolUseStart (js ''c1'') (js ''Grep'') None))) 3]"

text \<open>The tool records at the top level of a message, and of the whole log, in order.\<close>

definition message_tools :: "MessageWire \<Rightarrow> ToolUseState list" where
  "message_tools m = List.map_filter tool_of (contentArray m)"

definition log_tools :: "Session \<Rightarrow> ToolUseState list" where
  "log_tools s = concat (map message_tools (messages s))"

text \<open>A tool \<open>t1\<close> starts in a turn, the user enqueues a second turn while the first
  is still streaming, and then an argument delta for \<open>t1\<close> arrives.  \<open>demo_split\<close> is
  the session when that delta arrives.\<close>

definition demo_split_ops :: "engine_op list" where
  "demo_split_ops =
     [Enqueue (js ''a'') 1,
      RuntimeMessage (top_level (ContentBlockStart 0 (ToolUseStart (js ''t1'') (js ''Read'') None))) 2,
      Enqueue (js ''b'') 3,
      RuntimeMessage (top_level (ContentBlockDelta 0 (InputJsonDelta (js ''{\"a\":1}'')))) 4]"

definition demo_split :: Session where
  "demo_split =
     (case engine_run demo_platform (new_Session demo_platform (js ''s1'') 0) (take 3 demo_split_ops) of
        Some s \<Rightarrow> s | None \<Rightarrow> new_Session demo_platform (js ''s1'') 0)"







section \<open>Properties\<close>

subsection \<open>Blank input is ignored\<close>

lemma dropWhile_all: "\<forall>x\<in>set xs. P x \<Longrightarrow> dropWhile P xs = []"
  by (induction xs) auto

lemma trim_whitespace: "\<forall>c\<in>set txt. is_js_whitespace c \<Longrightarrow> trim txt = []"
  by (simp add: trim_def dropWhile_all)

text \<open>
  C10.  When the text is empty or holds only whitespace, \<open>enqueueUserMessage\<close>
  returns normally with the registry exactly as it was: no session is
  created or looked up (an unknown session id raises nothing), no message,
  state, name, queue or broadcast changes.
\<close>

theorem enqueue_blank_no_effect:
  "\<forall>c\<in>set txt. is_js_whitespace c \<Longrightarrow> enqueueUserMessage pf uid now txt sessionId m = Inr m"
  by (simp add: enqueueUserMessage_def trim_whitespace)

theorem enqueue_blank_no_effect_witness:
  "list_all is_js_whitespace [0x0020, 0x0009, 0x3000, 0x000A] \<and>
   enqueueUserMessage demo_platform (js ''u1'') 5 [0x0020, 0x0009, 0x3000, 0x000A]
     (Some (js ''unknown'')) new_SessionManager = Inr new_SessionManager"
  using enqueue_blank_no_effect [of "[0x0020, 0x0009, 0x3000, 0x000A]" demo_platform "js ''u1''" 5
      "Some (js ''unknown'')" new_SessionManager]
  by (simp add: is_js_whitespace_def)

subsection \<open>Deleting a session\<close>

lemma list_all_delete: "list_all P al \<Longrightarrow> list_all P (AList.delete i al)"
  by (induction al) (auto simp: AList.delete_eq)

text \<open>
  C3.  \<open>deleteSession\<close> on an existing session: when the session is running it
  returns \<open>false\<close> and the registry (sessions, mapping, active pointer,
  broadcasts) is unchanged; otherwise it returns \<open>true\<close>, the id is gone from
  the mapping and every other entry is kept, and when the deleted session was
  the active one the pointer names a session that is still in the mapping
  (the first remaining one), or is cleared when none remains; when another
  session was active the pointer is kept.
\<close>

theorem deleteSession_running_or_removed:
  assumes found: "map_of (sessions m) i = Some s" and keys: "registry_keys_ok m"
  shows "(sessionState s = Running \<longrightarrow> deleteSession i m = (False, m)) \<and>
         (sessionState s \<noteq> Running \<longrightarrow>
            fst (deleteSession i m) = True \<and>
            map_of (sessions (snd (deleteSession i m))) = (map_of (sessions m))(i := None) \<and>
            (if activeSessionId m = Some i
             then (case sessions (snd (deleteSession i m)) of
                     [] \<Rightarrow> activeSessionId (snd (deleteSession i m)) = None
                   | (k, r) # rest \<Rightarrow>
                       activeSessionId (snd (deleteSession i m)) = Some k \<and>
                       map_of (sessions (snd (deleteSession i m))) k = Some r)
             else activeSessionId (snd (deleteSession i m)) = activeSessionId m))"
proof (intro conjI impI)
  assume "sessionState s = Running"
  with found show "deleteSession i m = (False, m)"
    by (simp add: deleteSession_def)
next
  assume nr: "sessionState s \<noteq> Running"
  let ?al = "AList.delete i (sessions m)"
  have keys': "list_all (\<lambda>(k, s). sid s = k) ?al"
    using keys by (simp add: registry_keys_ok_def list_all_delete)
  show "fst (deleteSession i m) = True"
    using found nr by (simp add: deleteSession_def Let_def)
  have "sessions (snd (deleteSession i m)) = ?al"
    using found nr
    by (simp add: deleteSession_def Let_def broadcastRegistry_def setActiveSession_def
          split: list.splits option.splits)
  then show "map_of (sessions (snd (deleteSession i m))) = (map_of (sessions m))(i := None)"
    by (simp add: AList.delete_conv')
  show "if activeSessionId m = Some i
        then (case sessions (snd (deleteSession i m)) of
                [] \<Rightarrow> activeSessionId (snd (deleteSession i m)) = None
              | (k, r) # rest \<Rightarrow>
                  activeSessionId (snd (deleteSession i m)) = Some k \<and>
                  map_of (sessions (snd (deleteSession i m))) k = Some r)
        else activeSessionId (snd (deleteSession i m)) = activeSessionId m"
  proof (cases ?al)
    case Nil
    then show ?thesis using found nr
      by (simp add: deleteSession_def Let_def broadcastRegistry_def)
  next
    case (Cons p rest)
    obtain k r where p: "p = (k, r)" by (cases p)
    have "sid r = k" using keys' Cons p by simp
    then show ?thesis using found nr Cons p
      by (simp add: deleteSession_def Let_def broadcastRegistry_def setActiveSession_def)
  qed
qed

theorem deleteSession_running_or_removed_witness:
  "deleteSession (js ''a'') demo_registry = (False, demo_registry) \<and>
   fst (deleteSession (js ''b'') demo_registry) = True \<and>
   map (\<lambda>p. fst p) (sessions (snd (deleteSession (js ''b'') demo_registry))) = [js ''a'', js ''c''] \<and>
   activeSessionId (snd (deleteSession (js ''b'') demo_registry)) = Some (js ''a'')"
proof -
  have k: "registry_keys_ok demo_registry"
    by (simp add: registry_keys_ok_def demo_registry_def demo_session_def new_Session_def)
  have a: "map_of (sessions demo_registry) (js ''a'') = Some (demo_session ''a'' Running)"
    by (simp add: demo_registry_def js_def)
  have b: "map_of (sessions demo_registry) (js ''b'') = Some (demo_session ''b'' Idle)"
    by (simp add: demo_registry_def js_def)
  have ra: "sessionState (demo_session ''a'' Running) = Running"
    and rb: "sessionState (demo_session ''b'' Idle) \<noteq> Running"
    by (simp_all add: demo_session_def)
  show ?thesis
    using deleteSession_running_or_removed [OF a k] deleteSession_running_or_removed [OF b k] ra rb
    by (simp add: deleteSession_def demo_registry_def js_def Let_def broadcastRegistry_def
          setActiveSession_def demo_session_def new_Session_def AList.delete_eq)
qed

subsection \<open>The name of a session\<close>

lemma takeWhile_split:
  "\<exists>r. xs = takeWhile P xs @ r \<and> (r = [] \<or> \<not> P (hd r))"
proof -
  have "xs = takeWhile P xs @ dropWhile P xs" by simp
  moreover have "dropWhile P xs = [] \<or> \<not> P (hd (dropWhile P xs))"
    by (metis hd_dropWhile)
  ultimately show ?thesis by blast
qed

lemma autoGenerateName_shape:
  "\<exists>p r. take 30 t = p @ r \<and> (\<forall>c\<in>set p. c \<noteq> 0x3002 \<and> c \<noteq> 0x000A) \<and>
         (r = [] \<or> hd r = 0x3002 \<or> hd r = 0x000A) \<and>
         autoGenerateName t = p @ (if 30 < length t then js ''...'' else [])"
proof -
  let ?P = "\<lambda>c::jschar. c \<noteq> 0x3002 \<and> c \<noteq> 0x000A"
  obtain r where r: "take 30 t = takeWhile ?P (take 30 t) @ r" "r = [] \<or> \<not> ?P (hd r)"
    using takeWhile_split [of "take 30 t" ?P] by blast
  have "\<forall>c\<in>set (takeWhile ?P (take 30 t)). ?P c"
    by (auto dest: set_takeWhileD)
  with r show ?thesis
    unfolding autoGenerateName_def Let_def by blast
qed

lemma sessionFor_lookup:
  assumes "sessionFor m sessionId = Some (k, s)"
  shows "(if str_truthy sessionId
          then (case getSession m (the sessionId) of
                  None \<Rightarrow> Inl (SessionNotFound (the sessionId))
                | Some found \<Rightarrow> Inr (m, the sessionId, found))
          else (case sessionFor m None of
                  Some (k, session) \<Rightarrow> Inr (m, k, session)
                | None \<Rightarrow>
                    (case createSession pf uid now m of
                       (m', session) \<Rightarrow> Inr (m', sid session, session)))) = Inr (m, k, s)"
  using assms by (auto simp: sessionFor_def split: option.splits)

lemma enqueueTurn_fresh:
  assumes "messages s = []"
  shows "messages (enqueueTurn now t s) =
           [\<lparr>m_id = messageSequence s, m_role = User, m_content = Str t, m_timestamp = now\<rparr>]"
    and "sname (enqueueTurn now t s) = autoGenerateName t"
    and "sid (enqueueTurn now t s) = sid s"
  using assms
  by (simp_all add: enqueueTurn_def Let_def setSessionState_def broadcast_def
        updateNameFromFirstMessage_def)

lemma enqueueStart_keeps:
  "sname (enqueueStart t s) = sname s" "sid (enqueueStart t s) = sid s"
  by (simp_all add: enqueueStart_def Let_def startStreamingSession_def setSessionState_def
        broadcast_def)

text \<open>
  C8.  The first user turn of a fresh session (no message yet) names the
  session after the trimmed text: the name is \<open>autoGenerateName\<close> of it, that
  is the longest part of its first 30 units that holds no ideographic full
  stop and no line feed, followed by \<open>...\<close> when the text is longer than 30
  units; a \<open>session:updated\<close> notification carries the new name.  The text
  \<open>fix the crash\<close> gives the name \<open>fix the crash\<close>.
\<close>

theorem first_turn_names_session:
  assumes found: "sessionFor m sessionId = Some (k, s)"
    and fresh: "messages s = []" and nonblank: "trim txt \<noteq> []"
  shows "\<exists>m' s' md.
           enqueueUserMessage pf uid now txt sessionId m = Inr m' \<and>
           map_of (sessions m') k = Some s' \<and>
           sname s' = autoGenerateName (trim txt) \<and>
           registryOutbox m' = registryOutbox m @ [SessionUpdated md] \<and>
           md_id md = sid s \<and> md_name md = sname s' \<and>
           (\<exists>p r. take 30 (trim txt) = p @ r \<and>
                  (\<forall>c\<in>set p. c \<noteq> 0x3002 \<and> c \<noteq> 0x000A) \<and>
                  (r = [] \<or> hd r = 0x3002 \<or> hd r = 0x000A) \<and>
                  sname s' = p @ (if 30 < length (trim txt) then js ''...'' else [])) \<and>
           (trim txt = js ''fix the crash'' \<longrightarrow> sname s' = js ''fix the crash'')"
proof -
  let ?t = "trim txt"
  let ?s1 = "enqueueTurn now ?t s"
  let ?m' = "(broadcastRegistry (SessionUpdated (getMetadata ?s1)) m)
               \<lparr>sessions := AList.update k (enqueueStart ?t ?s1) (sessions m)\<rparr>"
  have run: "enqueueUserMessage pf uid now txt sessionId m = Inr ?m'"
    using nonblank enqueueTurn_fresh(1) [OF fresh, of now ?t]
    by (simp add: enqueueUserMessage_def Let_def sessionFor_lookup [OF found]
          broadcastRegistry_def)
  have look: "map_of (sessions ?m') k = Some (enqueueStart ?t ?s1)"
    by (simp add: AList.update_conv')
  have nm: "sname (enqueueStart ?t ?s1) = autoGenerateName ?t"
    by (simp add: enqueueStart_keeps enqueueTurn_fresh(2) [OF fresh])
  have out: "registryOutbox ?m' = registryOutbox m @ [SessionUpdated (getMetadata ?s1)]"
    by (simp add: broadcastRegistry_def)
  have md: "md_id (getMetadata ?s1) = sid s" "md_name (getMetadata ?s1) = autoGenerateName ?t"
    by (simp_all add: getMetadata_def enqueueTurn_fresh [OF fresh])
  have crash: "autoGenerateName (js ''fix the crash'') = js ''fix the crash''"
    by (simp add: autoGenerateName_def js_def)
  show ?thesis
    using run look nm out md autoGenerateName_shape [of ?t] crash
    by (intro exI [of _ ?m'] exI [of _ "enqueueStart ?t ?s1"] exI [of _ "getMetadata ?s1"]) auto
qed

theorem first_turn_names_session_witness:
  "\<exists>m' s' md.
     enqueueUserMessage demo_platform (js ''u'') 7 (js '' fix the crash '') None demo_fresh = Inr m' \<and>
     map_of (sessions m') (js ''s1'') = Some s' \<and> sname s' = js ''fix the crash'' \<and>
     registryOutbox m' = registryOutbox demo_fresh @ [SessionUpdated md] \<and>
     md_name md = js ''fix the crash''"
proof -
  have tr: "trim (js '' fix the crash '') = js ''fix the crash''"
    by (simp add: js_def trim_def is_js_whitespace_def)
  have f: "sessionFor demo_fresh None =
             Some (js ''s1'', createLogStream (new_Session demo_platform (js ''s1'') 0))"
    by (simp add: demo_fresh_def createSession_def Let_def new_SessionManager_def sessionFor_def
          getActiveSession_def broadcastRegistry_def createLogStream_def new_Session_def js_def)
  have e: "messages (createLogStream (new_Session demo_platform (js ''s1'') 0)) = []"
    by (simp add: createLogStream_def new_Session_def)
  have t: "trim (js '' fix the crash '') \<noteq> []"
    by (simp add: tr) (simp add: js_def)
  show ?thesis
    using first_turn_names_session [OF f e t, of demo_platform "js ''u''" 7] tr
    by auto
qed

subsection \<open>The block array of the current turn\<close>

lemma map_last_conv: "map_last f xs = (if xs = [] then [] else butlast xs @ [f (last xs)])"
  by (induction f xs rule: map_last.induct) auto

lemma map_last_snoc [simp]: "map_last f (xs @ [x]) = xs @ [f x]"
  by (simp add: map_last_conv)

lemma map_last_Nil [simp]: "map_last f xs = [] \<longleftrightarrow> xs = []"
  by (simp add: map_last_conv)

lemma last_map_last [simp]: "xs \<noteq> [] \<Longrightarrow> last (map_last f xs) = f (last xs)"
  by (simp add: map_last_conv)

lemma map_last_id: "xs \<noteq> [] \<Longrightarrow> f (last xs) = last xs \<Longrightarrow> map_last f xs = xs"
  by (simp add: map_last_conv)

lemma update_first_split:
  "\<forall>b\<in>set pre. \<not> P b \<Longrightarrow> P x \<Longrightarrow> update_first P f (pre @ x # post) = pre @ f x # post"
  by (induction pre) auto

lemma find_split:
  "\<forall>b\<in>set pre. \<not> P b \<Longrightarrow> P x \<Longrightarrow> find P (pre @ x # post) = Some x"
  by (induction pre) auto

lemma update_first_none: "\<forall>b\<in>set xs. \<not> P b \<Longrightarrow> update_first P f xs = xs"
  by (induction xs) auto

lemma openContentArray_in_turn: "in_turn s \<Longrightarrow> openContentArray now s = s"
  by (auto simp: in_turn_def openContentArray_def ensureAssistantMessage_def Let_def
        ensureContentArray_def map_last_id split: Content.splits)

lemma in_turn_openContentArray [simp]: "in_turn (openContentArray now s)"
  by (auto simp: in_turn_def openContentArray_def ensureAssistantMessage_def Let_def
        ensureContentArray_def split: Content.splits)

lemma messages_openContentArray [simp]: "messages (openContentArray now s) \<noteq> []"
  using in_turn_openContentArray [of now s] unfolding in_turn_def by blast

lemma currentBlocks_conv:
  "currentBlocks s = (if messages s = [] then [] else contentArray (last (messages s)))"
  by (simp add: currentBlocks_def split: list.splits)

lemma currentBlocks_mutateBlocks:
  "messages s \<noteq> [] \<Longrightarrow> currentBlocks (mutateBlocks f s) = f (currentBlocks s)"
  by (simp add: currentBlocks_conv mutateBlocks_def)

lemma in_turn_mutateBlocks [simp]: "in_turn s \<Longrightarrow> in_turn (mutateBlocks f s)"
  by (simp add: in_turn_def mutateBlocks_def)

lemma mutateBlocks_const:
  "f (currentBlocks s) = bs \<Longrightarrow> mutateBlocks f s = mutateBlocks (\<lambda>_. bs) s"
  by (auto simp: mutateBlocks_def currentBlocks_conv map_last_conv)

lemma outbox_mutateBlocks [simp]: "outbox (mutateBlocks f s) = outbox s"
  and sessionState_mutateBlocks [simp]: "sessionState (mutateBlocks f s) = sessionState s"
  by (simp_all add: mutateBlocks_def)

lemma outbox_openContentArray [simp]: "outbox (openContentArray now s) = outbox s"
  and sessionState_openContentArray [simp]: "sessionState (openContentArray now s) = sessionState s"
  by (simp_all add: openContentArray_def ensureAssistantMessage_def Let_def)

(* find_tool / mutate_tool *)

lemma find_update_first_tool:
  "(\<And>t. t_id (f t) = t_id t) \<Longrightarrow>
   find (is_tool_with_id i) (update_first (is_tool_with_id i) (map_tool f) bs) =
   map_option (map_tool f) (find (is_tool_with_id i) bs)"
proof (induction bs)
  case Nil
  then show ?case by simp
next
  case (Cons b bs)
  then show ?case by (cases b) auto
qed

lemma tool_of_map_tool: "tool_of (map_tool f b) = map_option f (tool_of b)"
  by (cases b) auto

lemma find_tool_rev_mutate:
  "(\<And>t. t_id (f t) = t_id t) \<Longrightarrow>
   find_tool_rev i (mutate_tool_rev i f ms) = map_option f (find_tool_rev i ms)"
proof (induction ms)
  case Nil
  then show ?case by simp
next
  case (Cons m ms)
  then show ?case
    by (auto simp: find_update_first_tool tool_of_map_tool split: Content.splits option.splits)
qed

lemma findToolBlockById_mutateTool:
  "(\<And>t. t_id (f t) = t_id t) \<Longrightarrow>
   findToolBlockById (mutateTool i f s) i = map_option f (findToolBlockById s i)"
  by (simp add: findToolBlockById_def mutateTool_def find_tool_rev_mutate)

lemma outbox_mutateTool [simp]: "outbox (mutateTool i f s) = outbox s"
  and sessionState_mutateTool [simp]: "sessionState (mutateTool i f s) = sessionState s"
  by (simp_all add: mutateTool_def)

lemma demo_turn_eq:
  "demo_turn =
     (new_Session demo_platform (js ''s1'') 0)
       \<lparr>isStreamingMessage := True,
        messages := [\<lparr>m_id = 0, m_role = Assistant, m_content = Blocks [ToolUseBlock demo_tool],
                      m_timestamp = 1\<rparr>],
        childToolToParent := [(js ''c1'', js ''t1'')], messageSequence := 1\<rparr>"
  by (simp add: demo_turn_def handleSubagentToolUseStart_def handleToolUseStart_def
        openContentArray_def ensureAssistantMessage_def ensureContentArray_def mutateBlocks_def
        new_Session_def findToolBlockById_def mutateTool_def calls_of_def demo_tool_def
        demo_call_def demo_platform_def Let_def)

lemma log_tools_broadcast [simp]: "log_tools (broadcast n s) = log_tools s"
  by (simp add: log_tools_def broadcast_def)

lemma message_tools_ensureContentArray [simp]:
  "message_tools (ensureContentArray m) = message_tools m"
  by (simp add: message_tools_def ensureContentArray_def List.map_filter_simps split: Content.splits)

lemma concat_map_last:
  "(\<And>m. g (f m) = g m) \<Longrightarrow> concat (map g (map_last f ms)) = concat (map g ms)"
  by (induction f ms rule: map_last.induct) simp_all

lemma log_tools_openContentArray [simp]: "log_tools (openContentArray now s) = log_tools s"
  by (simp add: log_tools_def openContentArray_def ensureAssistantMessage_def Let_def concat_map_last)
     (simp add: message_tools_def List.map_filter_simps)


lemma mutateBlocks_same:
  "in_turn s \<Longrightarrow> f (currentBlocks s) = currentBlocks s \<Longrightarrow> mutateBlocks f s = s"
  by (auto simp: in_turn_def mutateBlocks_def currentBlocks_conv map_last_id split: Content.splits)

lemma find_None_update_first: "find P xs = None \<Longrightarrow> update_first P f xs = xs"
  by (rule update_first_none) (simp add: find_None_iff)

text \<open>
  C7, as the code has it.  A tool-argument delta whose record is found: for
  the main conversation the first tool record with the id among the segments
  of the assistant message being streamed (the message that
  \<open>ensureAssistantMessage\<close> returns), for a delegated sub-conversation the first
  call with the id in the call list of the parent's record.  The delta is
  appended to the raw-argument buffer, the buffer goes through
  \<open>parsePartialJson\<close>, a truthy result replaces the cached input, any other
  outcome keeps it, and the record changes in these two fields only; every
  other block, call and message is as before.  A delta whose record is not
  found there is dropped: for the main conversation the session is the one
  with the assistant message opened and no tool record of the log changes,
  for a sub-conversation the session is unchanged.  In every case the
  handler broadcasts nothing, fails on nothing and keeps the lifecycle state.
\<close>

theorem tool_input_delta_found_or_dropped:
  "(currentBlocks (openContentArray now s) = pre @ ToolUseBlock t # post \<and>
    (\<forall>b\<in>set pre. \<not> is_tool_with_id toolId b) \<and> t_id t = toolId \<longrightarrow>
      handleToolInputDelta pf now index toolId delta s =
        mutateBlocks
          (\<lambda>_. pre @ ToolUseBlock
             (t\<lparr>t_inputJson := Some ((case t_inputJson t of None \<Rightarrow> [] | Some j \<Rightarrow> j) @ delta),
                t_parsedInput :=
                  (case parsePartialJson pf ((case t_inputJson t of None \<Rightarrow> [] | Some j \<Rightarrow> j) @ delta) of
                     Some v \<Rightarrow> if js_truthy v then Some v else t_parsedInput t
                   | None \<Rightarrow> t_parsedInput t)\<rparr>) # post)
          (openContentArray now s)) \<and>
   (find (is_tool_with_id toolId) (currentBlocks (openContentArray now s)) = None \<longrightarrow>
      handleToolInputDelta pf now index toolId delta s = openContentArray now s \<and>
      log_tools (handleToolInputDelta pf now index toolId delta s) = log_tools s) \<and>
   outbox (handleToolInputDelta pf now index toolId delta s) = outbox s \<and>
   sessionState (handleToolInputDelta pf now index toolId delta s) = sessionState s \<and>
   (findToolBlockById s' parent = Some pt \<and> t_subagentCalls pt = Some (cpre @ c # cpost) \<and>
    (\<forall>x\<in>set cpre. sc_id x \<noteq> toolId) \<and> sc_id c = toolId \<longrightarrow>
      findToolBlockById (handleSubagentToolInputDelta pf parent toolId delta s') parent =
        Some (pt\<lparr>t_subagentCalls := Some (cpre @
          c\<lparr>sc_inputJson := Some ((case sc_inputJson c of None \<Rightarrow> [] | Some j \<Rightarrow> j) @ delta),
            sc_parsedInput :=
              (case parsePartialJson pf ((case sc_inputJson c of None \<Rightarrow> [] | Some j \<Rightarrow> j) @ delta) of
                 Some v \<Rightarrow> if js_truthy v then Some v else sc_parsedInput c
               | None \<Rightarrow> sc_parsedInput c)\<rparr> # cpost)\<rparr>) \<and>
      handleSubagentToolInputDelta pf parent toolId delta s' =
        mutateTool parent (\<lambda>t. t\<lparr>t_subagentCalls := Some (cpre @
          c\<lparr>sc_inputJson := Some ((case sc_inputJson c of None \<Rightarrow> [] | Some j \<Rightarrow> j) @ delta),
            sc_parsedInput :=
              (case parsePartialJson pf ((case sc_inputJson c of None \<Rightarrow> [] | Some j \<Rightarrow> j) @ delta) of
                 Some v \<Rightarrow> if js_truthy v then Some v else sc_parsedInput c
               | None \<Rightarrow> sc_parsedInput c)\<rparr> # cpost)\<rparr>) s') \<and>
   ((\<forall>p cs. findToolBlockById s' parent = Some p \<and> t_subagentCalls p = Some cs \<longrightarrow>
        find (\<lambda>x. sc_id x = toolId) cs = None) \<longrightarrow>
      handleSubagentToolInputDelta pf parent toolId delta s' = s') \<and>
   outbox (handleSubagentToolInputDelta pf parent toolId delta s') = outbox s' \<and>
   sessionState (handleSubagentToolInputDelta pf parent toolId delta s') = sessionState s'"
proof (intro conjI impI)
  assume h: "currentBlocks (openContentArray now s) = pre @ ToolUseBlock t # post \<and>
    (\<forall>b\<in>set pre. \<not> is_tool_with_id toolId b) \<and> t_id t = toolId"
  then have "update_first (is_tool_with_id toolId) (map_tool (toolInputDelta pf delta))
               (currentBlocks (openContentArray now s)) =
             pre @ ToolUseBlock (toolInputDelta pf delta t) # post"
    by (simp add: update_first_split)
  then show "handleToolInputDelta pf now index toolId delta s =
        mutateBlocks
          (\<lambda>_. pre @ ToolUseBlock
             (t\<lparr>t_inputJson := Some ((case t_inputJson t of None \<Rightarrow> [] | Some j \<Rightarrow> j) @ delta),
                t_parsedInput :=
                  (case parsePartialJson pf ((case t_inputJson t of None \<Rightarrow> [] | Some j \<Rightarrow> j) @ delta) of
                     Some v \<Rightarrow> if js_truthy v then Some v else t_parsedInput t
                   | None \<Rightarrow> t_parsedInput t)\<rparr>) # post)
          (openContentArray now s)"
    unfolding handleToolInputDelta_def
    by (subst mutateBlocks_const) (simp_all add: toolInputDelta_def reparse_def Let_def)
next
  assume n: "find (is_tool_with_id toolId) (currentBlocks (openContentArray now s)) = None"
  show d: "handleToolInputDelta pf now index toolId delta s = openContentArray now s"
    unfolding handleToolInputDelta_def
    by (rule mutateBlocks_same) (simp_all add: find_None_update_first [OF n])
  show "log_tools (handleToolInputDelta pf now index toolId delta s) = log_tools s"
    by (simp add: d)
next
  show "outbox (handleToolInputDelta pf now index toolId delta s) = outbox s"
    by (simp add: handleToolInputDelta_def)
  show "sessionState (handleToolInputDelta pf now index toolId delta s) = sessionState s"
    by (simp add: handleToolInputDelta_def)
next
  assume h: "findToolBlockById s' parent = Some pt \<and> t_subagentCalls pt = Some (cpre @ c # cpost) \<and>
    (\<forall>x\<in>set cpre. sc_id x \<noteq> toolId) \<and> sc_id c = toolId"
  let ?c' = "c\<lparr>sc_inputJson := Some ((case sc_inputJson c of None \<Rightarrow> [] | Some j \<Rightarrow> j) @ delta),
            sc_parsedInput :=
              (case parsePartialJson pf ((case sc_inputJson c of None \<Rightarrow> [] | Some j \<Rightarrow> j) @ delta) of
                 Some v \<Rightarrow> if js_truthy v then Some v else sc_parsedInput c
               | None \<Rightarrow> sc_parsedInput c)\<rparr>"
  have f: "find (\<lambda>x. sc_id x = toolId) (cpre @ c # cpost) = Some c"
    using h by (simp add: find_split)
  have u: "update_first (\<lambda>x. sc_id x = toolId) (subagentInputDelta pf delta) (cpre @ c # cpost) =
           cpre @ ?c' # cpost"
    using h by (simp add: update_first_split subagentInputDelta_def reparse_def Let_def)
  show eq: "handleSubagentToolInputDelta pf parent toolId delta s' =
        mutateTool parent (\<lambda>t. t\<lparr>t_subagentCalls := Some (cpre @ ?c' # cpost)\<rparr>) s'"
    using h f u by (simp add: handleSubagentToolInputDelta_def mutateSubCall_def)
  show "findToolBlockById (handleSubagentToolInputDelta pf parent toolId delta s') parent =
        Some (pt\<lparr>t_subagentCalls := Some (cpre @ ?c' # cpost)\<rparr>)"
    using h by (simp add: eq findToolBlockById_mutateTool)
next
  assume "\<forall>p cs. findToolBlockById s' parent = Some p \<and> t_subagentCalls p = Some cs \<longrightarrow>
        find (\<lambda>x. sc_id x = toolId) cs = None"
  then show "handleSubagentToolInputDelta pf parent toolId delta s' = s'"
    by (simp add: handleSubagentToolInputDelta_def mutateSubCall_def split: option.splits)
next
  show "outbox (handleSubagentToolInputDelta pf parent toolId delta s') = outbox s'"
    by (simp add: handleSubagentToolInputDelta_def mutateSubCall_def split: option.splits)
  show "sessionState (handleSubagentToolInputDelta pf parent toolId delta s') = sessionState s'"
    by (simp add: handleSubagentToolInputDelta_def mutateSubCall_def split: option.splits)
qed

text \<open>
  C7 as stated does not hold.  The tool \<open>t1\<close> starts at stream index 0, the user
  enqueues a second turn, and a delta for index 0 arrives.  The index is still
  mapped to \<open>t1\<close>, but the last message of the log is now the user's: the
  handler opens a new, empty assistant message, finds no record there and
  returns.  The buffer of \<open>t1\<close> is still empty and its cached input unset.
\<close>

theorem delta_for_earlier_message_is_dropped:
  "map_option
     (\<lambda>s. (map_of (streamIndexToToolId s) 0,
           map (\<lambda>t. (t_id t, t_inputJson t, t_parsedInput t)) (log_tools s),
           map m_role (messages s)))
     (engine_run demo_platform (new_Session demo_platform (js ''s1'') 0) demo_split_ops) =
   Some (Some (js ''t1''), [(js ''t1'', Some [], None)], [User, Assistant, User, Assistant])"
  by code_simp

lemma demo_split_facts:
  "find (is_tool_with_id (js ''t1'')) (currentBlocks (openContentArray 4 demo_split)) = None \<and>
   map (\<lambda>t. (t_id t, t_inputJson t)) (log_tools demo_split) = [(js ''t1'', Some [])]"
  by code_simp

theorem tool_input_delta_found_or_dropped_witness:
  "currentBlocks (handleToolInputDelta demo_platform 2 0 (js ''t1'') (js ''{\"a\":1'') demo_turn) =
     [ToolUseBlock (demo_tool\<lparr>t_inputJson := Some (js ''{\"a\":1''),
                              t_parsedInput := Some (JObject [(js ''a'', JNumber 1)])\<rparr>)] \<and>
   findToolBlockById
     (handleSubagentToolInputDelta demo_platform (js ''t1'') (js ''c1'') (js ''{}'') demo_turn)
     (js ''t1'') =
     Some (demo_tool\<lparr>t_subagentCalls := Some [demo_call\<lparr>sc_inputJson := Some (js ''?{}'')\<rparr>]\<rparr>) \<and>
   map (\<lambda>t. (t_id t, t_inputJson t))
     (log_tools (handleToolInputDelta demo_platform 4 0 (js ''t1'') (js ''{\"a\":1}'') demo_split)) =
     [(js ''t1'', Some [])] \<and>
   handleSubagentToolInputDelta demo_platform (js ''t1'') (js ''c2'') (js ''{}'') demo_turn = demo_turn"
proof -
  have it: "in_turn demo_turn"
    by (simp add: demo_turn_eq in_turn_def new_Session_def)
  have cb: "currentBlocks (openContentArray 2 demo_turn) = [] @ ToolUseBlock demo_tool # [] \<and>
      (\<forall>b\<in>set []. \<not> is_tool_with_id (js ''t1'') b) \<and> t_id demo_tool = js ''t1''"
    by (simp add: openContentArray_in_turn [OF it])
       (simp add: demo_turn_eq currentBlocks_def new_Session_def demo_tool_def)
  have ft: "findToolBlockById demo_turn (js ''t1'') = Some demo_tool"
    by (simp add: demo_turn_eq findToolBlockById_def new_Session_def demo_tool_def)
  have sc: "t_subagentCalls demo_tool = Some ([] @ demo_call # [])"
    by (simp add: demo_tool_def)
  have p1: "parsePartialJson demo_platform (js ''{\"a\":1'') = Some (JObject [(js ''a'', JNumber 1)])"
    by (simp add: demo_platform_def js_def)
  have p2: "parsePartialJson demo_platform (js ''?{}'') = None"
    by (simp add: demo_platform_def js_def)
  have ids: "t_id demo_tool = js ''t1''" "sc_id demo_call = js ''c1''"
    "t_inputJson demo_tool = Some []" "sc_inputJson demo_call = Some (js ''?'')"
    by (simp_all add: demo_tool_def demo_call_def)
  have cat: "js ''?'' @ js ''{}'' = js ''?{}''"
    by (simp add: js_def)
  have top: "handleToolInputDelta demo_platform 2 0 (js ''t1'') (js ''{\"a\":1'') demo_turn =
      mutateBlocks (\<lambda>_. [ToolUseBlock (demo_tool\<lparr>t_inputJson := Some (js ''{\"a\":1''),
                              t_parsedInput := Some (JObject [(js ''a'', JNumber 1)])\<rparr>)])
        (openContentArray 2 demo_turn)"
    using tool_input_delta_found_or_dropped [where now = 2 and s = demo_turn and pre = "[]"
        and t = demo_tool and post = "[]" and toolId = "js ''t1''" and pf = demo_platform
        and index = 0 and delta = "js ''{\"a\":1''", THEN conjunct1, THEN mp, OF cb]
    by (simp add: ids p1)
  have pre2: "findToolBlockById demo_turn (js ''t1'') = Some demo_tool \<and>
      t_subagentCalls demo_tool = Some ([] @ demo_call # []) \<and>
      (\<forall>x\<in>set []. sc_id x \<noteq> js ''c1'') \<and> sc_id demo_call = js ''c1''"
    using ft sc ids by simp
  have sub: "findToolBlockById
     (handleSubagentToolInputDelta demo_platform (js ''t1'') (js ''c1'') (js ''{}'') demo_turn)
     (js ''t1'') =
     Some (demo_tool\<lparr>t_subagentCalls := Some [demo_call\<lparr>sc_inputJson := Some (js ''?{}'')\<rparr>]\<rparr>)"
    using tool_input_delta_found_or_dropped [where s' = demo_turn and parent = "js ''t1''"
        and pt = demo_tool and cpre = "[]" and c = demo_call and cpost = "[]"
        and toolId = "js ''c1''" and pf = demo_platform and delta = "js ''{}''",
        THEN conjunct2, THEN conjunct2, THEN conjunct2, THEN conjunct2, THEN conjunct1,
        THEN mp, OF pre2, THEN conjunct1]
    by (simp add: ids p2 cat)
  have dropped: "log_tools (handleToolInputDelta demo_platform 4 0 (js ''t1'') (js ''{\"a\":1}'') demo_split) =
      log_tools demo_split"
    using tool_input_delta_found_or_dropped [where now = 4 and s = demo_split
        and toolId = "js ''t1''" and pf = demo_platform and index = 0
        and delta = "js ''{\"a\":1}''", THEN conjunct2, THEN conjunct1, THEN mp,
        OF conjunct1 [OF demo_split_facts], THEN conjunct2] .
  have nf: "\<forall>p cs. findToolBlockById demo_turn (js ''t1'') = Some p \<and> t_subagentCalls p = Some cs \<longrightarrow>
        find (\<lambda>x. sc_id x = js ''c2'') cs = None"
    using ft sc by (simp add: demo_call_def js_def)
  have lost: "handleSubagentToolInputDelta demo_platform (js ''t1'') (js ''c2'') (js ''{}'') demo_turn =
      demo_turn"
    using tool_input_delta_found_or_dropped [where s' = demo_turn and parent = "js ''t1''"
        and toolId = "js ''c2''" and pf = demo_platform and delta = "js ''{}''",
        THEN conjunct2, THEN conjunct2, THEN conjunct2, THEN conjunct2, THEN conjunct2,
        THEN conjunct1, THEN mp, OF nf] .
  show ?thesis
    using conjunct2 [OF demo_split_facts]
    by (simp add: top sub dropped lost currentBlocks_mutateBlocks)
qed

subsection \<open>Start, argument deltas and stop of a tool invocation\<close>

lemma in_turn_cong:
  "messages s' = messages s \<Longrightarrow> isStreamingMessage s' = isStreamingMessage s \<Longrightarrow>
   in_turn s' = in_turn s"
  by (simp add: in_turn_def)

lemma in_turn_broadcast [simp]: "in_turn (broadcast n s) = in_turn s"
  by (simp add: in_turn_def broadcast_def)

lemma currentBlocks_broadcast [simp]: "currentBlocks (broadcast n s) = currentBlocks s"
  by (simp add: currentBlocks_conv broadcast_def)

lemma streamIndexToToolId_broadcast [simp]:
  "streamIndexToToolId (broadcast n s) = streamIndexToToolId s"
  by (simp add: broadcast_def)

lemma streamIndexToToolId_mutateBlocks [simp]:
  "streamIndexToToolId (mutateBlocks f s) = streamIndexToToolId s"
  by (simp add: mutateBlocks_def)

lemma streamIndexToToolId_openContentArray [simp]:
  "streamIndexToToolId (openContentArray now s) = streamIndexToToolId s"
  by (simp add: openContentArray_def ensureAssistantMessage_def Let_def)


















subsection \<open>Interleaved argument deltas\<close>


lemma tool_ids_Cons:
  "tool_ids (b # bs) = (case buffer_of b of Some p \<Rightarrow> fst p # tool_ids bs | None \<Rightarrow> tool_ids bs)"
  by (simp add: tool_ids_def List.map_filter_simps split: option.splits)





















subsection \<open>A tool result that arrives before its tool invocation\<close>

lemma findToolBlockById_cong:
  "messages s' = messages s \<Longrightarrow> findToolBlockById s' i = findToolBlockById s i"
  by (simp add: findToolBlockById_def)

lemma findToolBlockById_broadcast [simp]:
  "findToolBlockById (broadcast n s) i = findToolBlockById s i"
  by (simp add: findToolBlockById_def broadcast_def)

lemma childToolToParent_broadcast [simp]: "childToolToParent (broadcast n s) = childToolToParent s"
  by (simp add: broadcast_def)

lemma childToolToParent_mutateTool [simp]:
  "childToolToParent (mutateTool i f s) = childToolToParent s"
  by (simp add: mutateTool_def)

lemma mutateTool_cong_messages:
  "messages s' = messages s \<Longrightarrow> messages (mutateTool i f s') = messages (mutateTool i f s)"
  by (simp add: mutateTool_def)

lemma placeholder_created:
  assumes "findToolBlockById s t1 = Some pt" and "\<forall>c\<in>set (calls_of pt). sc_id c \<noteq> c1"
  shows "findToolBlockById (ensureSubagentToolPlaceholder t1 c1 s) t1 =
           Some (pt\<lparr>t_subagentCalls := Some (calls_of pt @ [placeholder c1])\<rparr>)"
    and "childToolToParent (ensureSubagentToolPlaceholder t1 c1 s) =
           AList.update c1 t1 (childToolToParent s)"
proof -
  have f: "find (\<lambda>c. sc_id c = c1) (calls_of pt) = None"
    using assms(2) by (simp add: find_None_iff)
  let ?s' = "s\<lparr>childToolToParent := AList.update c1 t1 (childToolToParent s)\<rparr>"
  have g: "findToolBlockById ?s' t1 = Some pt"
    using assms(1) by (simp add: findToolBlockById_def)
  have e: "ensureSubagentToolPlaceholder t1 c1 s =
           mutateTool t1 (\<lambda>t. t\<lparr>t_subagentCalls := Some (calls_of t @ [placeholder c1])\<rparr>) ?s'"
    using assms(1) f by (simp add: ensureSubagentToolPlaceholder_def placeholder_def)
  show "findToolBlockById (ensureSubagentToolPlaceholder t1 c1 s) t1 =
           Some (pt\<lparr>t_subagentCalls := Some (calls_of pt @ [placeholder c1])\<rparr>)"
    unfolding e by (subst findToolBlockById_mutateTool) (simp_all add: g)
  show "childToolToParent (ensureSubagentToolPlaceholder t1 c1 s) =
           AList.update c1 t1 (childToolToParent s)"
    unfolding e by simp
qed

lemma mutateSubCall_found:
  assumes "findToolBlockById s t1 = Some pt" and "t_subagentCalls pt = Some (pre @ c # post)"
    and "\<forall>x\<in>set pre. sc_id x \<noteq> c1" and "sc_id c = c1"
  shows "fst (mutateSubCall t1 c1 f s) = True"
    and "findToolBlockById (snd (mutateSubCall t1 c1 f s)) t1 =
           Some (pt\<lparr>t_subagentCalls := Some (pre @ f c # post)\<rparr>)"
proof -
  have fd: "find (\<lambda>x. sc_id x = c1) (pre @ c # post) = Some c"
    using assms(3,4) by (simp add: find_split)
  have u: "update_first (\<lambda>x. sc_id x = c1) f (pre @ c # post) = pre @ f c # post"
    using assms(3,4) by (simp add: update_first_split)
  have e: "mutateSubCall t1 c1 f s =
        (True, mutateTool t1 (\<lambda>t. t\<lparr>t_subagentCalls := Some (pre @ f c # post)\<rparr>) s)"
    using assms(1,2) fd u by (simp add: mutateSubCall_def)
  show "fst (mutateSubCall t1 c1 f s) = True" by (simp add: e)
  show "findToolBlockById (snd (mutateSubCall t1 c1 f s)) t1 =
           Some (pt\<lparr>t_subagentCalls := Some (pre @ f c # post)\<rparr>)"
    unfolding e by (simp add: findToolBlockById_mutateTool assms(1))
qed

lemma result_start_on_call:
  assumes "map_of (childToolToParent s) c1 = Some t1" and "t1 \<noteq> []"
    and "findToolBlockById s t1 = Some pt" and "t_subagentCalls pt = Some (pre @ c # post)"
    and "\<forall>x\<in>set pre. sc_id x \<noteq> c1" and "sc_id c = c1"
  shows "findToolBlockById (handleToolResultStart c1 content isError s) t1 =
           Some (pt\<lparr>t_subagentCalls :=
                   Some (pre @ c\<lparr>sc_result := Some content, sc_isError := Some isError,
                                  sc_isLoading := Some True\<rparr> # post)\<rparr>)"
proof -
  have p: "parentOf s c1 = Some t1" using assms(1,2) by (simp add: parentOf_def)
  note m = mutateSubCall_found [OF assms(3-6)]
  show ?thesis
    using m [of "\<lambda>c. c\<lparr>sc_result := Some content, sc_isError := Some isError,
                      sc_isLoading := Some True\<rparr>"]
    by (auto simp: handleToolResultStart_def handleSubagentToolResultStart_def p
          split: prod.splits)
qed

lemma backfill:
  assumes "findToolBlockById s t1 = Some pt" and "calls_of pt = pre @ c # post"
    and "\<forall>x\<in>set pre. sc_id x \<noteq> tp_id tool" and "sc_id c = tp_id tool"
  shows "findToolBlockById (handleSubagentToolUseStart pf t1 tool s) t1 =
           Some (pt\<lparr>t_subagentCalls :=
                   Some (pre @ c\<lparr>sc_name := tp_name tool, sc_input := tp_input tool,
                                  sc_streamIndex := tp_streamIndex tool\<rparr> # post)\<rparr>)"
proof -
  let ?s' = "s\<lparr>childToolToParent := AList.update (tp_id tool) t1 (childToolToParent s)\<rparr>"
  have g: "findToolBlockById ?s' t1 = Some pt"
    using assms(1) by (simp add: findToolBlockById_def)
  have fd: "find (\<lambda>x. sc_id x = tp_id tool) (calls_of pt) = Some c"
    using assms(2-4) by (simp add: find_split)
  have u: "update_first (\<lambda>x. sc_id x = tp_id tool)
             (\<lambda>c. c\<lparr>sc_name := tp_name tool, sc_input := tp_input tool,
                     sc_streamIndex := tp_streamIndex tool\<rparr>) (calls_of pt) =
           pre @ c\<lparr>sc_name := tp_name tool, sc_input := tp_input tool,
                    sc_streamIndex := tp_streamIndex tool\<rparr> # post"
    using assms(2-4) by (simp add: update_first_split)
  show ?thesis
    using assms(1) g fd u
    by (simp add: handleSubagentToolUseStart_def)
       (subst findToolBlockById_mutateTool; simp split: option.splits)
qed

text \<open>
  C5.  A tool-result start with non-empty content for a child id \<open>c1\<close>, tagged
  with the parent \<open>t1\<close> whose record exists, when \<open>c1\<close> is unseen (no
  child-to-parent entry, no call with the id in the parent's list): the
  parent's call list gains one placeholder for \<open>c1\<close> (name \<open>Tool\<close>, input
  \<open>{}\<close>), the child-to-parent entry is recorded, and the result text and
  error flag are attached to that placeholder.  A later tool-invocation start
  for \<open>c1\<close> under \<open>t1\<close> rewrites the name, input and stream index of the entry
  that is there; the list keeps its length and the entry keeps its result.
\<close>

theorem result_before_start_gets_placeholder:
  "(findToolBlockById s t1 = Some pt \<and> t1 \<noteq> [] \<and> map_of (childToolToParent s) c1 = None \<and>
    (\<forall>c\<in>set (calls_of pt). sc_id c \<noteq> c1) \<and> startContentStr pf content \<noteq> [] \<longrightarrow>
      findToolBlockById
        (reconcile pf now
           (subagent_event t1 (ContentBlockStart index (ToolResultStart (Some c1) content is_error))) s)
        t1 =
      Some (pt\<lparr>t_subagentCalls :=
              Some (calls_of pt @
                [(placeholder c1)\<lparr>sc_result := Some (startContentStr pf content),
                                   sc_isError := Some (case is_error of Some e \<Rightarrow> e | None \<Rightarrow> False),
                                   sc_isLoading := Some True\<rparr>])\<rparr>) \<and>
      map_of (childToolToParent
        (reconcile pf now
           (subagent_event t1 (ContentBlockStart index (ToolResultStart (Some c1) content is_error))) s))
        c1 = Some t1) \<and>
   (findToolBlockById s' t1 = Some pt' \<and> t1 \<noteq> [] \<and> calls_of pt' = pre @ c # post \<and>
    (\<forall>x\<in>set pre. sc_id x \<noteq> c1) \<and> sc_id c = c1 \<longrightarrow>
      findToolBlockById
        (reconcile pf now' (subagent_event t1 (ContentBlockStart index' (ToolUseStart c1 nm inp))) s')
        t1 =
      Some (pt'\<lparr>t_subagentCalls :=
              Some (pre @ c\<lparr>sc_name := nm, sc_input := or_empty_object inp,
                             sc_streamIndex := Some index'\<rparr> # post)\<rparr>))"
proof (intro conjI impI)
  assume h: "findToolBlockById s t1 = Some pt \<and> t1 \<noteq> [] \<and> map_of (childToolToParent s) c1 = None \<and>
    (\<forall>c\<in>set (calls_of pt). sc_id c \<noteq> c1) \<and> startContentStr pf content \<noteq> []"
  let ?s1 = "s\<lparr>toolResultIndexToId := AList.update index c1 (toolResultIndexToId s)\<rparr>"
  let ?s2 = "ensureSubagentToolPlaceholder t1 c1 ?s1"
  let ?isError = "case is_error of Some e \<Rightarrow> e | None \<Rightarrow> False"
  let ?s3 = "broadcast (ChatSubagentToolResultStart t1 c1 (startContentStr pf content) ?isError) ?s2"
  have f1: "findToolBlockById ?s1 t1 = Some pt"
    using h by (simp add: findToolBlockById_def)
  note pc = placeholder_created [OF f1, of c1]
  have f3: "findToolBlockById ?s3 t1 = Some (pt\<lparr>t_subagentCalls := Some (calls_of pt @ [placeholder c1])\<rparr>)"
    using pc(1) h by simp
  have m3: "map_of (childToolToParent ?s3) c1 = Some t1"
    using pc(2) h by (simp add: AList.update_conv')
  have r: "reconcile pf now
           (subagent_event t1 (ContentBlockStart index (ToolResultStart (Some c1) content is_error))) s =
        handleToolResultStart c1 (startContentStr pf content) ?isError ?s3"
    using h by (simp add: reconcile_def subagent_event_def onToolResultStart_def Let_def
          resolveParent_def)
  have sc: "t_subagentCalls (pt\<lparr>t_subagentCalls := Some (calls_of pt @ [placeholder c1])\<rparr>) =
        Some (calls_of pt @ placeholder c1 # [])"
    by simp
  have idc: "sc_id (placeholder c1) = c1" by (simp add: placeholder_def)
  show "findToolBlockById
        (reconcile pf now
           (subagent_event t1 (ContentBlockStart index (ToolResultStart (Some c1) content is_error))) s)
        t1 =
      Some (pt\<lparr>t_subagentCalls :=
              Some (calls_of pt @
                [(placeholder c1)\<lparr>sc_result := Some (startContentStr pf content),
                                   sc_isError := Some ?isError,
                                   sc_isLoading := Some True\<rparr>])\<rparr>)"
    unfolding r
    using result_start_on_call [OF m3 _ f3 sc _ idc, of "startContentStr pf content" ?isError] h
    by simp
  show "map_of (childToolToParent
        (reconcile pf now
           (subagent_event t1 (ContentBlockStart index (ToolResultStart (Some c1) content is_error))) s))
        c1 = Some t1"
    unfolding r using m3
    by (simp add: handleToolResultStart_def handleSubagentToolResultStart_def mutateSubCall_def
          setToolResult_def split: prod.splits option.splits)
next
  assume h: "findToolBlockById s' t1 = Some pt' \<and> t1 \<noteq> [] \<and> calls_of pt' = pre @ c # post \<and>
    (\<forall>x\<in>set pre. sc_id x \<noteq> c1) \<and> sc_id c = c1"
  let ?tool = "\<lparr>tp_id = c1, tp_name = nm, tp_input = or_empty_object inp, tp_streamIndex = Some index'\<rparr>"
  let ?s1 = "broadcast (ChatSubagentToolUse t1 ?tool)
               (s'\<lparr>streamIndexToToolId := AList.update index' c1 (streamIndexToToolId s')\<rparr>)"
  have f1: "findToolBlockById ?s1 t1 = Some pt'"
    using h by (simp add: findToolBlockById_def broadcast_def)
  have r: "reconcile pf now' (subagent_event t1 (ContentBlockStart index' (ToolUseStart c1 nm inp))) s' =
        handleSubagentToolUseStart pf t1 ?tool ?s1"
    using h by (simp add: reconcile_def subagent_event_def onToolUseStart_def Let_def)
  show "findToolBlockById
        (reconcile pf now' (subagent_event t1 (ContentBlockStart index' (ToolUseStart c1 nm inp))) s')
        t1 =
      Some (pt'\<lparr>t_subagentCalls :=
              Some (pre @ c\<lparr>sc_name := nm, sc_input := or_empty_object inp,
                             sc_streamIndex := Some index'\<rparr> # post)\<rparr>)"
    unfolding r using backfill [OF f1, of pre c post ?tool pf] h by simp
qed

theorem result_before_start_gets_placeholder_witness:
  "map_option t_subagentCalls (findToolBlockById demo_race (js ''t1'')) =
     Some (Some [\<lparr>sc_id = js ''c1'', sc_name = js ''Grep'', sc_input = JObject [],
                  sc_streamIndex = Some 3, sc_inputJson = Some (js ''{}''), sc_parsedInput = None,
                  sc_result = Some (js ''ok''), sc_isLoading = Some True,
                  sc_isError = Some False\<rparr>])"
proof -
  let ?pt = "demo_tool\<lparr>t_subagentCalls := None\<rparr>"
  let ?s1 = "reconcile demo_platform 5
          (subagent_event (js ''t1'')
             (ContentBlockStart 2 (ToolResultStart (Some (js ''c1'')) (Some (JString (js ''ok''))) None)))
          demo_parent"
  let ?c = "(placeholder (js ''c1''))\<lparr>sc_result := Some (js ''ok''), sc_isError := Some False,
                                       sc_isLoading := Some True\<rparr>"
  have f: "findToolBlockById demo_parent (js ''t1'') = Some ?pt"
    by (simp add: demo_parent_def handleToolUseStart_def openContentArray_def
          ensureAssistantMessage_def ensureContentArray_def mutateBlocks_def new_Session_def
          findToolBlockById_def demo_tool_def Let_def)
  have m: "map_of (childToolToParent demo_parent) (js ''c1'') = None"
    by (simp add: demo_parent_def handleToolUseStart_def openContentArray_def
          ensureAssistantMessage_def mutateBlocks_def new_Session_def Let_def)
  have h1: "findToolBlockById demo_parent (js ''t1'') = Some ?pt \<and> js ''t1'' \<noteq> [] \<and>
      map_of (childToolToParent demo_parent) (js ''c1'') = None \<and>
      (\<forall>c\<in>set (calls_of ?pt). sc_id c \<noteq> js ''c1'') \<and>
      startContentStr demo_platform (Some (JString (js ''ok''))) \<noteq> []"
    using f m by (simp add: calls_of_def startContentStr_def js_def)
  have a: "findToolBlockById ?s1 (js ''t1'') = Some (?pt\<lparr>t_subagentCalls := Some [?c]\<rparr>)"
    using result_before_start_gets_placeholder [where s = demo_parent and ?t1.0 = "js ''t1''"
        and pt = ?pt and ?c1.0 = "js ''c1''" and pf = demo_platform
        and content = "Some (JString (js ''ok''))" and now = 5 and index = 2 and is_error = None,
        THEN conjunct1, THEN mp, OF h1, THEN conjunct1]
    by (simp add: calls_of_def startContentStr_def)
  have h2: "findToolBlockById ?s1 (js ''t1'') = Some (?pt\<lparr>t_subagentCalls := Some [?c]\<rparr>) \<and>
      js ''t1'' \<noteq> [] \<and> calls_of (?pt\<lparr>t_subagentCalls := Some [?c]\<rparr>) = [] @ ?c # [] \<and>
      (\<forall>x\<in>set []. sc_id x \<noteq> js ''c1'') \<and> sc_id ?c = js ''c1''"
    using a by (simp add: calls_of_def placeholder_def js_def)
  show ?thesis
    using result_before_start_gets_placeholder [where s' = ?s1 and ?t1.0 = "js ''t1''"
        and pt' = "?pt\<lparr>t_subagentCalls := Some [?c]\<rparr>" and pre = "[]" and c = ?c and post = "[]"
        and ?c1.0 = "js ''c1''" and pf = demo_platform and now' = 6 and index' = 3
        and nm = "js ''Grep''" and inp = None, THEN conjunct2, THEN mp, OF h2]
    by (simp add: demo_race_def placeholder_def or_empty_object_def)
qed

subsection \<open>Lifecycle of a session\<close>

named_theorems quiet

lemma status_history_broadcast:
  "status_history (broadcast n s) =
     status_history s @ (case status_of n of Some st \<Rightarrow> [st] | None \<Rightarrow> [])"
  by (simp add: status_history_def broadcast_def List.map_filter_def split: option.splits)

lemma life_broadcast [quiet]: "status_of n = None \<Longrightarrow> life (broadcast n s) = life s"
  by (simp add: life_def status_history_broadcast) (simp add: broadcast_def)

lemma life_cong:
  "sessionState s' = sessionState s \<Longrightarrow> outbox s' = outbox s \<Longrightarrow> life s' = life s"
  by (simp add: life_def status_history_def)

lemma life_mutateBlocks [quiet]: "life (mutateBlocks f s) = life s"
  by (rule life_cong) simp_all

lemma life_openContentArray [quiet]: "life (openContentArray now s) = life s"
  by (rule life_cong) simp_all

lemma life_mutateTool [quiet]: "life (mutateTool i f s) = life s"
  by (rule life_cong) simp_all

lemma life_appendTextChunk [quiet]: "life (appendTextChunk now t s) = life s"
  by (rule life_cong) (simp_all add: appendTextChunk_def ensureAssistantMessage_def Let_def)

lemma life_handleThinkingStart [quiet]: "life (handleThinkingStart now i s) = life s"
  by (simp add: handleThinkingStart_def quiet)

lemma life_handleThinkingChunk [quiet]: "life (handleThinkingChunk now i d s) = life s"
  by (simp add: handleThinkingChunk_def quiet)

lemma life_handleToolUseStart [quiet]: "life (handleToolUseStart now a b c d s) = life s"
  by (simp add: handleToolUseStart_def quiet)

lemma life_childToolToParent [quiet]: "life (s\<lparr>childToolToParent := x\<rparr>) = life s"
  and life_streamIndexToToolId [quiet]: "life (s\<lparr>streamIndexToToolId := y\<rparr>) = life s"
  and life_toolResultIndexToId [quiet]: "life (s\<lparr>toolResultIndexToId := z\<rparr>) = life s"
  by (simp_all add: life_def status_history_def)

lemma life_handleSubagentToolUseStart [quiet]:
  "life (handleSubagentToolUseStart pf p tool s) = life s"
  by (simp add: handleSubagentToolUseStart_def quiet split: option.splits)

lemma life_ensureSubagentToolPlaceholder [quiet]:
  "life (ensureSubagentToolPlaceholder p t s) = life s"
  by (simp add: ensureSubagentToolPlaceholder_def quiet split: option.splits)

lemma life_handleToolInputDelta [quiet]: "life (handleToolInputDelta pf now i t d s) = life s"
  by (simp add: handleToolInputDelta_def quiet)

lemma life_mutateSubCall [quiet]: "life (snd (mutateSubCall p t f s)) = life s"
  by (simp add: mutateSubCall_def quiet split: option.splits)

lemma life_handleSubagentToolInputDelta [quiet]:
  "life (handleSubagentToolInputDelta pf p t d s) = life s"
  by (simp add: handleSubagentToolInputDelta_def quiet)

lemma life_finalizeSubagentToolInput [quiet]: "life (finalizeSubagentToolInput pf p t s) = life s"
  by (simp add: finalizeSubagentToolInput_def quiet)

lemma life_handleContentBlockStop [quiet]: "life (handleContentBlockStop pf now i t s) = life s"
  by (simp add: handleContentBlockStop_def Let_def quiet split: option.splits)

lemma life_setToolResult [quiet]: "life (setToolResult t c e s) = life s"
  by (simp add: setToolResult_def quiet split: option.splits)

lemma life_appendToolResultContent [quiet]: "life (snd (appendToolResultContent t c e s)) = life s"
  by (simp add: appendToolResultContent_def Let_def quiet)

lemma life_handleSubagentToolResultStart [quiet]:
  "life (snd (handleSubagentToolResultStart t c e s)) = life s"
  by (simp add: handleSubagentToolResultStart_def quiet split: option.splits)

lemma life_handleSubagentToolResultComplete [quiet]:
  "life (snd (handleSubagentToolResultComplete t c e s)) = life s"
  by (simp add: handleSubagentToolResultComplete_def quiet split: option.splits)

lemma life_appendSubagentToolResultDelta [quiet]:
  "life (snd (appendSubagentToolResultDelta t d s)) = life s"
  by (simp add: appendSubagentToolResultDelta_def quiet split: option.splits)

lemma life_finalizeSubagentToolResult [quiet]:
  "life (snd (finalizeSubagentToolResult t s)) = life s"
  by (simp add: finalizeSubagentToolResult_def quiet split: option.splits)

lemma case_pair_bool:
  "(case p of (True, s') \<Rightarrow> f s' | (False, s') \<Rightarrow> g s') = (if fst p then f (snd p) else g (snd p))"
  by (cases p) (simp split: bool.splits)

lemma life_appendToolResultDelta [quiet]: "life (appendToolResultDelta t d s) = life s"
  by (simp add: appendToolResultDelta_def case_pair_bool quiet split: option.splits)

lemma life_handleToolResultStart [quiet]: "life (handleToolResultStart t c e s) = life s"
  by (simp add: handleToolResultStart_def case_pair_bool quiet)

lemma life_handleToolResultComplete [quiet]: "life (handleToolResultComplete t c e s) = life s"
  by (simp add: handleToolResultComplete_def case_pair_bool quiet)

lemma life_onTextDelta [quiet]: "life (onTextDelta now p t s) = life s"
  by (simp add: onTextDelta_def quiet split: option.splits)

lemma life_onInputJsonDelta [quiet]: "life (onInputJsonDelta pf now p i d s) = life s"
  by (simp add: onInputJsonDelta_def Let_def quiet)

lemma life_onToolUseStart [quiet]: "life (onToolUseStart pf now p i a b c s) = life s"
  by (simp add: onToolUseStart_def Let_def quiet)

lemma life_onToolResultStart [quiet]: "life (onToolResultStart pf p i t c e s) = life s"
  by (simp add: onToolResultStart_def Let_def quiet)

lemma life_onContentBlockStop [quiet]: "life (onContentBlockStop pf now p i s) = life s"
  by (simp add: onContentBlockStop_def Let_def case_pair_bool quiet split: option.splits)

lemma life_routeToolResultComplete [quiet]: "life (routeToolResultComplete p t c e s) = life s"
  by (simp add: routeToolResultComplete_def Let_def quiet)

lemma life_foldl: "(\<And>s x. life (f s x) = life s) \<Longrightarrow> life (foldl f s xs) = life s"
  by (induction xs arbitrary: s) simp_all

lemma life_onUserBlock [quiet]: "life (onUserBlock pf p s it) = life s"
  by (simp add: onUserBlock_def quiet split: item.splits option.splits)

lemma life_onUserMessage [quiet]: "life (onUserMessage pf p c s) = life s"
  by (simp add: onUserMessage_def life_foldl quiet)

lemma life_onAssistantToolUse [quiet]: "life (onAssistantToolUse pf p s it) = life s"
  by (simp add: onAssistantToolUse_def Let_def quiet split: item.splits option.splits prod.splits)

lemma life_onAssistantToolResult [quiet]: "life (onAssistantToolResult pf p s it) = life s"
  by (simp add: onAssistantToolResult_def quiet split: item.splits option.splits prod.splits)

lemma life_onAssistantMessage [quiet]: "life (onAssistantMessage pf p c s) = life s"
proof -
  have a: "life (case appendToolResultContent i t None s' of
                   (next, s'') \<Rightarrow> broadcast (ChatToolResultComplete i next None) s'') = life s'"
    for i t s'
    using life_appendToolResultContent [of i t None s']
    by (cases "appendToolResultContent i t None s'") (simp add: quiet)
  show ?thesis
    by (simp add: onAssistantMessage_def Let_def life_foldl a quiet)
qed

lemma sessionState_setSessionState [simp]: "sessionState (setSessionState ns s) = ns"
  by (simp add: setSessionState_def broadcast_def)

lemma life_updateNameFromFirstMessage [quiet]: "life (updateNameFromFirstMessage s) = life s"
  by (rule life_cong) (simp_all add: updateNameFromFirstMessage_def split: list.splits)

lemma life_messages [quiet]: "life (s\<lparr>messages := x, messageSequence := y\<rparr>) = life s"
  by (simp add: life_def status_history_def)

named_theorems steady

lemma abort_broadcast [steady]: "shouldAbortSession (broadcast n s) = shouldAbortSession s"
  by (simp add: broadcast_def)

lemma abort_mutateBlocks [steady]: "shouldAbortSession (mutateBlocks f s) = shouldAbortSession s"
  by (simp add: mutateBlocks_def)

lemma abort_openContentArray [steady]:
  "shouldAbortSession (openContentArray now s) = shouldAbortSession s"
  by (simp add: openContentArray_def ensureAssistantMessage_def Let_def)

lemma abort_mutateTool [steady]: "shouldAbortSession (mutateTool i f s) = shouldAbortSession s"
  by (simp add: mutateTool_def)

lemma abort_appendTextChunk [steady]:
  "shouldAbortSession (appendTextChunk now t s) = shouldAbortSession s"
  by (simp add: appendTextChunk_def ensureAssistantMessage_def Let_def)

lemma abort_handleThinkingStart [steady]:
  "shouldAbortSession (handleThinkingStart now i s) = shouldAbortSession s"
  by (simp add: handleThinkingStart_def steady)

lemma abort_handleThinkingChunk [steady]:
  "shouldAbortSession (handleThinkingChunk now i d s) = shouldAbortSession s"
  by (simp add: handleThinkingChunk_def steady)

lemma abort_handleToolUseStart [steady]:
  "shouldAbortSession (handleToolUseStart now a b c d s) = shouldAbortSession s"
  by (simp add: handleToolUseStart_def steady)

lemma abort_handleSubagentToolUseStart [steady]:
  "shouldAbortSession (handleSubagentToolUseStart pf p tool s) = shouldAbortSession s"
  by (simp add: handleSubagentToolUseStart_def steady split: option.splits)

lemma abort_ensureSubagentToolPlaceholder [steady]:
  "shouldAbortSession (ensureSubagentToolPlaceholder p t s) = shouldAbortSession s"
  by (simp add: ensureSubagentToolPlaceholder_def steady split: option.splits)

lemma abort_handleToolInputDelta [steady]:
  "shouldAbortSession (handleToolInputDelta pf now i t d s) = shouldAbortSession s"
  by (simp add: handleToolInputDelta_def steady)

lemma abort_mutateSubCall [steady]:
  "shouldAbortSession (snd (mutateSubCall p t f s)) = shouldAbortSession s"
  by (simp add: mutateSubCall_def steady split: option.splits)

lemma abort_handleSubagentToolInputDelta [steady]:
  "shouldAbortSession (handleSubagentToolInputDelta pf p t d s) = shouldAbortSession s"
  by (simp add: handleSubagentToolInputDelta_def steady)

lemma abort_finalizeSubagentToolInput [steady]:
  "shouldAbortSession (finalizeSubagentToolInput pf p t s) = shouldAbortSession s"
  by (simp add: finalizeSubagentToolInput_def steady)

lemma abort_handleContentBlockStop [steady]:
  "shouldAbortSession (handleContentBlockStop pf now i t s) = shouldAbortSession s"
  by (simp add: handleContentBlockStop_def Let_def steady split: option.splits)

lemma abort_setToolResult [steady]:
  "shouldAbortSession (setToolResult t c e s) = shouldAbortSession s"
  by (simp add: setToolResult_def steady split: option.splits)

lemma abort_appendToolResultContent [steady]:
  "shouldAbortSession (snd (appendToolResultContent t c e s)) = shouldAbortSession s"
  by (simp add: appendToolResultContent_def Let_def steady)

lemma abort_handleSubagentToolResultStart [steady]:
  "shouldAbortSession (snd (handleSubagentToolResultStart t c e s)) = shouldAbortSession s"
  by (simp add: handleSubagentToolResultStart_def steady split: option.splits)

lemma abort_handleSubagentToolResultComplete [steady]:
  "shouldAbortSession (snd (handleSubagentToolResultComplete t c e s)) = shouldAbortSession s"
  by (simp add: handleSubagentToolResultComplete_def steady split: option.splits)

lemma abort_appendSubagentToolResultDelta [steady]:
  "shouldAbortSession (snd (appendSubagentToolResultDelta t d s)) = shouldAbortSession s"
  by (simp add: appendSubagentToolResultDelta_def steady split: option.splits)

lemma abort_finalizeSubagentToolResult [steady]:
  "shouldAbortSession (snd (finalizeSubagentToolResult t s)) = shouldAbortSession s"
  by (simp add: finalizeSubagentToolResult_def steady split: option.splits)

lemma abort_appendToolResultDelta [steady]:
  "shouldAbortSession (appendToolResultDelta t d s) = shouldAbortSession s"
  by (simp add: appendToolResultDelta_def case_pair_bool steady split: option.splits)

lemma abort_handleToolResultStart [steady]:
  "shouldAbortSession (handleToolResultStart t c e s) = shouldAbortSession s"
  by (simp add: handleToolResultStart_def case_pair_bool steady)

lemma abort_handleToolResultComplete [steady]:
  "shouldAbortSession (handleToolResultComplete t c e s) = shouldAbortSession s"
  by (simp add: handleToolResultComplete_def case_pair_bool steady)

lemma abort_onTextDelta [steady]: "shouldAbortSession (onTextDelta now p t s) = shouldAbortSession s"
  by (simp add: onTextDelta_def steady split: option.splits)

lemma abort_onInputJsonDelta [steady]:
  "shouldAbortSession (onInputJsonDelta pf now p i d s) = shouldAbortSession s"
  by (simp add: onInputJsonDelta_def Let_def steady)

lemma abort_onToolUseStart [steady]:
  "shouldAbortSession (onToolUseStart pf now p i a b c s) = shouldAbortSession s"
  by (simp add: onToolUseStart_def Let_def steady)

lemma abort_onToolResultStart [steady]:
  "shouldAbortSession (onToolResultStart pf p i t c e s) = shouldAbortSession s"
  by (simp add: onToolResultStart_def Let_def steady)

lemma abort_onContentBlockStop [steady]:
  "shouldAbortSession (onContentBlockStop pf now p i s) = shouldAbortSession s"
  by (simp add: onContentBlockStop_def Let_def case_pair_bool steady split: option.splits)

lemma abort_routeToolResultComplete [steady]:
  "shouldAbortSession (routeToolResultComplete p t c e s) = shouldAbortSession s"
  by (simp add: routeToolResultComplete_def Let_def steady)

lemma abort_foldl:
  "(\<And>s x. shouldAbortSession (f s x) = shouldAbortSession s) \<Longrightarrow>
   shouldAbortSession (foldl f s xs) = shouldAbortSession s"
  by (induction xs arbitrary: s) simp_all

lemma abort_onUserBlock [steady]: "shouldAbortSession (onUserBlock pf p s it) = shouldAbortSession s"
  by (simp add: onUserBlock_def steady split: item.splits option.splits)

lemma abort_onUserMessage [steady]:
  "shouldAbortSession (onUserMessage pf p c s) = shouldAbortSession s"
  by (simp add: onUserMessage_def abort_foldl steady)

lemma abort_onAssistantToolUse [steady]:
  "shouldAbortSession (onAssistantToolUse pf p s it) = shouldAbortSession s"
  by (simp add: onAssistantToolUse_def Let_def steady split: item.splits option.splits prod.splits)

lemma abort_onAssistantToolResult [steady]:
  "shouldAbortSession (onAssistantToolResult pf p s it) = shouldAbortSession s"
  by (simp add: onAssistantToolResult_def steady split: item.splits option.splits prod.splits)

lemma abort_onAssistantMessage [steady]:
  "shouldAbortSession (onAssistantMessage pf p c s) = shouldAbortSession s"
proof -
  have a: "shouldAbortSession (case appendToolResultContent i t None s' of
                   (next, s'') \<Rightarrow> broadcast (ChatToolResultComplete i next None) s'') =
           shouldAbortSession s'"
    for i t s'
    using abort_appendToolResultContent [of i t None s']
    by (cases "appendToolResultContent i t None s'") (simp add: steady)
  show ?thesis
    by (simp add: onAssistantMessage_def Let_def abort_foldl a steady)
qed

lemma abort_setSessionState [steady]:
  "shouldAbortSession (setSessionState st s) = shouldAbortSession s"
  by (simp add: setSessionState_def steady)

lemma abort_reconcile [steady]: "shouldAbortSession (reconcile pf now msg s) = shouldAbortSession s"
  by (simp add: reconcile_def handleMessageComplete_def steady
        split: sdk_body.splits stream_event.splits stream_delta.splits content_block.splits
          option.splits)

lemma after_Nil: "after [] s = life s"
  by (simp add: after_def life_def)

lemma life_setSessionState:
  "life (setSessionState ns s) = after (if sessionState s = ns then [] else [ns]) s"
  by (simp add: setSessionState_def after_def life_def status_history_broadcast)
     (simp add: status_history_def broadcast_def)

lemma after_cong: "life s' = life s \<Longrightarrow> after sts s' = after sts s"
  by (simp add: after_def life_def)

lemma life_enqueueTurn:
  "life (enqueueTurn now t s) = after (if sessionState s = Running then [] else [Running]) s"
proof -
  let ?s1 = "setSessionState Running (s\<lparr>lastMessageAt := now\<rparr>)"
  have "life (enqueueTurn now t s) = life ?s1"
    by (simp add: enqueueTurn_def Let_def quiet)
  also have "\<dots> = after (if sessionState s = Running then [] else [Running]) (s\<lparr>lastMessageAt := now\<rparr>)"
    by (simp add: life_setSessionState)
  also have "\<dots> = after (if sessionState s = Running then [] else [Running]) s"
    by (rule after_cong) (simp add: life_def status_history_def)
  finally show ?thesis .
qed

lemma sessionState_life: "life s' = after sts s \<Longrightarrow> sessionState s' = last (sessionState s # sts)"
  by (simp add: life_def after_def)

lemma life_startStreamingSession:
  "sessionState s = Running \<Longrightarrow> life (startStreamingSession s) = life s"
  by (simp add: startStreamingSession_def Let_def setSessionState_def life_def status_history_def)

lemma life_enqueueStart: "sessionState s = Running \<Longrightarrow> life (enqueueStart t s) = life s"
proof -
  assume r: "sessionState s = Running"
  let ?s1 = "if \<not> isSessionActive s then startStreamingSession s else s"
  have "life (?s1\<lparr>messageQueue := messageQueue ?s1 @ [t]\<rparr>) = life ?s1"
    by (simp add: life_def status_history_def)
  moreover have "life ?s1 = life s" using r by (simp add: life_startStreamingSession)
  ultimately show ?thesis by (simp add: enqueueStart_def Let_def)
qed

lemma life_streamFinally:
  "life (streamFinally s) =
     (if sessionState s = Error then life s
      else after (if sessionState s = Idle then [] else [Idle]) s)"
proof -
  let ?s1 = "s\<lparr>isProcessing := False, querySession := None\<rparr>"
  let ?s2 = "if sessionState ?s1 \<noteq> Error then setSessionState Idle ?s1 else ?s1"
  have l: "life ?s1 = life s" by (simp add: life_def status_history_def)
  have "life (streamFinally s) = life ?s2"
    by (simp add: streamFinally_def Let_def life_def status_history_def)
  also have "\<dots> = (if sessionState s = Error then life s
      else after (if sessionState s = Idle then [] else [Idle]) s)"
    using l by (simp add: life_setSessionState after_cong [OF l])
  finally show ?thesis .
qed

lemma life_handleMessageComplete:
  "life (handleMessageComplete s) = after (if sessionState s = Idle then [] else [Idle]) s"
proof -
  have l: "life (s\<lparr>isStreamingMessage := False\<rparr>) = life s" by (simp add: life_def status_history_def)
  show ?thesis
    by (simp add: handleMessageComplete_def life_setSessionState after_cong [OF l])
qed

lemma life_handleMessageStopped:
  "life (handleMessageStopped now s) = after (if sessionState s = Idle then [] else [Idle]) s"
proof -
  let ?s1 = "setSessionState Idle (s\<lparr>isStreamingMessage := False\<rparr>)"
  have l: "life (s\<lparr>isStreamingMessage := False\<rparr>) = life s" by (simp add: life_def status_history_def)
  have b: "life (handleMessageStopped now s) = life ?s1"
    by (rule life_cong) (simp_all add: handleMessageStopped_def Let_def split: Content.splits)
  show ?thesis
    by (simp add: b life_setSessionState after_cong [OF l])
qed

lemma life_handleMessageError:
  "life (handleMessageError now e s) = after (if sessionState s = Idle then [] else [Idle]) s"
proof -
  let ?s1 = "setSessionState Idle (s\<lparr>isStreamingMessage := False\<rparr>)"
  have l: "life (s\<lparr>isStreamingMessage := False\<rparr>) = life s" by (simp add: life_def status_history_def)
  have b: "life (handleMessageError now e s) = life ?s1"
    by (rule life_cong) (simp_all add: handleMessageError_def Let_def)
  show ?thesis
    by (simp add: b life_setSessionState after_cong [OF l])
qed

lemma life_streamFailed:
  "life (streamFailed now err s) = after ((if sessionState s = Idle then [] else [Idle]) @ [Error]) s"
proof -
  let ?m = "case err of Some e \<Rightarrow> e | None \<Rightarrow> js ''Unknown error occurred''"
  let ?s0 = "broadcast (ChatMessageError ?m) s"
  let ?s1 = "handleMessageError now ?m ?s0"
  let ?s2 = "setSessionState Error ?s1"
  have l0: "life ?s0 = life s" by (simp add: quiet)
  have l1: "life ?s1 = after (if sessionState s = Idle then [] else [Idle]) s"
    using l0 by (simp add: life_handleMessageError after_cong [OF l0]) (simp add: life_def)
  have i: "sessionState ?s1 = Idle" by (simp add: handleMessageError_def Let_def)
  have l2: "life ?s2 = after ((if sessionState s = Idle then [] else [Idle]) @ [Error]) s"
    using l1 i by (simp add: life_setSessionState) (simp add: after_def life_def)
  have "life (streamFinally ?s2) = life ?s2"
    by (simp add: life_streamFinally)
  with l2 show ?thesis by (simp add: streamFailed_def Let_def)
qed

lemma life_reconcile:
  "life (reconcile pf now msg s) =
     (if body msg = ResultMsg then after (if sessionState s = Idle then [] else [Idle]) s else life s)"
proof (cases "body msg = ResultMsg")
  case True
  have l: "life (broadcast ChatMessageComplete s) = life s" by (simp add: quiet)
  have "sessionState (broadcast ChatMessageComplete s) = sessionState s" by (simp add: broadcast_def)
  then show ?thesis
    using True by (simp add: reconcile_def life_handleMessageComplete after_cong [OF l])
next
  case False
  then show ?thesis
    by (simp add: reconcile_def quiet
          split: sdk_body.splits stream_event.splits stream_delta.splits content_block.splits
            option.splits)
qed

lemma streamMessage_pre:
  "\<exists>s3. life s3 = life s \<and> shouldAbortSession s3 = shouldAbortSession s \<and>
         streamMessage pf now msg s =
           (if shouldAbortSession s3 then streamFinally s3 else reconcile pf now msg s3)"
proof -
  let ?s1 = "case raw msg of
                  Some r \<Rightarrow> appendLogLine (toISOString pf now @ js '' '' @ r) s
                | None \<Rightarrow> s"
  let ?s2 = "case parseSystemInitInfo now msg of
                  Some info \<Rightarrow> broadcast (ChatSystemInit info) (?s1\<lparr>systemInitInfo := Some info\<rparr>)
                | None \<Rightarrow> ?s1"
  let ?s3 = "case extractAgentError pf msg of
                  Some e \<Rightarrow> if e \<noteq> [] then broadcast (ChatAgentError e) ?s2 else ?s2
                | None \<Rightarrow> ?s2"
  have l1: "life ?s1 = life s"
    by (simp add: appendLogLine_def Let_def quiet life_def status_history_def split: option.splits)
       (simp add: broadcast_def List.map_filter_def)
  have l2: "life ?s2 = life ?s1"
    by (cases "parseSystemInitInfo now msg") (simp_all add: quiet life_def status_history_def, simp add: broadcast_def List.map_filter_def)
  have l3: "life ?s3 = life ?s2"
    by (cases "extractAgentError pf msg") (simp_all add: quiet)
  have a1: "shouldAbortSession ?s1 = shouldAbortSession s"
    by (simp add: appendLogLine_def Let_def steady split: option.splits)
  have a2: "shouldAbortSession ?s2 = shouldAbortSession ?s1"
    by (cases "parseSystemInitInfo now msg") (simp_all add: steady)
  have a3: "shouldAbortSession ?s3 = shouldAbortSession ?s2"
    by (cases "extractAgentError pf msg") (simp_all add: steady)
  have e: "streamMessage pf now msg s =
           (if shouldAbortSession ?s3 then streamFinally ?s3 else reconcile pf now msg ?s3)"
    by (simp add: streamMessage_def Let_def)
  from l1 l2 l3 have l: "life ?s3 = life s" by simp
  from a1 a2 a3 have a: "shouldAbortSession ?s3 = shouldAbortSession s" by simp
  from l a e show ?thesis by blast
qed

lemma life_streamMessage:
  assumes "\<not> shouldAbortSession s"
  shows "life (streamMessage pf now msg s) =
     (if body msg = ResultMsg then after (if sessionState s = Idle then [] else [Idle]) s else life s)"
proof -
  from streamMessage_pre [of s pf now msg] obtain s3 where
    l: "life s3 = life s" and a: "shouldAbortSession s3 = shouldAbortSession s" and
    e: "streamMessage pf now msg s =
           (if shouldAbortSession s3 then streamFinally s3 else reconcile pf now msg s3)"
    by blast
  have st: "sessionState s3 = sessionState s" using l by (simp add: life_def)
  show ?thesis
    using assms a by (simp add: e life_reconcile st after_cong [OF l] l)
qed

lemma abort_streamMessage:
  assumes "\<not> shouldAbortSession s"
  shows "\<not> shouldAbortSession (streamMessage pf now msg s)"
proof -
  from streamMessage_pre [of s pf now msg] obtain s3 where
    a: "shouldAbortSession s3 = shouldAbortSession s" and
    e: "streamMessage pf now msg s =
           (if shouldAbortSession s3 then streamFinally s3 else reconcile pf now msg s3)"
    by blast
  show ?thesis using assms a by (simp add: e steady)
qed

lemma life_interruptSettle:
  "life (interruptSettle ok now s) =
     (if ok then after (if sessionState s = Idle then [] else [Idle]) s else life s)"
proof (cases ok)
  case True
  let ?s1 = "handleMessageStopped now (broadcast ChatMessageStopped s)"
  have l: "life (broadcast ChatMessageStopped s) = life s" by (simp add: quiet)
  have st: "sessionState (broadcast ChatMessageStopped s) = sessionState s" by (simp add: broadcast_def)
  have b: "life (?s1\<lparr>isInterruptingResponse := False\<rparr>) = life ?s1"
    by (simp add: life_def status_history_def)
  show ?thesis
    using True by (simp add: interruptSettle_def b life_handleMessageStopped st after_cong [OF l])
next
  case False
  then show ?thesis by (simp add: interruptSettle_def life_def status_history_def)
qed

lemma abort_enqueue:
  "\<not> shouldAbortSession s \<Longrightarrow> \<not> shouldAbortSession (enqueueStart t (enqueueTurn now t s))"
  by (simp add: enqueueStart_def enqueueTurn_def startStreamingSession_def Let_def steady
        updateNameFromFirstMessage_def split: list.splits)

lemma abort_streamFinally [steady]: "shouldAbortSession (streamFinally s) = shouldAbortSession s"
  by (simp add: streamFinally_def Let_def steady)

lemma abort_streamFailed [steady]: "shouldAbortSession (streamFailed now err s) = shouldAbortSession s"
  by (simp add: streamFailed_def handleMessageError_def Let_def steady)

lemma abort_interruptSettle [steady]:
  "shouldAbortSession (interruptSettle ok now s) = shouldAbortSession s"
  by (simp add: interruptSettle_def handleMessageStopped_def Let_def steady split: Content.splits)

lemma isProcessing_interruptSettle:
  "isProcessing (interruptSettle ok now s) = isProcessing s"
  by (simp add: interruptSettle_def handleMessageStopped_def Let_def setSessionState_def
        broadcast_def split: Content.splits)

lemma step_effect:
  assumes ok: "loop_ok s" and step: "engine_step pf s op = Some s'" and nl: "\<not> late_answer op s"
  shows "life s' = after (caused op (sessionState s)) s"
proof (cases op)
  case (Enqueue tx now)
  show ?thesis
  proof (cases "trim tx = []")
    case True
    with Enqueue step show ?thesis by (simp add: after_Nil)
  next
    case False
    let ?s1 = "enqueueTurn now (trim tx) s"
    have r: "sessionState ?s1 = Running"
      using sessionState_life [OF life_enqueueTurn, of now "trim tx" s] by simp
    have "life s' = life ?s1"
      using Enqueue step False by (auto simp: life_enqueueStart [OF r])
    then show ?thesis using Enqueue False by (simp add: life_enqueueTurn)
  qed
next
  case (RuntimeMessage msg now)
  with step have p: "isProcessing s" and e: "s' = streamMessage pf now msg s"
    by (auto split: if_splits)
  from ok p have ne: "sessionState s \<noteq> Error" and na: "\<not> shouldAbortSession s"
    by (simp_all add: loop_ok_def)
  show ?thesis
    using RuntimeMessage ne by (cases "sessionState s") (simp_all add: e life_streamMessage [OF na] after_Nil)
next
  case (StreamFailure err now)
  with step have p: "isProcessing s" and e: "s' = streamFailed now err s"
    by (auto split: if_splits)
  from ok p have ne: "sessionState s \<noteq> Error" by (simp add: loop_ok_def)
  show ?thesis
    using StreamFailure ne by (cases "sessionState s") (simp_all add: e life_streamFailed)
next
  case StreamEnd
  with step have p: "isProcessing s" and e: "s' = streamFinally s"
    by (auto split: if_splits)
  from ok p have ne: "sessionState s \<noteq> Error" by (simp add: loop_ok_def)
  show ?thesis
    using StreamEnd ne by (cases "sessionState s") (simp_all add: e life_streamFinally after_Nil)
next
  case InterruptRequest
  with step have "s' = snd (interruptBegin s)" by simp
  then have "life s' = life s"
    by (simp add: interruptBegin_def life_def status_history_def split: option.splits)
  with InterruptRequest show ?thesis by (simp add: after_Nil)
next
  case (InterruptAnswer a now)
  with step have e: "s' = interruptSettle a now s" by (auto split: if_splits)
  show ?thesis
    using InterruptAnswer nl
    by (cases "sessionState s") (simp_all add: e life_interruptSettle after_Nil)
next
  case GeneratorPull
  with step have "s' = messageGenerator s" by (auto split: if_splits)
  then have "life s' = life s"
    by (simp add: messageGenerator_def life_def status_history_def)
  with GeneratorPull show ?thesis by (simp add: after_Nil)
qed

lemma loop_ok_step:
  assumes ok: "loop_ok s" and step: "engine_step pf s op = Some s'"
  shows "loop_ok s'"
proof (cases op)
  case (Enqueue tx now)
  show ?thesis
  proof (cases "trim tx = []")
    case True
    with Enqueue step ok show ?thesis by simp
  next
    case False
    let ?s1 = "enqueueTurn now (trim tx) s"
    have r: "sessionState ?s1 = Running"
      using sessionState_life [OF life_enqueueTurn, of now "trim tx" s] by simp
    have e: "s' = enqueueStart (trim tx) ?s1" using Enqueue step False by simp
    have "life s' = life ?s1" by (simp add: e life_enqueueStart [OF r])
    then have "sessionState s' = Running" using r by (simp add: life_def)
    moreover have "\<not> shouldAbortSession s'"
      using ok by (simp add: e abort_enqueue loop_ok_def)
    ultimately show ?thesis by (simp add: loop_ok_def)
  qed
next
  case (RuntimeMessage msg now)
  with step have p: "isProcessing s" and e: "s' = streamMessage pf now msg s"
    by (auto split: if_splits)
  from ok p have ne: "sessionState s \<noteq> Error" and na: "\<not> shouldAbortSession s"
    by (simp_all add: loop_ok_def)
  have "sessionState s' \<noteq> Error"
    using sessionState_life [OF step_effect [OF ok step], of] RuntimeMessage ne
    by (auto split: if_splits)
  then show ?thesis using abort_streamMessage [OF na, of pf now msg] e by (simp add: loop_ok_def)
next
  case (StreamFailure err now)
  with step have e: "s' = streamFailed now err s" by (auto split: if_splits)
  have "\<not> isProcessing s'"
    by (simp add: e streamFailed_def streamFinally_def Let_def setSessionState_def broadcast_def)
  then show ?thesis using ok by (simp add: loop_ok_def e steady)
next
  case StreamEnd
  with step have e: "s' = streamFinally s" by (auto split: if_splits)
  have "\<not> isProcessing s'"
    by (simp add: e streamFinally_def Let_def setSessionState_def broadcast_def)
  then show ?thesis using ok by (simp add: loop_ok_def e steady)
next
  case InterruptRequest
  with step have "s' = snd (interruptBegin s)" by simp
  then show ?thesis using ok
    by (auto simp: interruptBegin_def loop_ok_def split: option.splits if_splits)
next
  case (InterruptAnswer a now)
  with step have e: "s' = interruptSettle a now s" by (auto split: if_splits)
  have "sessionState s' = Idle \<or> sessionState s' = sessionState s"
    using sessionState_life [of s' _ s] life_interruptSettle [of a now s] e
    by (auto simp: life_def after_def split: if_splits)
  then show ?thesis using ok
    by (auto simp: loop_ok_def e steady isProcessing_interruptSettle)
next
  case GeneratorPull
  with step have "s' = messageGenerator s" by (auto split: if_splits)
  then show ?thesis using ok by (simp add: messageGenerator_def loop_ok_def)
qed

lemma loop_ok_new: "loop_ok (new_Session pf uid born) \<and> announced (new_Session pf uid born)"
  by (simp add: loop_ok_def announced_def new_Session_def status_history_def List.map_filter_simps)

lemma announced_after:
  "announced s \<Longrightarrow> life s' = after sts s \<Longrightarrow> announced s'"
  by (cases sts) (simp_all add: announced_def life_def after_def)

lemma announced_step:
  assumes "loop_ok s" and "announced s" and "engine_step pf s op = Some s'"
  shows "announced s'"
proof (cases "late_answer op s")
  case False
  from step_effect [OF assms(1,3) False] show ?thesis by (rule announced_after [OF assms(2)])
next
  case True
  then obtain a now where o: "op = InterruptAnswer a now" and a: "a" by (cases op) auto
  with assms(3) have "s' = interruptSettle True now s" by (auto split: if_splits)
  then have "life s' = after (if sessionState s = Idle then [] else [Idle]) s"
    by (simp add: life_interruptSettle)
  then show ?thesis by (rule announced_after [OF assms(2)])
qed

lemma trace_step:
  "(op, s, s') \<in> set (engine_trace pf sinit ops) \<Longrightarrow> loop_ok sinit \<Longrightarrow> announced sinit \<Longrightarrow>
   loop_ok s \<and> announced s \<and> engine_step pf s op = Some s'"
proof (induction ops arbitrary: sinit)
  case Nil
  then show ?case by simp
next
  case (Cons a ops)
  show ?case
  proof (cases "engine_step pf sinit a")
    case None
    with Cons.prems show ?thesis by simp
  next
    case (Some s1)
    with Cons.prems(1) have "(op, s, s') = (a, sinit, s1) \<or> (op, s, s') \<in> set (engine_trace pf s1 ops)"
      by simp
    then show ?thesis
    proof
      assume "(op, s, s') = (a, sinit, s1)"
      with Some Cons.prems(2,3) show ?thesis by simp
    next
      assume "(op, s, s') \<in> set (engine_trace pf s1 ops)"
      then show ?thesis
        by (rule Cons.IH)
           (rule loop_ok_step [OF Cons.prems(2) Some], rule announced_step [OF Cons.prems(2,3) Some])
    qed
  qed
qed

lemma caused_edges:
  "st \<noteq> Error \<or> (\<exists>txt now. op = Enqueue txt now) \<or> op = InterruptRequest \<or> op = GeneratorPull \<or>
     (\<exists>ok now. op = InterruptAnswer ok now) \<Longrightarrow>
   set (changes_from st (caused op st)) \<subseteq>
     {(Idle, Running), (Error, Running), (Running, Idle), (Idle, Error)}"
  by (cases op; cases st) auto

lemma changes_from_append:
  "changes_from a (xs @ ys) = changes_from a xs @ changes_from (last (a # xs)) ys"
  by (induction xs arbitrary: a) simp_all

text \<open>
  C2, as the code has it.  In every run of the engine on a new session, every
  step that is not a late answer to an interrupt changes the lifecycle state
  exactly as its kind prescribes: enqueuing a non-blank turn takes idle and
  error to running; a result event, the end of the stream and an answered
  interrupt take running to idle; a stream failure takes running to idle and
  then to error, or idle to error, and leaves the state at error; no other
  step changes the state.  The list of changes that an observer of the
  \<open>chat:status\<close> broadcasts sees grows by exactly these changes.  So the
  changes are idle to running, error to running, running to idle and idle to
  error; the state never goes from running to error in one change.
\<close>

theorem lifecycle_changes_have_causes:
  assumes "(op, s, s') \<in> set (engine_trace pf (new_Session pf uid born) ops)"
    and "\<not> late_answer op s"
  shows "status_history s' = status_history s @ caused op (sessionState s) \<and>
         sessionState s' = last (sessionState s # caused op (sessionState s)) \<and>
         lifecycle_changes s' =
           lifecycle_changes s @ changes_from (sessionState s) (caused op (sessionState s)) \<and>
         set (changes_from (sessionState s) (caused op (sessionState s))) \<subseteq>
           {(Idle, Running), (Error, Running), (Running, Idle), (Idle, Error)}"
proof -
  from trace_step [OF assms(1) conjunct1 [OF loop_ok_new] conjunct2 [OF loop_ok_new]]
  have ok: "loop_ok s" and an: "announced s" and st: "engine_step pf s op = Some s'"
    by simp_all
  from step_effect [OF ok st assms(2)] have
    h: "status_history s' = status_history s @ caused op (sessionState s)"
    and c: "sessionState s' = last (sessionState s # caused op (sessionState s))"
    by (simp_all add: life_def after_def)
  have l: "lifecycle_changes s' =
           lifecycle_changes s @ changes_from (sessionState s) (caused op (sessionState s))"
    using an by (simp add: lifecycle_changes_def h changes_from_append announced_def)
  have "set (changes_from (sessionState s) (caused op (sessionState s))) \<subseteq>
           {(Idle, Running), (Error, Running), (Running, Idle), (Idle, Error)}"
  proof (cases "sessionState s = Error")
    case False
    then show ?thesis by (intro caused_edges) simp
  next
    case True
    with ok have "\<not> isProcessing s" by (auto simp: loop_ok_def)
    with st have "(\<exists>txt now. op = Enqueue txt now) \<or> op = InterruptRequest \<or> op = GeneratorPull \<or>
     (\<exists>ok now. op = InterruptAnswer ok now)"
      by (cases op) (auto split: if_splits)
    then show ?thesis by (intro caused_edges) blast
  qed
  with h c l show ?thesis by blast
qed

text \<open>
  C2 as stated does not hold: the change from idle to error is reachable.  A
  stream that fails between turns finds the session idle; a stream that fails
  during a turn passes through idle, because the \<open>catch\<close> block calls
  \<open>handleMessageError\<close>, which sets idle, before it sets error.
\<close>

theorem lifecycle_reaches_error_from_idle:
  "map_option lifecycle_changes
     (engine_run demo_platform (new_Session demo_platform (js ''s1'') 0) demo_outage) =
     Some [(Idle, Running), (Running, Idle), (Idle, Error)] \<and>
   map_option lifecycle_changes
     (engine_run demo_platform (new_Session demo_platform (js ''s1'') 0) demo_crash) =
     Some [(Idle, Running), (Running, Idle), (Idle, Error)]"
  by code_simp

lemma demo_outage_trace:
  "length (engine_trace demo_platform (new_Session demo_platform (js ''s1'') 0) demo_outage) = 3 \<and>
   fst (engine_trace demo_platform (new_Session demo_platform (js ''s1'') 0) demo_outage ! 2) =
     StreamFailure None 3 \<and>
   life (fst (snd (engine_trace demo_platform (new_Session demo_platform (js ''s1'') 0) demo_outage ! 2))) =
     (Idle, [Running, Idle])"
  by code_simp

theorem lifecycle_changes_have_causes_witness:
  "\<exists>s s'. (StreamFailure None 3, s, s') \<in>
            set (engine_trace demo_platform (new_Session demo_platform (js ''s1'') 0) demo_outage) \<and>
          sessionState s = Idle \<and> status_history s = [Running, Idle] \<and>
          status_history s' = [Running, Idle, Error] \<and> sessionState s' = Error \<and>
          lifecycle_changes s' = lifecycle_changes s @ [(Idle, Error)]"
proof -
  let ?tr = "engine_trace demo_platform (new_Session demo_platform (js ''s1'') 0) demo_outage"
  obtain op s s' where e: "?tr ! 2 = (op, s, s')" by (cases "?tr ! 2")
  have m: "(op, s, s') \<in> set ?tr"
    using demo_outage_trace e nth_mem [of 2 ?tr] by simp
  have o: "op = StreamFailure None 3" and l: "sessionState s = Idle" "status_history s = [Running, Idle]"
    using demo_outage_trace e by (simp_all add: life_def)
  have n: "\<not> late_answer op s" by (simp add: o)
  show ?thesis
    using lifecycle_changes_have_causes [OF m n] m o l by (intro exI [of _ s] exI [of _ s']) simp
qed

subsection \<open>Interrupt\<close>

text \<open>
  C9 as stated does not hold: a reasoning segment is opened, the user enqueues
  a second turn, and the session is interrupted with success.  Afterwards the
  state is idle, neither \<open>shouldAbortSession\<close> nor the in-flight mark is set,
  and the reasoning segment of the assistant message is still open.
\<close>

theorem interrupt_leaves_segment_open:
  "map_option (\<lambda>s. (sessionState s, shouldAbortSession s, isInterruptingResponse s,
                     map m_content (messages s)))
     (engine_run demo_platform (new_Session demo_platform (js ''s1'') 0) demo_stop_ops) =
   Some (Idle, False, False,
         [Str (js ''a''),
          Blocks [ThinkingBlock \<lparr>thinking = [], thinkingStartedAt = 2, thinkingDurationMs = None,
                                 thinkingStreamIndex = 0, isComplete = False\<rparr>],
          Str (js ''b'')])"
  by code_simp

lemma forceComplete_closed: "\<not> is_open_reasoning (forceComplete now b)"
  by (cases b) (simp_all add: forceComplete_def is_open_reasoning_def completeThinking_def)

lemma forceComplete_open:
  "\<not> isComplete t \<Longrightarrow> forceComplete now (ThinkingBlock t) =
     ThinkingBlock (t\<lparr>isComplete := True,
                      thinkingDurationMs :=
                        (if thinkingStartedAt t \<noteq> 0 then Some (now - thinkingStartedAt t) else None)\<rparr>)"
  by (simp add: forceComplete_def completeThinking_def)

lemma forceComplete_other: "\<not> is_open_reasoning b \<Longrightarrow> forceComplete now b = b"
  by (cases b) (simp_all add: forceComplete_def is_open_reasoning_def)

lemma handleMessageStopped_fields:
  "sessionState (handleMessageStopped now s) = Idle"
  "isStreamingMessage (handleMessageStopped now s) = False"
  "shouldAbortSession (handleMessageStopped now s) = shouldAbortSession s"
  "querySession (handleMessageStopped now s) = querySession s"
  by (simp_all add: handleMessageStopped_def Let_def setSessionState_def broadcast_def
        split: Content.splits)

lemma handleMessageStopped_messages:
  assumes "messages s \<noteq> []" and "m_role (last (messages s)) = Assistant"
    and "m_content (last (messages s)) = Blocks bs"
  shows "messages (handleMessageStopped now s) =
           butlast (messages s) @ [(last (messages s))\<lparr>m_content := Blocks (map (forceComplete now) bs)\<rparr>]"
  using assms
  by (simp add: handleMessageStopped_def Let_def setSessionState_def broadcast_def map_last_conv)

text \<open>
  C9, as the code has it.  An interrupt of a session with a live runtime
  handle, none being in flight, marks the interrupt as in flight, calls
  \<open>interrupt()\<close> on the handle once and leaves \<open>shouldAbortSession\<close> as it
  was.  When the runtime answers with success, the state becomes idle, the
  streaming and in-flight marks are cleared, \<open>shouldAbortSession\<close> is still
  unchanged, and when the last message of the log is an assistant message
  with a block array, every reasoning segment of that message is complete
  afterwards: each one that was open is marked complete with the elapsed time
  since its start (no duration when no start time is recorded), and every
  other block of it is unchanged.
\<close>

theorem interrupt_effect:
  "(querySession s = Some q \<and> \<not> isInterruptingResponse s \<longrightarrow>
      interruptBegin s =
        (Awaiting, s\<lparr>isInterruptingResponse := True,
                      querySession := Some (q\<lparr>interruptCalls := Suc (interruptCalls q)\<rparr>)\<rparr>) \<and>
      shouldAbortSession (snd (interruptBegin s)) = shouldAbortSession s) \<and>
   sessionState (interruptSettle True now s') = Idle \<and>
   \<not> isStreamingMessage (interruptSettle True now s') \<and>
   \<not> isInterruptingResponse (interruptSettle True now s') \<and>
   shouldAbortSession (interruptSettle True now s') = shouldAbortSession s' \<and>
   (messages s' \<noteq> [] \<and> m_role (last (messages s')) = Assistant \<and>
    m_content (last (messages s')) = Blocks bs \<longrightarrow>
      messages (interruptSettle True now s') =
        butlast (messages s') @
          [(last (messages s'))\<lparr>m_content := Blocks (map (forceComplete now) bs)\<rparr>] \<and>
      (\<forall>b\<in>set (map (forceComplete now) bs). \<not> is_open_reasoning b) \<and>
      (\<forall>k<length bs.
         (\<forall>t. bs ! k = ThinkingBlock t \<and> \<not> isComplete t \<longrightarrow>
            map (forceComplete now) bs ! k =
              ThinkingBlock (t\<lparr>isComplete := True,
                               thinkingDurationMs :=
                                 (if thinkingStartedAt t \<noteq> 0 then Some (now - thinkingStartedAt t)
                                  else None)\<rparr>)) \<and>
         (\<not> is_open_reasoning (bs ! k) \<longrightarrow> map (forceComplete now) bs ! k = bs ! k)))"
proof -
  have m: "messages (broadcast ChatMessageStopped s') = messages s'" by (simp add: broadcast_def)
  have a: "shouldAbortSession (broadcast ChatMessageStopped s') = shouldAbortSession s'"
    by (simp add: broadcast_def)
  show ?thesis
    using handleMessageStopped_messages [of "broadcast ChatMessageStopped s'" bs now]
    by (auto simp: interruptBegin_def interruptSettle_def handleMessageStopped_fields m a
          forceComplete_closed forceComplete_open forceComplete_other)
qed

lemma demo_thinking_facts:
  "querySession demo_thinking = Some \<lparr>interruptCalls = 0\<rparr>"
  "\<not> isInterruptingResponse demo_thinking"
  "messages demo_thinking \<noteq> []"
  "m_role (last (messages demo_thinking)) = Assistant"
  "m_content (last (messages demo_thinking)) = Blocks [ThinkingBlock demo_thought]"
  by code_simp+

theorem interrupt_effect_witness:
  "interruptBegin demo_thinking =
     (Awaiting, demo_thinking\<lparr>isInterruptingResponse := True,
                               querySession := Some \<lparr>interruptCalls = 1\<rparr>\<rparr>) \<and>
   sessionState (interruptSettle True 9 demo_thinking) = Idle \<and>
   currentBlocks (interruptSettle True 9 demo_thinking) =
     [ThinkingBlock (demo_thought\<lparr>isComplete := True, thinkingDurationMs := Some 7\<rparr>)]"
proof -
  note f = demo_thinking_facts
  note t = interrupt_effect [where s = demo_thinking and q = "\<lparr>interruptCalls = 0\<rparr>"
      and s' = demo_thinking and now = 9 and bs = "[ThinkingBlock demo_thought]"]
  have b: "interruptBegin demo_thinking =
     (Awaiting, demo_thinking\<lparr>isInterruptingResponse := True,
                               querySession := Some \<lparr>interruptCalls = 1\<rparr>\<rparr>)"
    using t f by simp
  have i: "sessionState (interruptSettle True 9 demo_thinking) = Idle"
    using t by blast
  have m: "messages (interruptSettle True 9 demo_thinking) =
        butlast (messages demo_thinking) @
          [(last (messages demo_thinking))
             \<lparr>m_content := Blocks (map (forceComplete 9) [ThinkingBlock demo_thought])\<rparr>]"
    using t f by blast
  have c: "currentBlocks (interruptSettle True 9 demo_thinking) =
     [ThinkingBlock (demo_thought\<lparr>isComplete := True, thinkingDurationMs := Some 7\<rparr>)]"
    by (simp add: currentBlocks_conv m forceComplete_def completeThinking_def demo_thought_def)
  show ?thesis using b i c by simp
qed

subsection \<open>Nested tool calls\<close>

named_theorems census

lemma tool_ids_append: "tool_ids (bs @ cs) = tool_ids bs @ tool_ids cs"
  by (induction bs) (simp_all add: tool_ids_Cons tool_ids_def List.map_filter_simps split: option.splits)

lemma tool_ids_Nil [simp]: "tool_ids [] = []"
  by (simp add: tool_ids_def List.map_filter_simps)

lemma tool_ids_update_tool [census]:
  "(\<And>t. t_id (f t) = t_id t) \<Longrightarrow> tool_ids (update_first P (map_tool f) bs) = tool_ids bs"
proof (induction bs)
  case Nil
  then show ?case by simp
next
  case (Cons b bs)
  then show ?case by (cases b) (simp_all add: tool_ids_Cons)
qed

lemma tool_ids_update_thinking [census]:
  "tool_ids (update_first P (map_thinking f) bs) = tool_ids bs"
proof (induction bs)
  case Nil
  then show ?case by simp
next
  case (Cons b bs)
  then show ?case by (cases b) (simp_all add: tool_ids_Cons)
qed

lemma tool_ids_map_forceComplete [census]: "tool_ids (map (forceComplete now) bs) = tool_ids bs"
proof (induction bs)
  case Nil
  then show ?case by simp
next
  case (Cons b bs)
  then show ?case by (cases b) (simp_all add: tool_ids_Cons forceComplete_def)
qed

lemma census_cong: "messages s' = messages s \<Longrightarrow> top_level_tool_ids s' = top_level_tool_ids s"
  by (simp add: top_level_tool_ids_def)

lemma census_broadcast [census]: "top_level_tool_ids (broadcast n s) = top_level_tool_ids s"
  by (rule census_cong) (simp add: broadcast_def)

lemma census_snoc:
  "top_level_tool_ids (s\<lparr>messages := messages s @ [m]\<rparr>) =
     top_level_tool_ids s @ tool_ids (contentArray m)"
  by (simp add: top_level_tool_ids_def segment_ids_def)

lemma census_map_last:
  "messages s \<noteq> [] \<Longrightarrow> tool_ids (contentArray (g (last (messages s)))) =
       tool_ids (contentArray (last (messages s))) @ extra \<Longrightarrow>
   top_level_tool_ids (s\<lparr>messages := map_last g (messages s)\<rparr>) = top_level_tool_ids s @ extra"
proof -
  assume ne: "messages s \<noteq> []"
    and g: "tool_ids (contentArray (g (last (messages s)))) =
       tool_ids (contentArray (last (messages s))) @ extra"
  have "segment_ids (messages s) =
        segment_ids (butlast (messages s)) @ [tool_ids (contentArray (last (messages s)))]"
    using ne by (metis (no_types, lifting) append_butlast_last_id list.simps(8,9) map_append
        segment_ids_def)
  then show ?thesis
    using ne g by (simp add: top_level_tool_ids_def map_last_conv segment_ids_def)
qed

lemma census_mutateBlocks:
  "messages s \<noteq> [] \<Longrightarrow> tool_ids (f (currentBlocks s)) = tool_ids (currentBlocks s) @ extra \<Longrightarrow>
   top_level_tool_ids (mutateBlocks f s) = top_level_tool_ids s @ extra"
  unfolding mutateBlocks_def
  by (rule census_map_last) (simp_all add: currentBlocks_conv)

lemma census_ensureAssistantMessage [census]:
  "top_level_tool_ids (ensureAssistantMessage now s) = top_level_tool_ids s"
  by (simp add: ensureAssistantMessage_def top_level_tool_ids_def segment_ids_def)

lemma census_openContentArray [census]:
  "top_level_tool_ids (openContentArray now s) = top_level_tool_ids s"
proof -
  let ?s1 = "ensureAssistantMessage now s"
  have ne: "messages ?s1 \<noteq> []" by (simp add: ensureAssistantMessage_def)
  have "tool_ids (contentArray (ensureContentArray (last (messages ?s1)))) =
        tool_ids (contentArray (last (messages ?s1))) @ []"
    by (simp add: ensureContentArray_def tool_ids_Cons split: Content.splits)
  from census_map_last [where s = ?s1 and g = ensureContentArray and extra = "[]", OF ne this]
  show ?thesis by (simp add: openContentArray_def Let_def census)
qed

lemma census_open_mutate:
  "(\<And>bs. tool_ids (f bs) = tool_ids bs @ extra) \<Longrightarrow>
   top_level_tool_ids (mutateBlocks f (openContentArray now s)) = top_level_tool_ids s @ extra"
  using census_mutateBlocks [of "openContentArray now s" f extra]
  by (simp add: census)

lemma segment_ids_mutate_tool_rev:
  "(\<And>t. t_id (f t) = t_id t) \<Longrightarrow> segment_ids (mutate_tool_rev i f ms) = segment_ids ms"
proof (induction ms)
  case Nil
  then show ?case by (simp add: segment_ids_def)
next
  case (Cons m ms)
  then show ?case
    by (auto simp: segment_ids_def tool_ids_update_tool split: Content.splits option.splits)
qed

lemma segment_ids_rev: "segment_ids (rev ms) = rev (segment_ids ms)"
  by (simp add: segment_ids_def rev_map)

lemma census_mutateTool:
  "(\<And>t. t_id (f t) = t_id t) \<Longrightarrow> top_level_tool_ids (mutateTool i f s) = top_level_tool_ids s"
  by (simp add: top_level_tool_ids_def mutateTool_def segment_ids_rev segment_ids_mutate_tool_rev)

lemma census_appendTextChunk [census]:
  "top_level_tool_ids (appendTextChunk now t s) = top_level_tool_ids s"
proof -
  let ?s1 = "ensureAssistantMessage now s"
  let ?g = "\<lambda>m. case m_content m of
                Str t' \<Rightarrow> m\<lparr>m_content := Str (t' @ t)\<rparr>
              | Blocks bs \<Rightarrow>
                  (case (if bs = [] then None else Some (last bs)) of
                     Some (TextBlock t') \<Rightarrow> m\<lparr>m_content := Blocks (butlast bs @ [TextBlock (t' @ t)])\<rparr>
                   | _ \<Rightarrow> m\<lparr>m_content := Blocks (bs @ [TextBlock t])\<rparr>)"
  have ne: "messages ?s1 \<noteq> []" by (simp add: ensureAssistantMessage_def)
  have tb: "tool_ids (butlast bs) = tool_ids bs"
    if "bs \<noteq> []" "last bs = TextBlock y" for bs y
  proof -
    have "bs = butlast bs @ [TextBlock y]" using that by (metis append_butlast_last_id)
    then have "tool_ids bs = tool_ids (butlast bs @ [TextBlock y])" by simp
    then show ?thesis by (simp add: tool_ids_append tool_ids_Cons)
  qed
  have "tool_ids (contentArray (?g m)) = tool_ids (contentArray m) @ []" for m
    by (auto simp: tool_ids_append tool_ids_Cons tb split: Content.splits ContentBlock.splits)
  from census_map_last [where s = ?s1 and g = ?g and extra = "[]", OF ne this]
  show ?thesis by (simp add: appendTextChunk_def Let_def census)
qed

lemma census_handleThinkingStart [census]:
  "top_level_tool_ids (handleThinkingStart now i s) = top_level_tool_ids s"
  unfolding handleThinkingStart_def
  using census_open_mutate [where extra = "[]"]
  by (simp add: tool_ids_append tool_ids_Cons)

lemma census_handleThinkingChunk [census]:
  "top_level_tool_ids (handleThinkingChunk now i d s) = top_level_tool_ids s"
  unfolding handleThinkingChunk_def
  using census_open_mutate [where extra = "[]"]
  by (simp add: census)

lemma census_handleToolUseStart:
  "top_level_tool_ids (handleToolUseStart now tid nm inp i s) = top_level_tool_ids s @ [tid]"
  unfolding handleToolUseStart_def
  by (rule census_open_mutate) (simp add: tool_ids_append tool_ids_Cons)

lemma census_handleToolInputDelta [census]:
  "top_level_tool_ids (handleToolInputDelta pf now i t d s) = top_level_tool_ids s"
  unfolding handleToolInputDelta_def
  using census_open_mutate [where extra = "[]"]
  by (simp add: census toolInputDelta_def Let_def)

lemma census_handleContentBlockStop [census]:
  "top_level_tool_ids (handleContentBlockStop pf now i t s) = top_level_tool_ids s"
  unfolding handleContentBlockStop_def Let_def
  using census_open_mutate [where extra = "[]"]
  by (simp add: census split: option.splits)

lemma census_fields [census]:
  "top_level_tool_ids (s\<lparr>childToolToParent := x\<rparr>) = top_level_tool_ids s"
  "top_level_tool_ids (s\<lparr>streamIndexToToolId := y\<rparr>) = top_level_tool_ids s"
  "top_level_tool_ids (s\<lparr>toolResultIndexToId := z\<rparr>) = top_level_tool_ids s"
  by (simp_all add: top_level_tool_ids_def)

lemma census_handleSubagentToolUseStart [census]:
  "top_level_tool_ids (handleSubagentToolUseStart pf p tool s) = top_level_tool_ids s"
  by (simp add: handleSubagentToolUseStart_def census split: option.splits)
     (subst census_mutateTool; simp add: census split: option.splits)

lemma census_ensureSubagentToolPlaceholder [census]:
  "top_level_tool_ids (ensureSubagentToolPlaceholder p t s) = top_level_tool_ids s"
  by (simp add: ensureSubagentToolPlaceholder_def census_mutateTool census split: option.splits)

lemma census_mutateSubCall [census]:
  "top_level_tool_ids (snd (mutateSubCall p t f s)) = top_level_tool_ids s"
  by (simp add: mutateSubCall_def census_mutateTool split: option.splits)

lemma census_handleSubagentToolInputDelta [census]:
  "top_level_tool_ids (handleSubagentToolInputDelta pf p t d s) = top_level_tool_ids s"
  by (simp add: handleSubagentToolInputDelta_def census)

lemma census_finalizeSubagentToolInput [census]:
  "top_level_tool_ids (finalizeSubagentToolInput pf p t s) = top_level_tool_ids s"
  by (simp add: finalizeSubagentToolInput_def census)

lemma census_setToolResult [census]:
  "top_level_tool_ids (setToolResult t c e s) = top_level_tool_ids s"
  by (simp add: setToolResult_def split: option.splits)
     (intro allI impI census_mutateTool; simp split: option.splits)

lemma census_appendToolResultContent [census]:
  "top_level_tool_ids (snd (appendToolResultContent t c e s)) = top_level_tool_ids s"
  by (simp add: appendToolResultContent_def Let_def census)

lemma census_handleSubagentToolResultStart [census]:
  "top_level_tool_ids (snd (handleSubagentToolResultStart t c e s)) = top_level_tool_ids s"
  by (simp add: handleSubagentToolResultStart_def census split: option.splits)

lemma census_handleSubagentToolResultComplete [census]:
  "top_level_tool_ids (snd (handleSubagentToolResultComplete t c e s)) = top_level_tool_ids s"
  by (simp add: handleSubagentToolResultComplete_def census split: option.splits)

lemma census_appendSubagentToolResultDelta [census]:
  "top_level_tool_ids (snd (appendSubagentToolResultDelta t d s)) = top_level_tool_ids s"
  by (simp add: appendSubagentToolResultDelta_def census split: option.splits)

lemma census_finalizeSubagentToolResult [census]:
  "top_level_tool_ids (snd (finalizeSubagentToolResult t s)) = top_level_tool_ids s"
  by (simp add: finalizeSubagentToolResult_def census split: option.splits)

lemma census_appendToolResultDelta [census]:
  "top_level_tool_ids (appendToolResultDelta t d s) = top_level_tool_ids s"
  by (simp add: appendToolResultDelta_def case_pair_bool census census_mutateTool
        split: option.splits)

lemma census_handleToolResultStart [census]:
  "top_level_tool_ids (handleToolResultStart t c e s) = top_level_tool_ids s"
  by (simp add: handleToolResultStart_def case_pair_bool census)

lemma census_handleToolResultComplete [census]:
  "top_level_tool_ids (handleToolResultComplete t c e s) = top_level_tool_ids s"
  by (simp add: handleToolResultComplete_def case_pair_bool census)

lemma census_onTextDelta [census]: "top_level_tool_ids (onTextDelta now p t s) = top_level_tool_ids s"
  by (simp add: onTextDelta_def census split: option.splits)

lemma census_onInputJsonDelta [census]:
  "top_level_tool_ids (onInputJsonDelta pf now p i d s) = top_level_tool_ids s"
  by (simp add: onInputJsonDelta_def Let_def census)

lemma census_onToolUseStart:
  "top_level_tool_ids (onToolUseStart pf now p i tid nm inp s) =
     top_level_tool_ids s @ (if str_truthy p then [] else [tid])"
  by (simp add: onToolUseStart_def Let_def census census_handleToolUseStart)

lemma census_onToolResultStart [census]:
  "top_level_tool_ids (onToolResultStart pf p i t c e s) = top_level_tool_ids s"
  by (simp add: onToolResultStart_def Let_def census)

lemma census_onContentBlockStop [census]:
  "top_level_tool_ids (onContentBlockStop pf now p i s) = top_level_tool_ids s"
  by (simp add: onContentBlockStop_def Let_def case_pair_bool census split: option.splits)

lemma census_routeToolResultComplete [census]:
  "top_level_tool_ids (routeToolResultComplete p t c e s) = top_level_tool_ids s"
  by (simp add: routeToolResultComplete_def Let_def census)

lemma census_foldl:
  "(\<And>s x. top_level_tool_ids (f s x) = top_level_tool_ids s) \<Longrightarrow>
   top_level_tool_ids (foldl f s xs) = top_level_tool_ids s"
  by (induction xs arbitrary: s) simp_all

lemma census_onUserBlock [census]: "top_level_tool_ids (onUserBlock pf p s it) = top_level_tool_ids s"
  by (simp add: onUserBlock_def census split: item.splits option.splits)

lemma census_onUserMessage [census]:
  "top_level_tool_ids (onUserMessage pf p c s) = top_level_tool_ids s"
  by (simp add: onUserMessage_def census_foldl census)

lemma census_onAssistantToolUse [census]:
  "top_level_tool_ids (onAssistantToolUse pf p s it) = top_level_tool_ids s"
  by (simp add: onAssistantToolUse_def Let_def census split: item.splits option.splits prod.splits)

lemma census_onAssistantToolResult [census]:
  "top_level_tool_ids (onAssistantToolResult pf p s it) = top_level_tool_ids s"
  by (simp add: onAssistantToolResult_def census split: item.splits option.splits prod.splits)

lemma census_onAssistantMessage [census]:
  "top_level_tool_ids (onAssistantMessage pf p c s) = top_level_tool_ids s"
proof -
  have a: "top_level_tool_ids (case appendToolResultContent i t None s' of
                   (next, s'') \<Rightarrow> broadcast (ChatToolResultComplete i next None) s'') =
           top_level_tool_ids s'"
    for i t s'
    using census_appendToolResultContent [of i t None s']
    by (cases "appendToolResultContent i t None s'") (simp add: census)
  show ?thesis
    by (simp add: onAssistantMessage_def Let_def census_foldl a census)
qed

lemma census_setSessionState [census]:
  "top_level_tool_ids (setSessionState st s) = top_level_tool_ids s"
  by (rule census_cong) (simp add: setSessionState_def broadcast_def)

lemma census_handleMessageComplete [census]:
  "top_level_tool_ids (handleMessageComplete s) = top_level_tool_ids s"
  by (simp add: handleMessageComplete_def census) (simp add: top_level_tool_ids_def)

lemma census_reconcile:
  "top_level_tool_ids (reconcile pf now msg s) = top_level_tool_ids s @ message_starts msg"
  by (simp add: reconcile_def census census_onToolUseStart
        split: sdk_body.splits stream_event.splits stream_delta.splits content_block.splits
          option.splits)

lemma census_updateNameFromFirstMessage [census]:
  "top_level_tool_ids (updateNameFromFirstMessage s) = top_level_tool_ids s"
  by (rule census_cong) (simp add: updateNameFromFirstMessage_def split: list.splits)

lemma census_enqueueTurn [census]: "top_level_tool_ids (enqueueTurn now t s) = top_level_tool_ids s"
proof -
  let ?s1 = "setSessionState Running (s\<lparr>lastMessageAt := now\<rparr>)"
  let ?m = "\<lparr>m_id = messageSequence ?s1, m_role = User, m_content = Str t, m_timestamp = now\<rparr>"
  have "top_level_tool_ids (?s1\<lparr>messages := messages ?s1 @ [?m], messageSequence := Suc (messageSequence ?s1)\<rparr>) =
        top_level_tool_ids ?s1"
    by (simp add: top_level_tool_ids_def segment_ids_def)
  moreover have "top_level_tool_ids ?s1 = top_level_tool_ids s"
    by (simp add: census) (simp add: top_level_tool_ids_def)
  ultimately show ?thesis by (simp add: enqueueTurn_def Let_def census)
qed

lemma census_startStreamingSession [census]:
  "top_level_tool_ids (startStreamingSession s) = top_level_tool_ids s"
  by (rule census_cong) (simp add: startStreamingSession_def Let_def setSessionState_def broadcast_def)

lemma census_enqueueStart [census]: "top_level_tool_ids (enqueueStart t s) = top_level_tool_ids s"
proof -
  have "messages (enqueueStart t s) = messages (if \<not> isSessionActive s then startStreamingSession s else s)"
    by (simp add: enqueueStart_def Let_def)
  then have "top_level_tool_ids (enqueueStart t s) =
             top_level_tool_ids (if \<not> isSessionActive s then startStreamingSession s else s)"
    by (rule census_cong)
  then show ?thesis by (simp add: census)
qed

lemma census_streamFinally [census]: "top_level_tool_ids (streamFinally s) = top_level_tool_ids s"
  by (rule census_cong) (simp add: streamFinally_def Let_def setSessionState_def broadcast_def)

lemma census_handleMessageError [census]:
  "top_level_tool_ids (handleMessageError now e s) = top_level_tool_ids s"
  by (simp add: handleMessageError_def Let_def top_level_tool_ids_def segment_ids_def
        setSessionState_def broadcast_def)

lemma census_streamFailed [census]: "top_level_tool_ids (streamFailed now e s) = top_level_tool_ids s"
  by (simp add: streamFailed_def Let_def census)

lemma census_handleMessageStopped [census]:
  "top_level_tool_ids (handleMessageStopped now s) = top_level_tool_ids s"
proof -
  let ?s1 = "setSessionState Idle (s\<lparr>isStreamingMessage := False\<rparr>)"
  have c1: "top_level_tool_ids ?s1 = top_level_tool_ids s"
    by (simp add: census) (simp add: top_level_tool_ids_def)
  have "top_level_tool_ids
          (?s1\<lparr>messages := map_last (\<lambda>m. m\<lparr>m_content := Blocks (map (forceComplete now) bs)\<rparr>)
                               (messages ?s1)\<rparr>) = top_level_tool_ids ?s1 @ []"
    if "messages ?s1 \<noteq> []" "m_content (last (messages ?s1)) = Blocks bs" for bs
    using that by (intro census_map_last) (simp_all add: census)
  then show ?thesis
    using c1 by (simp add: handleMessageStopped_def Let_def split: Content.splits)
qed

lemma census_interruptSettle [census]:
  "top_level_tool_ids (interruptSettle ok now s) = top_level_tool_ids s"
proof -
  have "top_level_tool_ids ((handleMessageStopped now (broadcast ChatMessageStopped s))
            \<lparr>isInterruptingResponse := False\<rparr>) =
        top_level_tool_ids (handleMessageStopped now (broadcast ChatMessageStopped s))"
    by (rule census_cong) simp
  moreover have "top_level_tool_ids (s\<lparr>isInterruptingResponse := False\<rparr>) = top_level_tool_ids s"
    by (rule census_cong) simp
  ultimately show ?thesis by (simp add: interruptSettle_def census)
qed

lemma census_interruptBegin [census]:
  "top_level_tool_ids (snd (interruptBegin s)) = top_level_tool_ids s"
  by (rule census_cong) (simp add: interruptBegin_def split: option.splits)

lemma census_messageGenerator [census]:
  "top_level_tool_ids (messageGenerator s) = top_level_tool_ids s"
  by (rule census_cong) (simp add: messageGenerator_def)

lemma census_streamMessage:
  "set (top_level_tool_ids (streamMessage pf now msg s)) \<subseteq>
     set (top_level_tool_ids s) \<union> set (message_starts msg)"
proof -
  let ?s1 = "case raw msg of
                  Some r \<Rightarrow> appendLogLine (toISOString pf now @ js '' '' @ r) s
                | None \<Rightarrow> s"
  let ?s2 = "case parseSystemInitInfo now msg of
                  Some info \<Rightarrow> broadcast (ChatSystemInit info) (?s1\<lparr>systemInitInfo := Some info\<rparr>)
                | None \<Rightarrow> ?s1"
  let ?s3 = "case extractAgentError pf msg of
                  Some e \<Rightarrow> if e \<noteq> [] then broadcast (ChatAgentError e) ?s2 else ?s2
                | None \<Rightarrow> ?s2"
  have l1: "top_level_tool_ids ?s1 = top_level_tool_ids s"
    by (cases "raw msg") (simp_all add: appendLogLine_def Let_def census, simp add: top_level_tool_ids_def)
  have l2: "top_level_tool_ids ?s2 = top_level_tool_ids ?s1"
    by (cases "parseSystemInitInfo now msg") (simp_all add: census, simp add: top_level_tool_ids_def)
  have l3: "top_level_tool_ids ?s3 = top_level_tool_ids ?s2"
    by (cases "extractAgentError pf msg") (simp_all add: census)
  have "set (top_level_tool_ids (if shouldAbortSession ?s3 then streamFinally ?s3
                                  else reconcile pf now msg ?s3)) \<subseteq>
        set (top_level_tool_ids ?s3) \<union> set (message_starts msg)"
    by (simp add: census census_reconcile del: message_starts.simps)
  then show ?thesis
    using l1 l2 l3 unfolding streamMessage_def Let_def by simp
qed

lemma census_engine_step:
  "engine_step pf s op = Some s' \<Longrightarrow>
   set (top_level_tool_ids s') \<subseteq> set (top_level_tool_ids s) \<union> set (top_starts [op])"
proof (cases op)
  case (RuntimeMessage msg now)
  assume "engine_step pf s op = Some s'"
  with RuntimeMessage have "s' = streamMessage pf now msg s" by (simp split: if_splits)
  with RuntimeMessage census_streamMessage [of pf now msg s] show ?thesis
    by (simp del: message_starts.simps)
qed (auto simp: census split: if_splits)

lemma top_starts_Cons: "set (top_starts (op # ops)) = set (top_starts [op]) \<union> set (top_starts ops)"
  by (cases op) auto

lemma census_engine_run:
  "engine_run pf s ops = Some s' \<Longrightarrow>
   set (top_level_tool_ids s') \<subseteq> set (top_level_tool_ids s) \<union> set (top_starts ops)"
proof (induction ops arbitrary: s)
  case Nil
  then show ?case by simp
next
  case (Cons op ops)
  then obtain s1 where s1: "engine_step pf s op = Some s1" "engine_run pf s1 ops = Some s'"
    by (auto split: option.splits)
  from census_engine_step [OF s1(1)] Cons.IH [OF s1(2)]
  show ?case unfolding top_starts_Cons [of op ops] by blast
qed

lemma strip_update_first:
  "(\<And>t. (f t)\<lparr>t_subagentCalls := None\<rparr> = t\<lparr>t_subagentCalls := None\<rparr>) \<Longrightarrow>
   map strip_block (update_first P (map_tool f) bs) = map strip_block bs"
proof (induction bs)
  case Nil
  then show ?case by simp
next
  case (Cons b bs)
  then show ?case by (cases b) (simp_all add: strip_block_def)
qed

lemma strip_mutate_tool_rev:
  "(\<And>t. (f t)\<lparr>t_subagentCalls := None\<rparr> = t\<lparr>t_subagentCalls := None\<rparr>) \<Longrightarrow>
   map strip_message (mutate_tool_rev i f ms) = map strip_message ms"
proof (induction ms)
  case Nil
  then show ?case by simp
next
  case (Cons m ms)
  then show ?case
    by (auto simp: strip_message_def strip_update_first split: Content.splits option.splits)
qed

lemma strip_mutateTool:
  "(\<And>t. (f t)\<lparr>t_subagentCalls := None\<rparr> = t\<lparr>t_subagentCalls := None\<rparr>) \<Longrightarrow>
   map strip_message (messages (mutateTool i f s)) = map strip_message (messages s)"
  by (simp add: mutateTool_def rev_map [symmetric] strip_mutate_tool_rev)

lemma strip_handleSubagentToolUseStart:
  "map strip_message (messages (handleSubagentToolUseStart pf p tool s)) =
   map strip_message (messages s)"
proof (cases "findToolBlockById s p")
  case None
  then show ?thesis by (simp add: handleSubagentToolUseStart_def)
next
  case (Some pt)
  then show ?thesis
    by (simp add: handleSubagentToolUseStart_def)
       (subst strip_mutateTool; simp split: option.splits)
qed

lemma ids_update_first:
  "(\<And>c. sc_id (g c) = sc_id c) \<Longrightarrow> map sc_id (update_first P g xs) = map sc_id xs"
  by (induction xs) auto

lemma find_Some_mem: "find P xs = Some x \<Longrightarrow> x \<in> set xs \<and> P x"
  by (induction xs) (auto split: if_splits)

lemma subagent_start_listed:
  assumes "findToolBlockById s p = Some pt"
  shows "\<exists>pt'. findToolBlockById (handleSubagentToolUseStart pf p tool s) p = Some pt' \<and>
               tp_id tool \<in> set (map sc_id (calls_of pt'))"
proof -
  let ?f = "\<lambda>t. case find (\<lambda>c. sc_id c = tp_id tool) (calls_of t) of
                Some existing \<Rightarrow>
                  t\<lparr>t_subagentCalls := Some (update_first (\<lambda>c. sc_id c = tp_id tool)
                       (\<lambda>c. c\<lparr>sc_name := tp_name tool, sc_input := tp_input tool,
                              sc_streamIndex := tp_streamIndex tool\<rparr>) (calls_of t))\<rparr>
              | None \<Rightarrow>
                  t\<lparr>t_subagentCalls := Some (calls_of t @
                       [\<lparr>sc_id = tp_id tool, sc_name = tp_name tool, sc_input = tp_input tool,
                         sc_streamIndex = tp_streamIndex tool,
                         sc_inputJson = Some (JSON_stringify2 pf (tp_input tool)),
                         sc_parsedInput = None, sc_result = None, sc_isLoading = Some True,
                         sc_isError = None\<rparr>])\<rparr>"
  let ?s' = "s\<lparr>childToolToParent := AList.update (tp_id tool) p (childToolToParent s)\<rparr>"
  have g: "findToolBlockById ?s' p = Some pt"
    using assms by (simp add: findToolBlockById_def)
  have pid: "t_id (?f t) = t_id t" for t by (simp split: option.splits)
  have e: "handleSubagentToolUseStart pf p tool s = mutateTool p ?f ?s'"
    using assms by (simp add: handleSubagentToolUseStart_def)
  have f: "findToolBlockById (handleSubagentToolUseStart pf p tool s) p = Some (?f pt)"
    unfolding e using findToolBlockById_mutateTool [of ?f p ?s', OF pid] g by simp
  have "tp_id tool \<in> set (map sc_id (calls_of (?f pt)))"
  proof (cases "find (\<lambda>c. sc_id c = tp_id tool) (calls_of pt)")
    case None
    then show ?thesis by (simp add: calls_of_def)
  next
    case (Some existing)
    then have "tp_id tool \<in> set (map sc_id (calls_of pt))"
      using find_Some_mem [OF Some] by force
    then show ?thesis
      using Some by (simp add: calls_of_def ids_update_first)
  qed
  with f show ?thesis by blast
qed

lemma census_new_Session: "top_level_tool_ids (new_Session pf uid now) = []"
  by (simp add: top_level_tool_ids_def new_Session_def segment_ids_def)

lemma nested_start_reconcile:
  "p \<noteq> [] \<Longrightarrow>
   reconcile pf now (subagent_event p (ContentBlockStart index (ToolUseStart tid nm inp))) s =
     handleSubagentToolUseStart pf p
       \<lparr>tp_id = tid, tp_name = nm, tp_input = or_empty_object inp, tp_streamIndex = Some index\<rparr>
       (broadcast (ChatSubagentToolUse p
                     \<lparr>tp_id = tid, tp_name = nm, tp_input = or_empty_object inp,
                      tp_streamIndex = Some index\<rparr>)
          (s\<lparr>streamIndexToToolId := AList.update index tid (streamIndexToToolId s)\<rparr>))"
  by (simp add: reconcile_def subagent_event_def onToolUseStart_def Let_def)

text \<open>
  C4.  Over every run of the engine from a new session, every tool segment at
  the top level of a message of the log has the id of a tool-invocation start
  that carried no parent tool id: a start tagged with a parent never produces
  a top-level segment.  The step for such a start leaves every message of the
  log as it was apart from the call lists of tool records, with the same
  top-level tool segments; and when the parent's record exists, the child is
  afterwards a call in the parent's call list.
\<close>

theorem nested_start_never_top_level:
  "(engine_run pf (new_Session pf uid t0) ops = Some s \<longrightarrow>
      set (top_level_tool_ids s) \<subseteq> set (top_starts ops)) \<and>
   (p \<noteq> [] \<longrightarrow>
      map strip_message
        (messages (reconcile pf now
           (subagent_event p (ContentBlockStart index (ToolUseStart tid nm inp))) s1)) =
      map strip_message (messages s1) \<and>
      top_level_tool_ids (reconcile pf now
           (subagent_event p (ContentBlockStart index (ToolUseStart tid nm inp))) s1) =
      top_level_tool_ids s1) \<and>
   (p \<noteq> [] \<and> findToolBlockById s1 p = Some pt \<longrightarrow>
      (\<exists>pt'. findToolBlockById (reconcile pf now
                  (subagent_event p (ContentBlockStart index (ToolUseStart tid nm inp))) s1) p =
               Some pt' \<and>
             tid \<in> set (map sc_id (calls_of pt'))))"
proof (intro conjI impI)
  assume "engine_run pf (new_Session pf uid t0) ops = Some s"
  from census_engine_run [OF this]
  show "set (top_level_tool_ids s) \<subseteq> set (top_starts ops)"
    by (simp add: census_new_Session)
next
  assume p: "p \<noteq> []"
  show "map strip_message
        (messages (reconcile pf now
           (subagent_event p (ContentBlockStart index (ToolUseStart tid nm inp))) s1)) =
      map strip_message (messages s1)"
    by (simp add: nested_start_reconcile [OF p] strip_handleSubagentToolUseStart)
       (simp add: broadcast_def)
  show "top_level_tool_ids (reconcile pf now
           (subagent_event p (ContentBlockStart index (ToolUseStart tid nm inp))) s1) =
      top_level_tool_ids s1"
    by (simp add: nested_start_reconcile [OF p] census)
next
  assume h: "p \<noteq> [] \<and> findToolBlockById s1 p = Some pt"
  let ?tool = "\<lparr>tp_id = tid, tp_name = nm, tp_input = or_empty_object inp, tp_streamIndex = Some index\<rparr>"
  let ?s2 = "broadcast (ChatSubagentToolUse p ?tool)
          (s1\<lparr>streamIndexToToolId := AList.update index tid (streamIndexToToolId s1)\<rparr>)"
  have f: "findToolBlockById ?s2 p = Some pt"
    using h by (simp add: findToolBlockById_def broadcast_def)
  from subagent_start_listed [OF f, of pf ?tool] h
  show "\<exists>pt'. findToolBlockById (reconcile pf now
                  (subagent_event p (ContentBlockStart index (ToolUseStart tid nm inp))) s1) p =
               Some pt' \<and>
             tid \<in> set (map sc_id (calls_of pt'))"
    by (simp add: nested_start_reconcile)
qed

lemma demo_nested_runs:
  "engine_run demo_platform (new_Session demo_platform (js ''s1'') 0) demo_nested_ops \<noteq> None"
  by code_simp

lemma demo_nested_starts: "top_starts demo_nested_ops = [js ''t1'']"
  by code_simp

theorem nested_start_never_top_level_witness:
  "(\<exists>s. engine_run demo_platform (new_Session demo_platform (js ''s1'') 0) demo_nested_ops = Some s \<and>
        set (top_level_tool_ids s) \<subseteq> {js ''t1''}) \<and>
   top_level_tool_ids (reconcile demo_platform 3
      (subagent_event (js ''t1'') (ContentBlockStart 0 (ToolUseStart (js ''c1'') (js ''Grep'') None)))
      demo_parent) = top_level_tool_ids demo_parent \<and>
   (\<exists>pt'. findToolBlockById (reconcile demo_platform 3
      (subagent_event (js ''t1'') (ContentBlockStart 0 (ToolUseStart (js ''c1'') (js ''Grep'') None)))
      demo_parent) (js ''t1'') = Some pt' \<and> js ''c1'' \<in> set (map sc_id (calls_of pt')))"
proof -
  obtain s where r: "engine_run demo_platform (new_Session demo_platform (js ''s1'') 0) demo_nested_ops = Some s"
    using demo_nested_runs by blast
  note t = nested_start_never_top_level [where pf = demo_platform and uid = "js ''s1''" and ?t0.0 = 0
      and ops = demo_nested_ops and p = "js ''t1''" and now = 3 and index = 0 and tid = "js ''c1''"
      and nm = "js ''Grep''" and inp = None and ?s1.0 = demo_parent
      and pt = "demo_tool\<lparr>t_subagentCalls := None\<rparr>" and s = s]
  have ne: "js ''t1'' \<noteq> []" by (simp add: js_def)
  have f: "findToolBlockById demo_parent (js ''t1'') = Some (demo_tool\<lparr>t_subagentCalls := None\<rparr>)"
    by code_simp
  have a: "set (top_level_tool_ids s) \<subseteq> {js ''t1''}"
    using t [THEN conjunct1] r by (simp add: demo_nested_starts)
  have b: "top_level_tool_ids (reconcile demo_platform 3
      (subagent_event (js ''t1'') (ContentBlockStart 0 (ToolUseStart (js ''c1'') (js ''Grep'') None)))
      demo_parent) = top_level_tool_ids demo_parent"
    using t [THEN conjunct2, THEN conjunct1] ne by blast
  have c: "\<exists>pt'. findToolBlockById (reconcile demo_platform 3
      (subagent_event (js ''t1'') (ContentBlockStart 0 (ToolUseStart (js ''c1'') (js ''Grep'') None)))
      demo_parent) (js ''t1'') = Some pt' \<and> js ''c1'' \<in> set (map sc_id (calls_of pt'))"
    using t [THEN conjunct2, THEN conjunct2] ne f by blast
  show ?thesis using r a b c by blast
qed

end
